theory Spec2Isabelle
  imports Complex_Main "HOL-Library.Char_ord" "HOL-Library.List_Lexorder" "HOL-Library.Multiset"
begin

section \<open>Values, tables and the world of the two scripts\<close>

text \<open>
  The repository holds two Python scripts: \<^verbatim>\<open>ml-predict/data/data.py\<close> draws a table of
  synthetic agricultural samples and writes it to a CSV file, and
  \<^verbatim>\<open>ml-predict/models/model_training.py\<close> (with a copy under \<^verbatim>\<open>src/ml-predict/models\<close>)
  reads that file, one-hot encodes the climate column, splits the rows, fits a random
  forest and stores it. Every exception the scripts can meet is a value of \<open>error\<close>; a
  script returns the exception that ended it, if any, and the world it left behind.
\<close>

datatype error =
  ValueError | KeyError | IndexError | FileNotFoundError | EmptyDataError | ParserError | OSError

text \<open>
  A cell of a pandas table: a float64 number, a Python string, a boolean, or the missing
  value NaN. A column is the list of its cells, a frame the list of its named columns in
  order (a name may occur twice after \<open>get_dummies\<close>).
\<close>

datatype cell = Num real | Str string | Flag bool | NaN

type_synonym column = "cell list"

type_synonym frame = "(string \<times> column) list"

fun is_Num :: "cell \<Rightarrow> bool" where
  "is_Num (Num x) = True"
| "is_Num c = False"

fun is_Str :: "cell \<Rightarrow> bool" where
  "is_Str (Str s) = True"
| "is_Str c = False"

fun is_Flag :: "cell \<Rightarrow> bool" where
  "is_Flag (Flag b) = True"
| "is_Flag c = False"

fun un_Num :: "cell \<Rightarrow> real" where
  "un_Num (Num x) = x"
| "un_Num c = 0"

fun un_Str :: "cell \<Rightarrow> string" where
  "un_Str (Str s) = s"
| "un_Str c = []"

fun un_Flag :: "cell \<Rightarrow> bool" where
  "un_Flag (Flag b) = b"
| "un_Flag c = False"

text \<open>\<open>len(df)\<close>: the number of rows, read off the first column.\<close>

fun nrows :: "frame \<Rightarrow> nat" where
  "nrows [] = 0"
| "nrows ((name, col) # df) = length col"

text \<open>Every column of a pandas frame has the same length; \<open>wf_frame\<close> says so.\<close>

definition wf_frame :: "frame \<Rightarrow> bool" where
  "wf_frame df = list_all (\<lambda>(name, col). length col = nrows df) df"

text \<open>
  The classification report of scikit-learn: one row per label with precision, recall,
  F1 and support, then the accuracy and the macro and weighted averages.
\<close>

record class_row =
  row_label :: cell
  row_precision :: real
  row_recall :: real
  row_f1 :: real
  row_support :: nat

record report =
  report_rows :: "class_row list"
  report_accuracy :: cell
  report_macro_avg :: "cell \<times> cell \<times> cell"
  report_weighted_avg :: "cell \<times> cell \<times> cell"
  report_support :: nat

text \<open>What \<open>print\<close> receives: one printed line is the list of its arguments.\<close>

datatype out = OutText string | OutFrame frame | OutCell cell | OutReport report

record world =
  files :: "string \<rightharpoonup> string"
  writable :: "string \<Rightarrow> bool"
  stdout :: "out list list"

definition py_print :: "world \<Rightarrow> out list \<Rightarrow> world" where
  "py_print w args = w\<lparr>stdout := stdout w @ [args]\<rparr>"

definition write_file :: "world \<Rightarrow> string \<Rightarrow> string \<Rightarrow> error + world" where
  "write_file w path contents =
     (if writable w path then Inr (w\<lparr>files := (files w)(path \<mapsto> contents)\<rparr>) else Inl OSError)"

section \<open>Exceptions in straight-line code\<close>

text \<open>
  Neither script has a \<open>try\<close> statement. \<open>raising r k\<close> is a statement of a function body
  whose call \<open>r\<close> may raise: the exception leaves the function, a value goes on to the
  rest \<open>k\<close> of the body. \<open>or_exit r w k\<close> is the same at the top level of a script run in
  world \<open>w\<close>: the exception ends the run in that world.
\<close>

definition raising :: "error + 'a \<Rightarrow> ('a \<Rightarrow> error + 'b) \<Rightarrow> error + 'b" where
  "raising r k = (case r of Inl e \<Rightarrow> Inl e | Inr x \<Rightarrow> k x)"

definition or_exit :: "error + 'a \<Rightarrow> world \<Rightarrow> ('a \<Rightarrow> error option \<times> world) \<Rightarrow> error option \<times> world" where
  "or_exit r w k = (case r of Inl e \<Rightarrow> (Some e, w) | Inr x \<Rightarrow> k x)"

section \<open>The library calls\<close>

subsection \<open>numpy: the legacy global generator\<close>

text \<open>
  The scripts call into numpy, pandas, scikit-learn and joblib. What those calls compute
  from the generator's random stream, from the bytes of a file or by fitting a forest is
  taken as a parameter; what the scripts' properties rest on (how a uniform sample is
  scaled, how a column is expanded, how rows are split, how the metrics count) is written
  out after the libraries' documented behaviour.

  \<open>np_seed\<close> is \<open>np.random.seed\<close>: the state it installs depends on the seed alone.
  \<open>np_random_sample\<close> draws one float of the half-open unit interval, \<open>np_randint n\<close> one
  index below \<open>n\<close>; both return the advanced state. \<open>np_fl\<close> is the rounding of binary64
  arithmetic.
\<close>

record 'g numpy =
  np_seed :: "nat \<Rightarrow> 'g"
  np_random_sample :: "'g \<Rightarrow> real \<times> 'g"
  np_randint :: "nat \<Rightarrow> 'g \<Rightarrow> nat \<times> 'g"
  np_fl :: "real \<Rightarrow> real"

text \<open>
  The documented contract of the generator: unit samples lie in \<open>[0, 1)\<close>, an index drawn
  below \<open>n\<close> is below \<open>n\<close>, and rounding is monotone and exact on the half-integers up to
  \<open>2 ^ 53\<close>, which binary64 represents.
\<close>

definition numpy_contract :: "'g numpy \<Rightarrow> bool" where
  "numpy_contract N \<longleftrightarrow>
     (\<forall>g. 0 \<le> fst (np_random_sample N g) \<and> fst (np_random_sample N g) < 1) \<and>
     (\<forall>n g. 0 < n \<longrightarrow> fst (np_randint N n g) < n) \<and>
     (\<forall>x y. x \<le> y \<longrightarrow> np_fl N x \<le> np_fl N y) \<and>
     (\<forall>k::int. \<bar>k\<bar> \<le> 2 ^ 53 \<longrightarrow> np_fl N (of_int k / 2) = of_int k / 2)"

text \<open>An array of \<open>n\<close> draws is filled in order, threading the generator's state.\<close>

fun draws :: "('g \<Rightarrow> 'a \<times> 'g) \<Rightarrow> nat \<Rightarrow> 'g \<Rightarrow> 'a list \<times> 'g" where
  "draws d 0 g = ([], g)"
| "draws d (Suc n) g =
     (case d g of (x, g1) \<Rightarrow> (case draws d n g1 of (xs, g2) \<Rightarrow> (x # xs, g2)))"

text \<open>
  \<open>np.random.uniform(low, high, size)\<close>: each sample is \<open>low + (high - low) * u\<close> for a
  unit sample \<open>u\<close>, computed in binary64. A negative size raises ValueError.
\<close>

definition uniform1 :: "'g numpy \<Rightarrow> real \<Rightarrow> real \<Rightarrow> 'g \<Rightarrow> real \<times> 'g" where
  "uniform1 N low high g =
     (case np_random_sample N g of
        (u, g1) \<Rightarrow> (np_fl N (low + np_fl N (np_fl N (high - low) * u)), g1))"

definition uniform :: "'g numpy \<Rightarrow> real \<Rightarrow> real \<Rightarrow> int \<Rightarrow> 'g \<Rightarrow> error + real list \<times> 'g" where
  "uniform N low high sz g =
     (if sz < 0 then Inl ValueError else Inr (draws (uniform1 N low high) (nat sz) g))"

text \<open>
  \<open>np.random.choice(a, size)\<close>: each sample is \<open>a[i]\<close> for an index \<open>i\<close> drawn below
  \<open>len(a)\<close>. An empty \<open>a\<close> or a negative size raises ValueError.
\<close>

definition choice :: "'g numpy \<Rightarrow> 'a list \<Rightarrow> int \<Rightarrow> 'g \<Rightarrow> error + 'a list \<times> 'g" where
  "choice N a sz g =
     (if a = [] \<or> sz < 0 then Inl ValueError
      else (case draws (np_randint N (length a)) (nat sz) g of
              (idx, g1) \<Rightarrow>
                if list_all (\<lambda>i. i < length a) idx then Inr (map (\<lambda>i. a ! i) idx, g1)
                else Inl IndexError))"

subsection \<open>pandas\<close>

text \<open>
  \<open>pd_repr_float\<close> is the text pandas writes for a float64; \<open>pd_parse_csv\<close> is the parser
  of \<open>read_csv\<close> on the contents of a file.
\<close>

record pandas =
  pd_repr_float :: "real \<Rightarrow> string"
  pd_parse_csv :: "string \<Rightarrow> error + frame"

text \<open>
  \<open>pd.DataFrame(data)\<close> for a dict of arrays: the columns in the dict's order; arrays of
  different lengths raise ValueError.
\<close>

definition DataFrame :: "(string \<times> column) list \<Rightarrow> error + frame" where
  "DataFrame data = (if wf_frame data then Inr data else Inl ValueError)"

text \<open>\<open>df.head()\<close>: the first five rows.\<close>

definition head :: "frame \<Rightarrow> frame" where
  "head df = map (\<lambda>(name, col). (name, take 5 col)) df"

text \<open>The text of a cell: \<open>str\<close> of the value, as a column label and as a CSV field.\<close>

fun cell_text :: "pandas \<Rightarrow> cell \<Rightarrow> string" where
  "cell_text P (Num x) = pd_repr_float P x"
| "cell_text P (Str s) = s"
| "cell_text P (Flag b) = (if b then ''True'' else ''False'')"
| "cell_text P NaN = ''nan''"

fun join :: "string \<Rightarrow> string list \<Rightarrow> string" where
  "join sep [] = []"
| "join sep [s] = s"
| "join sep (s # t # ss) = s @ sep @ join sep (t # ss)"

text \<open>
  A CSV field is quoted when it holds the delimiter, a quote or the line terminator, with
  the quotes in it doubled; a missing value is written as the empty field. A line of one
  empty field is written as a pair of quotes.
\<close>

definition csv_quote :: "string \<Rightarrow> string" where
  "csv_quote s =
     (if list_ex (\<lambda>c. c \<in> set [CHR '','', CHR 0x22, CHR 0x0A]) s
      then [CHR 0x22] @ concat (map (\<lambda>c. if c = CHR 0x22 then [c, c] else [c]) s) @ [CHR 0x22]
      else s)"

fun csv_field :: "pandas \<Rightarrow> cell \<Rightarrow> string" where
  "csv_field P NaN = []"
| "csv_field P c = csv_quote (cell_text P c)"

definition csv_line :: "string list \<Rightarrow> string" where
  "csv_line fs = (if fs = [[]] then [CHR 0x22, CHR 0x22] else join '','' fs)"

definition csv_text :: "pandas \<Rightarrow> frame \<Rightarrow> string" where
  "csv_text P df =
     concat (map (\<lambda>line. line @ [CHR 0x0A])
       (csv_line (map (\<lambda>(name, col). csv_quote name) df) #
        map (\<lambda>i. csv_line (map (\<lambda>(name, col). csv_field P (col ! i)) df)) [0..<nrows df]))"

text \<open>\<open>df.to_csv(path, index=False)\<close>: the header line and one line per row.\<close>

definition to_csv :: "pandas \<Rightarrow> frame \<Rightarrow> string \<Rightarrow> world \<Rightarrow> error + world" where
  "to_csv P df path w = write_file w path (csv_text P df)"

text \<open>\<open>pd.read_csv(path)\<close>: a missing file raises FileNotFoundError.\<close>

definition read_csv :: "pandas \<Rightarrow> world \<Rightarrow> string \<Rightarrow> error + frame" where
  "read_csv P w path =
     (case files w path of None \<Rightarrow> Inl FileNotFoundError | Some contents \<Rightarrow> pd_parse_csv P contents)"

text \<open>
  \<open>df[names]\<close> with a list of names: the columns of each name, in the list's order; a name
  with no column raises KeyError. \<open>df[name]\<close> with one name: that column.
\<close>

definition getitem_list :: "frame \<Rightarrow> string list \<Rightarrow> error + frame" where
  "getitem_list df names =
     (if list_all (\<lambda>n. n \<in> set (map fst df)) names
      then Inr (concat (map (\<lambda>n. filter (\<lambda>(name, col). name = n) df) names))
      else Inl KeyError)"

definition getitem :: "frame \<Rightarrow> string \<Rightarrow> error + column" where
  "getitem df name = (case map_of df name of None \<Rightarrow> Inl KeyError | Some col \<Rightarrow> Inr col)"

text \<open>
  The categories of a column are its distinct values other than NaN, sorted. Values of
  mixed types are ordered numbers before strings before missing values, the numbers by
  value (a boolean counting as 0 or 1) and the strings among themselves.
\<close>

fun cell_value :: "cell \<Rightarrow> real" where
  "cell_value (Num x) = x"
| "cell_value (Flag b) = (if b then 1 else 0)"
| "cell_value c = 0"

definition sort_mixed :: "cell list \<Rightarrow> cell list" where
  "sort_mixed cs =
     sort_key cell_value (filter (\<lambda>c. is_Num c \<or> is_Flag c) cs) @
     map Str (sort (map un_Str (filter is_Str cs))) @
     filter (\<lambda>c. c = NaN) cs"

definition sort_cells :: "cell list \<Rightarrow> cell list" where
  "sort_cells cs =
     (if list_all is_Str cs then map Str (sort (map un_Str cs))
      else if list_all is_Num cs then map Num (sort (map un_Num cs))
      else if list_all is_Flag cs then map Flag (sort (map un_Flag cs))
      else sort_mixed cs)"

definition levels :: "column \<Rightarrow> cell list" where
  "levels col = sort_cells (remdups (filter (\<lambda>c. c \<noteq> NaN) col))"

text \<open>
  The indicator columns of one column: one per category, named prefix, underscore and the
  category's text, true in the rows that hold the category (a NaN row is false in all).
\<close>

definition dummies_1d :: "pandas \<Rightarrow> string \<times> column \<Rightarrow> frame" where
  "dummies_1d P nc =
     (case nc of (name, col) \<Rightarrow>
        map (\<lambda>level. (name @ ''_'' @ cell_text P level, map (\<lambda>c. Flag (c = level)) col))
          (levels col))"

text \<open>
  \<open>pd.get_dummies(df, columns=names)\<close>: the frame without the named columns, followed by
  their indicator columns. A name with no column raises KeyError.
\<close>

definition get_dummies :: "pandas \<Rightarrow> frame \<Rightarrow> string list \<Rightarrow> error + frame" where
  "get_dummies P data columns =
     (case getitem_list data columns of
        Inl e \<Rightarrow> Inl e
      | Inr data_to_encode \<Rightarrow>
          Inr (filter (\<lambda>(name, col). name \<notin> set columns) data @
               concat (map (dummies_1d P) data_to_encode)))"

text \<open>What an indicator cell counts as in a sum: 1 when set, 0 otherwise.\<close>

fun indicator :: "cell \<Rightarrow> nat" where
  "indicator (Flag b) = (if b then 1 else 0)"
| "indicator c = 0"

subsection \<open>scikit-learn and joblib\<close>

text \<open>
  \<open>sk_permutation random_state n\<close> is the shuffle of \<open>0, ..., n - 1\<close> that a generator
  seeded with \<open>random_state\<close> draws for the split. \<open>sk_fit n_estimators random_state\<close> fits
  the random forest, \<open>sk_predict\<close> is its \<open>predict\<close>, \<open>sk_dumps\<close> the bytes joblib writes
  for it.
\<close>

record 'm sklearn =
  sk_permutation :: "nat \<Rightarrow> nat \<Rightarrow> nat list"
  sk_fit :: "nat \<Rightarrow> nat \<Rightarrow> frame \<Rightarrow> column \<Rightarrow> error + 'm"
  sk_predict :: "'m \<Rightarrow> frame \<Rightarrow> error + column"
  sk_dumps :: "'m \<Rightarrow> string"

definition sklearn_contract :: "'m sklearn \<Rightarrow> bool" where
  "sklearn_contract S \<longleftrightarrow> (\<forall>random_state n. mset (sk_permutation S random_state n) = mset [0..<n])"

text \<open>Positional selection of rows (\<open>iloc\<close>); an index out of range raises IndexError.\<close>

definition take_cells :: "column \<Rightarrow> nat list \<Rightarrow> error + column" where
  "take_cells col idx =
     (if list_all (\<lambda>i. i < length col) idx then Inr (map (\<lambda>i. col ! i) idx) else Inl IndexError)"

definition take_rows :: "frame \<Rightarrow> nat list \<Rightarrow> error + frame" where
  "take_rows df idx =
     (if list_all (\<lambda>(name, col). list_all (\<lambda>i. i < length col) idx) df
      then Inr (map (\<lambda>(name, col). (name, map (\<lambda>i. col ! i) idx)) df)
      else Inl IndexError)"

text \<open>
  \<open>train_test_split(X, y, test_size=t, random_state=r)\<close> for a float \<open>t\<close>: the arrays must
  have one length \<open>n\<close> and \<open>t\<close> must lie strictly between 0 and 1; the test partition has
  \<open>ceil(t * n)\<close> rows and the train partition the other \<open>n - ceil(t * n)\<close>; an empty train
  partition raises ValueError. The first \<open>n_test\<close> indices of the shuffle are the test
  rows, the next \<open>n_train\<close> the train rows. The product \<open>0.2 * n\<close> is computed in binary64,
  where it is exact at the multiples of five and elsewhere a fifth away from any integer,
  so that its ceiling is the ceiling of the exact product.
\<close>

definition train_test_split ::
  "'m sklearn \<Rightarrow> frame \<Rightarrow> column \<Rightarrow> real \<Rightarrow> nat \<Rightarrow> error + frame \<times> frame \<times> column \<times> column" where
  "train_test_split S X y test_size random_state =
     (let n_samples = nrows X in
      if length y \<noteq> n_samples then Inl ValueError
      else if test_size \<le> 0 \<or> 1 \<le> test_size then Inl ValueError
      else
        let n_test = nat \<lceil>test_size * real n_samples\<rceil>;
            n_train = n_samples - n_test
        in if n_train = 0 then Inl ValueError
           else
             let permutation = sk_permutation S random_state n_samples;
                 ind_test = take n_test permutation;
                 ind_train = take n_train (drop n_test permutation)
             in raising (take_rows X ind_train) (\<lambda>X_train.
                raising (take_rows X ind_test) (\<lambda>X_test.
                raising (take_cells y ind_train) (\<lambda>y_train.
                raising (take_cells y ind_test) (\<lambda>y_test.
                  Inr (X_train, X_test, y_train, y_test))))))"

text \<open>
  \<open>accuracy_score(y_true, y_pred)\<close>: the fraction of positions where the two agree;
  arrays of different lengths, and empty arrays, raise ValueError.
\<close>

definition accuracy_score :: "column \<Rightarrow> column \<Rightarrow> error + cell" where
  "accuracy_score y_true y_pred =
     (if length y_true \<noteq> length y_pred then Inl ValueError
      else if y_true = [] then Inl ValueError
      else Inr (Num (real (length (filter (\<lambda>(t, p). t = p) (zip y_true y_pred))) /
                     real (length y_true))))"

text \<open>Division as the metrics do it: a zero denominator gives 0.\<close>

definition safe_div :: "real \<Rightarrow> real \<Rightarrow> real" where
  "safe_div a b = (if b = 0 then 0 else a / b)"

definition average :: "real list \<Rightarrow> real list \<Rightarrow> cell" where
  "average xs weights =
     (if sum_list weights = 0 then NaN
      else Num (sum_list (map (\<lambda>(x, k). x * k) (zip xs weights)) / sum_list weights))"

text \<open>
  \<open>unique_labels(y_true, y_pred)\<close>: the sorted distinct labels of both arrays; a mix of
  label types raises ValueError.
\<close>

definition unique_labels :: "column \<Rightarrow> column \<Rightarrow> error + cell list" where
  "unique_labels y_true y_pred =
     (let ys = remdups (y_true @ y_pred) in
      if list_all is_Str ys \<or> list_all is_Num ys \<or> list_all is_Flag ys then Inr (sort_cells ys)
      else Inl ValueError)"

definition report_row :: "column \<Rightarrow> column \<Rightarrow> cell \<Rightarrow> class_row" where
  "report_row y_true y_pred label =
     (let tp = real (length (filter (\<lambda>(t, p). t = label \<and> p = label) (zip y_true y_pred)));
          pred_sum = real (length (filter (\<lambda>p. p = label) y_pred));
          true_sum = length (filter (\<lambda>t. t = label) y_true);
          precision = safe_div tp pred_sum;
          recall = safe_div tp (real true_sum)
      in \<lparr>row_label = label, row_precision = precision, row_recall = recall,
          row_f1 = safe_div (2 * precision * recall) (precision + recall),
          row_support = true_sum\<rparr>)"

text \<open>
  \<open>classification_report(y_true, y_pred)\<close> with no \<open>labels\<close> argument: one row for each
  of the unique labels of \<open>y_true\<close> and \<open>y_pred\<close> together.
\<close>

definition classification_report :: "column \<Rightarrow> column \<Rightarrow> error + report" where
  "classification_report y_true y_pred =
     (if length y_true \<noteq> length y_pred then Inl ValueError
      else case unique_labels y_true y_pred of
        Inl e \<Rightarrow> Inl e
      | Inr labels \<Rightarrow>
          (case accuracy_score y_true y_pred of
             Inl e \<Rightarrow> Inl e
           | Inr accuracy \<Rightarrow>
               let rows = map (report_row y_true y_pred) labels;
                   ones = map (\<lambda>r. 1) rows;
                   s = map (\<lambda>r. real (row_support r)) rows
               in Inr \<lparr>report_rows = rows, report_accuracy = accuracy,
                       report_macro_avg =
                         (average (map row_precision rows) ones, average (map row_recall rows) ones,
                          average (map row_f1 rows) ones),
                       report_weighted_avg =
                         (average (map row_precision rows) s, average (map row_recall rows) s,
                          average (map row_f1 rows) s),
                       report_support = length y_true\<rparr>))"

text \<open>\<open>joblib.dump(clf, path)\<close>: the serialised model, written to the file.\<close>

definition joblib_dump :: "'m sklearn \<Rightarrow> 'm \<Rightarrow> string \<Rightarrow> world \<Rightarrow> error + world" where
  "joblib_dump S clf path w = write_file w path (sk_dumps S clf)"

section \<open>The generator: \<^verbatim>\<open>ml-predict/data/data.py\<close>\<close>

text \<open>
  \<open>generate_dummy_data(num_samples)\<close>. The global generator's state on entry is \<open>g\<close>;
  \<open>np.random.seed(42)\<close> replaces it, and the seven columns are drawn in the order of the
  source. The result is the frame and the generator's state on return.
\<close>

definition generate_dummy_data :: "'g numpy \<Rightarrow> 'g \<Rightarrow> int \<Rightarrow> error + frame \<times> 'g" where
  "generate_dummy_data N g num_samples =
     (let g0 = np_seed N 42 in
      raising (uniform N 15 35 num_samples g0) (\<lambda>(temperature, g1).
      raising (uniform N 0 100 num_samples g1) (\<lambda>(precipitation, g2).
      raising (uniform N 4 8.5 num_samples g2) (\<lambda>(soil_ph, g3).
      raising (choice N [''Tropical'', ''Temperate'', ''Arctic''] num_samples g3)
        (\<lambda>(climate_zones, g4).
      raising (uniform N 1000 5000 num_samples g4) (\<lambda>(input_expenses, g5).
      raising (uniform N 5000 10000 num_samples g5) (\<lambda>(output_prices, g6).
      raising (choice N [''Wheat'', ''Corn'', ''Rice'', ''Soybeans'', ''Potatoes''] num_samples g6)
        (\<lambda>(products, g7).
      raising (DataFrame
                 [(''Temperature (Celsius)'', map Num temperature),
                  (''Precipitation (mm)'', map Num precipitation),
                  (''Soil pH'', map Num soil_ph),
                  (''Climate Zone'', map Str climate_zones),
                  (''Input Expenses (Currency)'', map Num input_expenses),
                  (''Output Prices (Currency)'', map Num output_prices),
                  (''Recommended Product'', map Str products)])
        (\<lambda>data. Inr (data, g7))))))))))"

text \<open>A call with the argument left out takes the default \<open>num_samples=1000\<close>.\<close>

definition generate_dummy_data_call :: "'g numpy \<Rightarrow> 'g \<Rightarrow> int option \<Rightarrow> error + frame \<times> 'g" where
  "generate_dummy_data_call N g arg =
     generate_dummy_data N g (case arg of None \<Rightarrow> 1000 | Some num_samples \<Rightarrow> num_samples)"

text \<open>
  The script: generate with the default count, print the head, write the CSV file.
\<close>

definition data_py :: "'g numpy \<Rightarrow> pandas \<Rightarrow> 'g \<Rightarrow> world \<Rightarrow> error option \<times> world" where
  "data_py N P g w =
     or_exit (generate_dummy_data_call N g None) w (\<lambda>(dummy_data, g1).
     let w1 = py_print w [OutFrame (head dummy_data)] in
     or_exit (to_csv P dummy_data ''dummy_agricultural_data.csv'' w1) w1 (\<lambda>w2.
     (None, w2)))"

section \<open>The trainer: \<^verbatim>\<open>ml-predict/models/model_training.py\<close>\<close>

text \<open>
  The script, statement by statement. The two arguments of \<open>train_test_split\<close> are
  evaluated left to right, the features first. The model file is written by the last
  statement.
\<close>

definition model_training :: "pandas \<Rightarrow> 'm sklearn \<Rightarrow> world \<Rightarrow> error option \<times> world" where
  "model_training P S w =
     or_exit (read_csv P w ''dummy_agricultural_data.csv'') w (\<lambda>dummy_data0.
     or_exit (get_dummies P dummy_data0 [''Climate Zone'']) w (\<lambda>dummy_data.
     let features = [''Temperature (Celsius)'', ''Precipitation (mm)'', ''Soil pH'',
                     ''Input Expenses (Currency)'', ''Output Prices (Currency)'',
                     ''Climate Zone_Arctic'', ''Climate Zone_Temperate'', ''Climate Zone_Tropical''];
         target = ''Recommended Product'' in
     or_exit (getitem_list dummy_data features) w (\<lambda>X.
     or_exit (getitem dummy_data target) w (\<lambda>y.
     or_exit (train_test_split S X y 0.2 42) w (\<lambda>(X_train, X_test, y_train, y_test).
     or_exit (sk_fit S 100 42 X_train y_train) w (\<lambda>clf.
     or_exit (sk_predict S clf X_test) w (\<lambda>y_pred.
     or_exit (accuracy_score y_test y_pred) w (\<lambda>accuracy.
     let w1 = py_print w [OutText ''Accuracy:'', OutCell accuracy];
         w2 = py_print w1 [OutText (CHR 0x0A # ''Classification Report:'')] in
     or_exit (classification_report y_test y_pred) w2 (\<lambda>rep.
     let w3 = py_print w2 [OutReport rep] in
     or_exit (joblib_dump S clf ''agricultural_product_recommendation_model.joblib'' w3) w3 (\<lambda>w4.
     (None, w4)))))))))))"

section \<open>The trainer's copy: \<^verbatim>\<open>src/ml-predict/models/model_training.py\<close>\<close>

text \<open>The second file, translated on its own from its 26 lines.\<close>

definition model_training_src :: "pandas \<Rightarrow> 'm sklearn \<Rightarrow> world \<Rightarrow> error option \<times> world" where
  "model_training_src P S w =
     or_exit (read_csv P w ''dummy_agricultural_data.csv'') w (\<lambda>dummy_data0.
     or_exit (get_dummies P dummy_data0 [''Climate Zone'']) w (\<lambda>dummy_data.
     let features = [''Temperature (Celsius)'', ''Precipitation (mm)'', ''Soil pH'',
                     ''Input Expenses (Currency)'', ''Output Prices (Currency)'',
                     ''Climate Zone_Arctic'', ''Climate Zone_Temperate'', ''Climate Zone_Tropical''];
         target = ''Recommended Product'' in
     or_exit (getitem_list dummy_data features) w (\<lambda>X.
     or_exit (getitem dummy_data target) w (\<lambda>y.
     or_exit (train_test_split S X y 0.2 42) w (\<lambda>(X_train, X_test, y_train, y_test).
     or_exit (sk_fit S 100 42 X_train y_train) w (\<lambda>clf.
     or_exit (sk_predict S clf X_test) w (\<lambda>y_pred.
     or_exit (accuracy_score y_test y_pred) w (\<lambda>accuracy.
     let w1 = py_print w [OutText ''Accuracy:'', OutCell accuracy];
         w2 = py_print w1 [OutText (CHR 0x0A # ''Classification Report:'')] in
     or_exit (classification_report y_test y_pred) w2 (\<lambda>rep.
     let w3 = py_print w2 [OutReport rep] in
     or_exit (joblib_dump S clf ''agricultural_product_recommendation_model.joblib'' w3) w3 (\<lambda>w4.
     (None, w4)))))))))))"

section \<open>Concrete instances\<close>

text \<open>
  A small generator that keeps numpy's contract: a linear congruential generator on
  sixteen states, with rounding to the nearest half. The theorems below are evaluated on
  it.
\<close>

definition lcg_numpy :: "nat numpy" where
  "lcg_numpy =
     \<lparr>np_seed = (\<lambda>s. s mod 16),
      np_random_sample = (\<lambda>g. (real (g mod 16) / 16, (5 * g + 3) mod 16)),
      np_randint = (\<lambda>n g. (g mod n, (5 * g + 3) mod 16)),
      np_fl = (\<lambda>x. of_int \<lfloor>x * 2 + 1 / 2\<rfloor> / 2)\<rparr>"

text \<open>
  A small classifier library: the shuffle reverses the rows, the fitted model is the first
  training label, and it predicts that label for every row.
\<close>

definition first_label_sklearn :: "cell sklearn" where
  "first_label_sklearn =
     \<lparr>sk_permutation = (\<lambda>random_state n. rev [0..<n]),
      sk_fit = (\<lambda>n_estimators random_state X y.
                  case y of [] \<Rightarrow> Inl ValueError | label # labels \<Rightarrow> Inr label),
      sk_predict = (\<lambda>clf X. Inr (replicate (nrows X) clf)),
      sk_dumps = (\<lambda>clf. ''model'')\<rparr>"

text \<open>
  A table of five rows as the parser of \<open>read_csv\<close> returns it.
\<close>

definition sample_frame :: frame where
  "sample_frame =
     [(''Temperature (Celsius)'', [Num 20, Num 25, Num 30, Num 18, Num 33]),
      (''Precipitation (mm)'', [Num 10, Num 50, Num 90, Num 30, Num 70]),
      (''Soil pH'', [Num 5, Num 6, Num 7, Num 4.5, Num 8]),
      (''Climate Zone'', [Str ''Tropical'', Str ''Temperate'', Str ''Arctic'', Str ''Tropical'',
                          Str ''Temperate'']),
      (''Input Expenses (Currency)'', [Num 1500, Num 2500, Num 3500, Num 4500, Num 2000]),
      (''Output Prices (Currency)'', [Num 6000, Num 7000, Num 8000, Num 9000, Num 5500]),
      (''Recommended Product'', [Str ''Wheat'', Str ''Corn'', Str ''Wheat'', Str ''Corn'',
                                 Str ''Rice''])]"

text \<open>
  The same table with no Arctic row, and the header without any row.
\<close>

definition two_zone_frame :: frame where
  "two_zone_frame =
     [(''Temperature (Celsius)'', [Num 20, Num 25, Num 30, Num 18, Num 33]),
      (''Precipitation (mm)'', [Num 10, Num 50, Num 90, Num 30, Num 70]),
      (''Soil pH'', [Num 5, Num 6, Num 7, Num 4.5, Num 8]),
      (''Climate Zone'', [Str ''Tropical'', Str ''Temperate'', Str ''Tropical'', Str ''Tropical'',
                          Str ''Temperate'']),
      (''Input Expenses (Currency)'', [Num 1500, Num 2500, Num 3500, Num 4500, Num 2000]),
      (''Output Prices (Currency)'', [Num 6000, Num 7000, Num 8000, Num 9000, Num 5500]),
      (''Recommended Product'', [Str ''Wheat'', Str ''Corn'', Str ''Wheat'', Str ''Corn'',
                                 Str ''Rice''])]"

definition header_frame :: frame where
  "header_frame =
     [(''Temperature (Celsius)'', []), (''Precipitation (mm)'', []), (''Soil pH'', []),
      (''Climate Zone'', []), (''Input Expenses (Currency)'', []),
      (''Output Prices (Currency)'', []), (''Recommended Product'', [])]"

text \<open>A table of one row.\<close>

definition one_row_frame :: frame where
  "one_row_frame =
     [(''Temperature (Celsius)'', [Num 20]), (''Precipitation (mm)'', [Num 10]),
      (''Soil pH'', [Num 5]), (''Climate Zone'', [Str ''Tropical'']),
      (''Input Expenses (Currency)'', [Num 1500]), (''Output Prices (Currency)'', [Num 6000]),
      (''Recommended Product'', [Str ''Wheat''])]"

text \<open>
  The parser maps the contents of a file to its table. The contents \<open>arctic column\<close> stand
  for the table with no Arctic row and a further column that is itself named
  \<open>Climate Zone_Arctic\<close>; \<open>one row with indicators\<close> for the table of one row with
  further columns named after the two indicators it has no row for; \<open>no zone column\<close> and
  \<open>no target column\<close> for the table of five rows without its Climate Zone column and
  without its Recommended Product column.
\<close>

definition sample_pandas :: pandas where
  "sample_pandas =
     \<lparr>pd_repr_float = (\<lambda>x. ''0.0''),
      pd_parse_csv = (\<lambda>contents.
        if contents = [] then Inl EmptyDataError
        else if contents = ''five rows'' then Inr sample_frame
        else if contents = ''two zones'' then Inr two_zone_frame
        else if contents = ''arctic column'' then
          Inr (two_zone_frame @
               [(''Climate Zone_Arctic'', [Num 0, Num 0, Num 0, Num 0, Num 0])])
        else if contents = ''header only'' then Inr header_frame
        else if contents = ''one row'' then Inr one_row_frame
        else if contents = ''one row with indicators'' then
          Inr (one_row_frame @
               [(''Climate Zone_Arctic'', [Num 0]), (''Climate Zone_Temperate'', [Num 0])])
        else if contents = ''no zone column'' then
          Inr (filter (\<lambda>(name, col). name \<noteq> ''Climate Zone'') sample_frame)
        else if contents = ''no target column'' then
          Inr (filter (\<lambda>(name, col). name \<noteq> ''Recommended Product'') sample_frame)
        else Inl ParserError)\<rparr>"

text \<open>A world whose only file is the data file with the given contents.\<close>

definition sample_world :: "string \<Rightarrow> world" where
  "sample_world contents =
     \<lparr>files = [''dummy_agricultural_data.csv'' \<mapsto> contents],
      writable = (\<lambda>path. True), stdout = []\<rparr>"

text \<open>
  Classifier libraries that fail at one stage: at stage 0 the fit raises ValueError, at
  stage 1 the prediction raises ValueError, at stage 2 the prediction has no entry, at
  stage 3 it is a number where the labels are strings. At any other stage the library is
  \<open>first_label_sklearn\<close>.
\<close>

definition failing_sklearn :: "nat \<Rightarrow> cell sklearn" where
  "failing_sklearn stage =
     \<lparr>sk_permutation = (\<lambda>random_state n. rev [0..<n]),
      sk_fit = (\<lambda>n_estimators random_state X y.
                  if stage = 0 then Inl ValueError
                  else case y of [] \<Rightarrow> Inl ValueError | label # labels \<Rightarrow> Inr label),
      sk_predict = (\<lambda>clf X.
                  if stage = 1 then Inl ValueError
                  else if stage = 2 then Inr []
                  else if stage = 3 then Inr (replicate (nrows X) (Num 1))
                  else Inr (replicate (nrows X) clf)),
      sk_dumps = (\<lambda>clf. ''model'')\<rparr>"

text \<open>
  A generator that breaks numpy's contract: the index it draws below \<open>n\<close> is \<open>n\<close> itself.
\<close>

definition broken_numpy :: "nat numpy" where
  "broken_numpy =
     \<lparr>np_seed = (\<lambda>s. s mod 16),
      np_random_sample = (\<lambda>g. (real (g mod 16) / 16, (5 * g + 3) mod 16)),
      np_randint = (\<lambda>n g. (n, (5 * g + 3) mod 16)),
      np_fl = (\<lambda>x. of_int \<lfloor>x * 2 + 1 / 2\<rfloor> / 2)\<rparr>"

text \<open>The same world with every path read-only.\<close>

definition read_only_world :: "string \<Rightarrow> world" where
  "read_only_world contents = (sample_world contents)\<lparr>writable := (\<lambda>path. False)\<rparr>"

section \<open>Properties of the generator\<close>

subsection \<open>Exceptions and draws\<close>

lemma raising_Inr [simp]: "raising (Inr x) k = k x"
  by (simp add: raising_def)

lemma raising_Inl [simp]: "raising (Inl e) k = Inl e"
  by (simp add: raising_def)

lemma or_exit_Inr [simp]: "or_exit (Inr x) w k = k x"
  by (simp add: or_exit_def)

lemma or_exit_Inl [simp]: "or_exit (Inl e) w k = (Some e, w)"
  by (simp add: or_exit_def)

lemma length_draws: "length (fst (draws d n g)) = n"
  by (induction n arbitrary: g) (simp_all add: case_prod_beta)

lemma draws_all:
  assumes "\<And>g. Q (fst (d g))"
  shows "list_all Q (fst (draws d n g))"
  using assms by (induction n arbitrary: g) (simp_all add: case_prod_beta)

lemma fl_half:
  assumes "numpy_contract N" and "\<bar>k\<bar> \<le> 2 ^ 53"
  shows "np_fl N (of_int k / 2) = of_int k / 2"
  using assms unfolding numpy_contract_def by blast

lemma fl_mono:
  assumes "numpy_contract N" and "x \<le> y"
  shows "np_fl N x \<le> np_fl N y"
  using assms unfolding numpy_contract_def by blast

lemma uniform1_bounds:
  assumes N: "numpy_contract N"
    and lo: "low = of_int a / 2" "\<bar>a\<bar> \<le> 2 ^ 53"
    and hi: "high = of_int b / 2" "\<bar>b\<bar> \<le> 2 ^ 53"
    and le: "low \<le> high" "\<bar>b - a\<bar> \<le> 2 ^ 53"
  shows "low \<le> fst (uniform1 N low high g) \<and> fst (uniform1 N low high g) \<le> high"
proof -
  obtain u g1 where d: "np_random_sample N g = (u, g1)"
    by (cases "np_random_sample N g")
  have u: "0 \<le> u" "u < 1"
    using N d unfolding numpy_contract_def by (metis fst_conv)+
  define s where "s = high - low"
  have s0: "0 \<le> s" using le by (simp add: s_def)
  have "s = of_int (b - a) / 2" using lo(1) hi(1) by (simp add: s_def diff_divide_distrib)
  then have fs: "np_fl N s = s" using fl_half [OF N le(2)] by (simp only:)
  have f0: "np_fl N 0 = 0" using fl_half [OF N, of 0] by simp
  have flo: "np_fl N low = low" using fl_half [OF N lo(2)] lo(1) by (simp only:)
  have fhi: "np_fl N high = high" using fl_half [OF N hi(2)] hi(1) by (simp only:)
  define p where "p = np_fl N (s * u)"
  have "0 \<le> s * u" "s * u \<le> s"
    using s0 u by (simp_all add: mult_left_le)
  then have p: "0 \<le> p" "p \<le> s"
    using fl_mono [OF N, of 0 "s * u"] fl_mono [OF N, of "s * u" s] f0 fs by (simp_all add: p_def)
  have "low \<le> low + p" "low + p \<le> high" using p by (simp_all add: s_def)
  then have "low \<le> np_fl N (low + p)" "np_fl N (low + p) \<le> high"
    using fl_mono [OF N, of low "low + p"] fl_mono [OF N, of "low + p" high] flo fhi by simp_all
  then show ?thesis by (simp add: uniform1_def d p_def s_def fs [unfolded s_def])
qed

lemma uniform_Inr:
  "0 \<le> n \<Longrightarrow> uniform N low high n g = Inr (draws (uniform1 N low high) (nat n) g)"
  by (simp add: uniform_def)

lemma uniform_negative: "n < 0 \<Longrightarrow> uniform N low high n g = Inl ValueError"
  by (simp add: uniform_def)

lemma choice_Inr:
  assumes "numpy_contract N" and "a \<noteq> []" and "0 \<le> n"
  shows "choice N a n g =
           Inr (map (\<lambda>i. a ! i) (fst (draws (np_randint N (length a)) (nat n) g)),
                snd (draws (np_randint N (length a)) (nat n) g))"
proof -
  have "\<And>g. fst (np_randint N (length a) g) < length a"
    using assms(1,2) unfolding numpy_contract_def by simp
  then have "list_all (\<lambda>i. i < length a) (fst (draws (np_randint N (length a)) (nat n) g))"
    by (rule draws_all)
  then show ?thesis using assms(2,3) by (simp add: choice_def case_prod_beta)
qed

lemma choice_values:
  assumes "choice N a n g = Inr (xs, g1)"
  shows "set xs \<subseteq> set a \<and> length xs = nat n"
  using assms
  by (auto simp: choice_def case_prod_beta list_all_iff length_draws split: if_splits)

lemma uniform_values:
  assumes N: "numpy_contract N"
    and lo: "low = of_int a / 2" "\<bar>a\<bar> \<le> 2 ^ 53"
    and hi: "high = of_int b / 2" "\<bar>b\<bar> \<le> 2 ^ 53"
    and le: "low \<le> high" "\<bar>b - a\<bar> \<le> 2 ^ 53"
    and u: "uniform N low high n g = Inr (xs, g1)"
  shows "\<forall>x \<in> set xs. low \<le> x \<and> x \<le> high"
proof -
  have xs: "xs = fst (draws (uniform1 N low high) (nat n) g)"
    using u by (auto simp: uniform_def split: if_splits)
  have "list_all (\<lambda>x. low \<le> x \<and> x \<le> high) (fst (draws (uniform1 N low high) (nat n) g))"
    by (rule draws_all) (rule uniform1_bounds [OF N lo hi le])
  then show ?thesis unfolding xs list_all_iff .
qed

lemma DataFrame_Inr: "wf_frame data \<Longrightarrow> DataFrame data = Inr data"
  by (simp add: DataFrame_def)

lemma generate_dummy_data_cases:
  assumes "generate_dummy_data N g num_samples = Inr (data, g')"
  obtains temperature g1 precipitation g2 soil_ph g3 climate_zones g4 input_expenses g5
    output_prices g6 products where
    "uniform N 15 35 num_samples (np_seed N 42) = Inr (temperature, g1)"
    "uniform N 0 100 num_samples g1 = Inr (precipitation, g2)"
    "uniform N 4 8.5 num_samples g2 = Inr (soil_ph, g3)"
    "choice N [''Tropical'', ''Temperate'', ''Arctic''] num_samples g3 = Inr (climate_zones, g4)"
    "uniform N 1000 5000 num_samples g4 = Inr (input_expenses, g5)"
    "uniform N 5000 10000 num_samples g5 = Inr (output_prices, g6)"
    "choice N [''Wheat'', ''Corn'', ''Rice'', ''Soybeans'', ''Potatoes''] num_samples g6 =
       Inr (products, g')"
    "data = [(''Temperature (Celsius)'', map Num temperature),
             (''Precipitation (mm)'', map Num precipitation),
             (''Soil pH'', map Num soil_ph),
             (''Climate Zone'', map Str climate_zones),
             (''Input Expenses (Currency)'', map Num input_expenses),
             (''Output Prices (Currency)'', map Num output_prices),
             (''Recommended Product'', map Str products)]"
  using assms unfolding generate_dummy_data_def Let_def raising_def DataFrame_def
  by (auto split: sum.splits prod.splits if_splits)

lemma generate_dummy_data_Inr:
  assumes N: "numpy_contract N" and n: "0 \<le> num_samples"
  shows "\<exists>data g'. generate_dummy_data N g num_samples = Inr (data, g') \<and>
           nrows data = nat num_samples \<and> wf_frame data"
  unfolding generate_dummy_data_def Let_def
  by (simp add: uniform_Inr [OF n] choice_Inr [OF N _ n] case_prod_beta DataFrame_def
      wf_frame_def length_draws)

lemma generate_dummy_data_negative:
  "num_samples < 0 \<Longrightarrow> generate_dummy_data N g num_samples = Inl ValueError"
  by (simp add: generate_dummy_data_def uniform_negative)

subsection \<open>The concrete generator\<close>

lemma lcg_numpy_contract: "numpy_contract lcg_numpy"
proof -
  have 1: "\<And>g::nat. 0 \<le> real (g mod 16) / 16 \<and> real (g mod 16) / 16 < 1"
    by simp
  have 2: "\<And>(n::nat) g::nat. 0 < n \<Longrightarrow> g mod n < n" by simp
  have 3: "\<And>x y::real. x \<le> y \<Longrightarrow>
             real_of_int \<lfloor>x * 2 + 1 / 2\<rfloor> / 2 \<le> real_of_int \<lfloor>y * 2 + 1 / 2\<rfloor> / 2"
  proof -
    fix x y :: real
    assume "x \<le> y"
    then have "\<lfloor>x * 2 + 1 / 2\<rfloor> \<le> \<lfloor>y * 2 + 1 / 2\<rfloor>" by (intro floor_mono) simp
    then show "real_of_int \<lfloor>x * 2 + 1 / 2\<rfloor> / 2 \<le> real_of_int \<lfloor>y * 2 + 1 / 2\<rfloor> / 2" by simp
  qed
  have 4: "\<And>k::int. real_of_int \<lfloor>real_of_int k / 2 * 2 + 1 / 2\<rfloor> / 2 = real_of_int k / 2"
  proof -
    fix k :: int
    have "\<lfloor>real_of_int k + 1 / 2\<rfloor> = k" by linarith
    then show "real_of_int \<lfloor>real_of_int k / 2 * 2 + 1 / 2\<rfloor> / 2 = real_of_int k / 2" by simp
  qed
  show ?thesis
    unfolding numpy_contract_def lcg_numpy_def numpy.simps fst_conv
    using 1 2 3 4 by blast
qed

lemma lcg_seed: "np_seed lcg_numpy 42 = 10"
  by (simp add: lcg_numpy_def)

lemma lcg_temperature: "uniform lcg_numpy 15 35 1 10 = Inr ([55 / 2], 5)"
  by (simp add: uniform_def uniform1_def lcg_numpy_def)

lemma lcg_precipitation: "uniform lcg_numpy 0 100 1 5 = Inr ([63 / 2], 12)"
  by (simp add: uniform_def uniform1_def lcg_numpy_def)

lemma lcg_soil_ph: "uniform lcg_numpy 4 8.5 1 12 = Inr ([15 / 2], 15)"
  by (simp add: uniform_def uniform1_def lcg_numpy_def)

lemma lcg_climate_zones:
  "choice lcg_numpy [''Tropical'', ''Temperate'', ''Arctic''] 1 15 = Inr ([''Tropical''], 14)"
  by (simp add: choice_def lcg_numpy_def)

lemma lcg_input_expenses: "uniform lcg_numpy 1000 5000 1 14 = Inr ([4500], 9)"
  by (simp add: uniform_def uniform1_def lcg_numpy_def)

lemma lcg_output_prices: "uniform lcg_numpy 5000 10000 1 9 = Inr ([15625 / 2], 0)"
  by (simp add: uniform_def uniform1_def lcg_numpy_def)

lemma lcg_products:
  "choice lcg_numpy [''Wheat'', ''Corn'', ''Rice'', ''Soybeans'', ''Potatoes''] 1 0 =
     Inr ([''Wheat''], 3)"
  by (simp add: choice_def lcg_numpy_def)

lemma lcg_generate:
  "generate_dummy_data lcg_numpy g 1 =
     Inr ([(''Temperature (Celsius)'', [Num (55 / 2)]),
           (''Precipitation (mm)'', [Num (63 / 2)]),
           (''Soil pH'', [Num (15 / 2)]),
           (''Climate Zone'', [Str ''Tropical'']),
           (''Input Expenses (Currency)'', [Num 4500]),
           (''Output Prices (Currency)'', [Num (15625 / 2)]),
           (''Recommended Product'', [Str ''Wheat''])], 3)"
  unfolding generate_dummy_data_def Let_def lcg_seed lcg_temperature raising_Inr prod.case
    lcg_precipitation lcg_soil_ph lcg_climate_zones lcg_input_expenses lcg_output_prices
    lcg_products
  by (simp add: DataFrame_def wf_frame_def)

subsection \<open>Column bounds\<close>

text \<open>
  Claim C1. Whenever \<open>generate_dummy_data\<close> returns a table, the table has the seven
  columns of the source, and every value of a column lies within the bounds of the
  distribution it was drawn from: temperature in \<open>[15, 35]\<close>, precipitation in
  \<open>[0, 100]\<close>, soil pH in \<open>[4, 8.5]\<close>, input expense in \<open>[1000, 5000]\<close>, output price in
  \<open>[5000, 10000]\<close>, climate zone one of Tropical, Temperate, Arctic, and recommended
  product one of Wheat, Corn, Rice, Soybeans, Potatoes. Row \<open>i\<close> of the table holds the
  \<open>i\<close>-th value of each column, so this bounds every value of every row. The bounds hold
  for the rounded binary64 results, for any generator that keeps numpy's contract.
\<close>

theorem generate_dummy_data_bounds:
  assumes N: "numpy_contract N"
    and run: "generate_dummy_data N g num_samples = Inr (data, g')"
  shows "\<exists>temperature precipitation soil_ph climate_zones input_expenses output_prices products.
           data = [(''Temperature (Celsius)'', map Num temperature),
                   (''Precipitation (mm)'', map Num precipitation),
                   (''Soil pH'', map Num soil_ph),
                   (''Climate Zone'', map Str climate_zones),
                   (''Input Expenses (Currency)'', map Num input_expenses),
                   (''Output Prices (Currency)'', map Num output_prices),
                   (''Recommended Product'', map Str products)] \<and>
           (\<forall>x \<in> set temperature. 15 \<le> x \<and> x \<le> 35) \<and>
           (\<forall>x \<in> set precipitation. 0 \<le> x \<and> x \<le> 100) \<and>
           (\<forall>x \<in> set soil_ph. 4 \<le> x \<and> x \<le> 8.5) \<and>
           (\<forall>z \<in> set climate_zones. z \<in> {''Tropical'', ''Temperate'', ''Arctic''}) \<and>
           (\<forall>x \<in> set input_expenses. 1000 \<le> x \<and> x \<le> 5000) \<and>
           (\<forall>x \<in> set output_prices. 5000 \<le> x \<and> x \<le> 10000) \<and>
           (\<forall>p \<in> set products. p \<in> {''Wheat'', ''Corn'', ''Rice'', ''Soybeans'', ''Potatoes''})"
proof -
  from run obtain temperature g1 precipitation g2 soil_ph g3 climate_zones g4 input_expenses g5
    output_prices g6 products where
    t: "uniform N 15 35 num_samples (np_seed N 42) = Inr (temperature, g1)" and
    p: "uniform N 0 100 num_samples g1 = Inr (precipitation, g2)" and
    s: "uniform N 4 8.5 num_samples g2 = Inr (soil_ph, g3)" and
    c: "choice N [''Tropical'', ''Temperate'', ''Arctic''] num_samples g3 = Inr (climate_zones, g4)" and
    i: "uniform N 1000 5000 num_samples g4 = Inr (input_expenses, g5)" and
    out: "uniform N 5000 10000 num_samples g5 = Inr (output_prices, g6)" and
    r: "choice N [''Wheat'', ''Corn'', ''Rice'', ''Soybeans'', ''Potatoes''] num_samples g6 =
          Inr (products, g')" and
    data: "data = [(''Temperature (Celsius)'', map Num temperature),
                   (''Precipitation (mm)'', map Num precipitation),
                   (''Soil pH'', map Num soil_ph),
                   (''Climate Zone'', map Str climate_zones),
                   (''Input Expenses (Currency)'', map Num input_expenses),
                   (''Output Prices (Currency)'', map Num output_prices),
                   (''Recommended Product'', map Str products)]"
    by (rule generate_dummy_data_cases)
  have "\<forall>x \<in> set temperature. 15 \<le> x \<and> x \<le> 35"
    by (rule uniform_values [OF N _ _ _ _ _ _ t, where a = 30 and b = 70]) simp_all
  moreover have "\<forall>x \<in> set precipitation. 0 \<le> x \<and> x \<le> 100"
    by (rule uniform_values [OF N _ _ _ _ _ _ p, where a = 0 and b = 200]) simp_all
  moreover have "\<forall>x \<in> set soil_ph. 4 \<le> x \<and> x \<le> 8.5"
    by (rule uniform_values [OF N _ _ _ _ _ _ s, where a = 8 and b = 17]) simp_all
  moreover have "\<forall>z \<in> set climate_zones. z \<in> {''Tropical'', ''Temperate'', ''Arctic''}"
    using conjunct1 [OF choice_values [OF c]] unfolding list.set subset_iff Ball_def .
  moreover have "\<forall>x \<in> set input_expenses. 1000 \<le> x \<and> x \<le> 5000"
    by (rule uniform_values [OF N _ _ _ _ _ _ i, where a = 2000 and b = 10000]) simp_all
  moreover have "\<forall>x \<in> set output_prices. 5000 \<le> x \<and> x \<le> 10000"
    by (rule uniform_values [OF N _ _ _ _ _ _ out, where a = 10000 and b = 20000]) simp_all
  moreover have "\<forall>p \<in> set products. p \<in> {''Wheat'', ''Corn'', ''Rice'', ''Soybeans'', ''Potatoes''}"
    using conjunct1 [OF choice_values [OF r]] unfolding list.set subset_iff Ball_def .
  ultimately show ?thesis
    by (intro exI conjI) (rule data, assumption+)
qed

theorem generate_dummy_data_bounds_witness:
  "numpy_contract lcg_numpy \<and>
   generate_dummy_data lcg_numpy 0 1 =
     Inr ([(''Temperature (Celsius)'', [Num (55 / 2)]),
           (''Precipitation (mm)'', [Num (63 / 2)]),
           (''Soil pH'', [Num (15 / 2)]),
           (''Climate Zone'', [Str ''Tropical'']),
           (''Input Expenses (Currency)'', [Num 4500]),
           (''Output Prices (Currency)'', [Num (15625 / 2)]),
           (''Recommended Product'', [Str ''Wheat''])], 3) \<and>
   (\<exists>temperature precipitation soil_ph climate_zones input_expenses output_prices products.
      [(''Temperature (Celsius)'', [Num (55 / 2)]),
       (''Precipitation (mm)'', [Num (63 / 2)]),
       (''Soil pH'', [Num (15 / 2)]),
       (''Climate Zone'', [Str ''Tropical'']),
       (''Input Expenses (Currency)'', [Num 4500]),
       (''Output Prices (Currency)'', [Num (15625 / 2)]),
       (''Recommended Product'', [Str ''Wheat''])] =
      [(''Temperature (Celsius)'', map Num temperature),
       (''Precipitation (mm)'', map Num precipitation),
       (''Soil pH'', map Num soil_ph),
       (''Climate Zone'', map Str climate_zones),
       (''Input Expenses (Currency)'', map Num input_expenses),
       (''Output Prices (Currency)'', map Num output_prices),
       (''Recommended Product'', map Str products)] \<and>
      (\<forall>x \<in> set temperature. 15 \<le> x \<and> x \<le> 35) \<and>
      (\<forall>x \<in> set precipitation. 0 \<le> x \<and> x \<le> 100) \<and>
      (\<forall>x \<in> set soil_ph. 4 \<le> x \<and> x \<le> 8.5) \<and>
      (\<forall>z \<in> set climate_zones. z \<in> {''Tropical'', ''Temperate'', ''Arctic''}) \<and>
      (\<forall>x \<in> set input_expenses. 1000 \<le> x \<and> x \<le> 5000) \<and>
      (\<forall>x \<in> set output_prices. 5000 \<le> x \<and> x \<le> 10000) \<and>
      (\<forall>p \<in> set products. p \<in> {''Wheat'', ''Corn'', ''Rice'', ''Soybeans'', ''Potatoes''}))"
  by (intro conjI lcg_numpy_contract lcg_generate
      generate_dummy_data_bounds [OF lcg_numpy_contract lcg_generate])

subsection \<open>Row count\<close>

text \<open>
  Claim C5. For every sample count \<open>num_samples\<close> (a count is not negative),
  \<open>generate_dummy_data\<close> returns a table of exactly \<open>num_samples\<close> rows, each column of
  that length; a call that passes the count is a call with that count, and a call that
  leaves it out returns a table of 1000 rows.
\<close>

theorem generate_dummy_data_row_count:
  assumes N: "numpy_contract N" and n: "0 \<le> num_samples"
  shows "(\<exists>data g'. generate_dummy_data N g num_samples = Inr (data, g') \<and>
            nrows data = nat num_samples \<and> wf_frame data) \<and>
         generate_dummy_data_call N g (Some num_samples) = generate_dummy_data N g num_samples \<and>
         (\<exists>data g'. generate_dummy_data_call N g None = Inr (data, g') \<and>
            nrows data = 1000 \<and> wf_frame data)"
proof -
  have "\<exists>data g'. generate_dummy_data N g 1000 = Inr (data, g') \<and>
          nrows data = nat 1000 \<and> wf_frame data"
    by (rule generate_dummy_data_Inr [OF N]) simp
  then show ?thesis
    using generate_dummy_data_Inr [OF N n, of g] by (simp add: generate_dummy_data_call_def)
qed

theorem generate_dummy_data_row_count_witness:
  "numpy_contract lcg_numpy \<and> (0::int) \<le> 1 \<and>
   (\<exists>data g'. generate_dummy_data lcg_numpy 0 1 = Inr (data, g') \<and>
      nrows data = nat 1 \<and> wf_frame data) \<and>
   generate_dummy_data_call lcg_numpy 0 (Some 1) = generate_dummy_data lcg_numpy 0 1 \<and>
   (\<exists>data g'. generate_dummy_data_call lcg_numpy 0 None = Inr (data, g') \<and>
      nrows data = 1000 \<and> wf_frame data)"
proof -
  have n: "(0::int) \<le> 1" by simp
  show ?thesis
    using generate_dummy_data_row_count [OF lcg_numpy_contract n, of 0] lcg_numpy_contract n
    by (intro conjI) (erule conjunct1 conjunct2 | assumption | simp only:)+
qed

subsection \<open>Determinism\<close>

lemma data_py_run:
  assumes N: "numpy_contract N" and wr: "writable w ''dummy_agricultural_data.csv''"
  shows "\<exists>data g'. generate_dummy_data_call N g None = Inr (data, g') \<and>
           data_py N P g w =
             (None, (py_print w [OutFrame (head data)])
                \<lparr>files := (files w)(''dummy_agricultural_data.csv'' \<mapsto> csv_text P data)\<rparr>)"
proof -
  have "(0::int) \<le> 1000" by simp
  from generate_dummy_data_Inr [OF N this, of g] obtain data g' where
    gen: "generate_dummy_data N g 1000 = Inr (data, g')" by blast
  then have "data_py N P g w =
             (None, (py_print w [OutFrame (head data)])
                \<lparr>files := (files w)(''dummy_agricultural_data.csv'' \<mapsto> csv_text P data)\<rparr>)"
    using wr by (simp add: data_py_def generate_dummy_data_call_def to_csv_def write_file_def
        py_print_def)
  then show ?thesis using gen by (simp add: generate_dummy_data_call_def)
qed

lemma generate_dummy_data_call_entry:
  "generate_dummy_data_call N g1 arg = generate_dummy_data_call N g2 arg"
  by (simp add: generate_dummy_data_call_def generate_dummy_data_def)

text \<open>
  Claim C4. The generator is deterministic. It reseeds the global generator with 42 before
  the first draw, so for every sample count two calls of \<open>generate_dummy_data\<close> return the
  same table whatever the generator's state was on entry. The script overwrites the data
  file with the CSV text of that table: two runs that can write the file, from any two
  worlds and any two generator states, both complete and leave the same bytes in the file,
  whether or not the file existed before and whatever it held; a second run after a first
  leaves every file as the first run left it; and no other file is touched.
\<close>

theorem generate_dummy_data_deterministic:
  "generate_dummy_data N g1 num_samples = generate_dummy_data N g2 num_samples \<and>
   (numpy_contract N \<and> writable w1 ''dummy_agricultural_data.csv'' \<and>
    writable w2 ''dummy_agricultural_data.csv'' \<longrightarrow>
      (\<exists>data g'. generate_dummy_data_call N g1 None = Inr (data, g') \<and>
         fst (data_py N P g1 w1) = None \<and> fst (data_py N P g2 w2) = None \<and>
         files (snd (data_py N P g1 w1)) ''dummy_agricultural_data.csv'' =
           Some (csv_text P data) \<and>
         files (snd (data_py N P g2 w2)) ''dummy_agricultural_data.csv'' =
           Some (csv_text P data) \<and>
         files (snd (data_py N P g2 (snd (data_py N P g1 w1)))) =
           files (snd (data_py N P g1 w1)) \<and>
         (\<forall>path. path \<noteq> ''dummy_agricultural_data.csv'' \<longrightarrow>
            files (snd (data_py N P g1 w1)) path = files w1 path)))"
proof (intro conjI impI)
  show "generate_dummy_data N g1 num_samples = generate_dummy_data N g2 num_samples"
    by (simp add: generate_dummy_data_def)
next
  assume h: "numpy_contract N \<and> writable w1 ''dummy_agricultural_data.csv'' \<and>
    writable w2 ''dummy_agricultural_data.csv''"
  then have N: "numpy_contract N" and wr1: "writable w1 ''dummy_agricultural_data.csv''"
    and wr2: "writable w2 ''dummy_agricultural_data.csv''" by simp_all
  from data_py_run [OF N wr1, of g1 P] obtain data g' where
    gen: "generate_dummy_data_call N g1 None = Inr (data, g')" and
    r1: "data_py N P g1 w1 =
           (None, (py_print w1 [OutFrame (head data)])
              \<lparr>files := (files w1)(''dummy_agricultural_data.csv'' \<mapsto> csv_text P data)\<rparr>)"
    by blast
  have gen2: "generate_dummy_data_call N g2 None = Inr (data, g')"
    using gen generate_dummy_data_call_entry [of N g2 None g1] by simp
  from data_py_run [OF N wr2, of g2 P] gen2 have
    r2: "data_py N P g2 w2 =
           (None, (py_print w2 [OutFrame (head data)])
              \<lparr>files := (files w2)(''dummy_agricultural_data.csv'' \<mapsto> csv_text P data)\<rparr>)"
    by auto
  let ?w = "(py_print w1 [OutFrame (head data)])
              \<lparr>files := (files w1)(''dummy_agricultural_data.csv'' \<mapsto> csv_text P data)\<rparr>"
  have wr3: "writable ?w ''dummy_agricultural_data.csv''"
    using wr1 by (simp add: py_print_def)
  from data_py_run [OF N wr3, of g2 P] gen2 have
    r3: "data_py N P g2 ?w =
           (None, (py_print ?w [OutFrame (head data)])
              \<lparr>files := (files ?w)(''dummy_agricultural_data.csv'' \<mapsto> csv_text P data)\<rparr>)"
    by auto
  have again: "files (snd (data_py N P g2 (snd (data_py N P g1 w1)))) =
           files (snd (data_py N P g1 w1))"
    unfolding r1 snd_conv r3 by (simp add: py_print_def)
  have others: "\<forall>path. path \<noteq> ''dummy_agricultural_data.csv'' \<longrightarrow>
            files (snd (data_py N P g1 w1)) path = files w1 path"
    unfolding r1 by (simp add: py_print_def)
  have f1: "files (snd (data_py N P g1 w1)) ''dummy_agricultural_data.csv'' = Some (csv_text P data)"
    unfolding r1 by simp
  have f2: "files (snd (data_py N P g2 w2)) ''dummy_agricultural_data.csv'' = Some (csv_text P data)"
    unfolding r2 by simp
  have n1: "fst (data_py N P g1 w1) = None" unfolding r1 by simp
  have n2: "fst (data_py N P g2 w2) = None" unfolding r2 by simp
  show "\<exists>data g'. generate_dummy_data_call N g1 None = Inr (data, g') \<and>
         fst (data_py N P g1 w1) = None \<and> fst (data_py N P g2 w2) = None \<and>
         files (snd (data_py N P g1 w1)) ''dummy_agricultural_data.csv'' =
           Some (csv_text P data) \<and>
         files (snd (data_py N P g2 w2)) ''dummy_agricultural_data.csv'' =
           Some (csv_text P data) \<and>
         files (snd (data_py N P g2 (snd (data_py N P g1 w1)))) =
           files (snd (data_py N P g1 w1)) \<and>
         (\<forall>path. path \<noteq> ''dummy_agricultural_data.csv'' \<longrightarrow>
            files (snd (data_py N P g1 w1)) path = files w1 path)"
    by (intro exI [of _ data] exI [of _ g'] conjI gen n1 n2 f1 f2 again others)
qed

theorem generate_dummy_data_deterministic_witness:
  "numpy_contract lcg_numpy \<and>
   writable (sample_world ''five rows'') ''dummy_agricultural_data.csv'' \<and>
   writable \<lparr>files = Map.empty, writable = (\<lambda>path. True), stdout = []\<rparr>
     ''dummy_agricultural_data.csv'' \<and>
   files (sample_world ''five rows'') ''dummy_agricultural_data.csv'' = Some ''five rows'' \<and>
   files \<lparr>files = Map.empty, writable = (\<lambda>path. True), stdout = []\<rparr>
     ''dummy_agricultural_data.csv'' = None \<and>
   (\<exists>data g'. generate_dummy_data_call lcg_numpy 0 None = Inr (data, g') \<and>
      fst (data_py lcg_numpy sample_pandas 0 (sample_world ''five rows'')) = None \<and>
      fst (data_py lcg_numpy sample_pandas 7
             \<lparr>files = Map.empty, writable = (\<lambda>path. True), stdout = []\<rparr>) = None \<and>
      files (snd (data_py lcg_numpy sample_pandas 0 (sample_world ''five rows'')))
        ''dummy_agricultural_data.csv'' = Some (csv_text sample_pandas data) \<and>
      files (snd (data_py lcg_numpy sample_pandas 7
                    \<lparr>files = Map.empty, writable = (\<lambda>path. True), stdout = []\<rparr>))
        ''dummy_agricultural_data.csv'' = Some (csv_text sample_pandas data) \<and>
      files (snd (data_py lcg_numpy sample_pandas 7
                    (snd (data_py lcg_numpy sample_pandas 0 (sample_world ''five rows''))))) =
        files (snd (data_py lcg_numpy sample_pandas 0 (sample_world ''five rows''))) \<and>
      (\<forall>path. path \<noteq> ''dummy_agricultural_data.csv'' \<longrightarrow>
         files (snd (data_py lcg_numpy sample_pandas 0 (sample_world ''five rows''))) path =
           files (sample_world ''five rows'') path))"
proof -
  have w1: "writable (sample_world ''five rows'') ''dummy_agricultural_data.csv''"
    by (simp add: sample_world_def)
  have w2: "writable \<lparr>files = Map.empty, writable = (\<lambda>path. True), stdout = []\<rparr>
     ''dummy_agricultural_data.csv''"
    by simp
  have f1: "files (sample_world ''five rows'') ''dummy_agricultural_data.csv'' = Some ''five rows''"
    by (simp add: sample_world_def)
  have f2: "files \<lparr>files = Map.empty, writable = (\<lambda>path. True), stdout = []\<rparr>
     ''dummy_agricultural_data.csv'' = None"
    by simp
  have h: "numpy_contract lcg_numpy \<and>
      writable (sample_world ''five rows'') ''dummy_agricultural_data.csv'' \<and>
      writable \<lparr>files = Map.empty, writable = (\<lambda>path. True), stdout = []\<rparr>
        ''dummy_agricultural_data.csv''"
    by (intro conjI lcg_numpy_contract w1 w2)
  show ?thesis
    by (intro conjI lcg_numpy_contract w1 w2 f1 f2
        mp [OF conjunct2 [OF generate_dummy_data_deterministic] h])
qed

section \<open>Properties of the trainer\<close>

subsection \<open>One-hot expansion of the climate column\<close>

lemma zones_sorted: "sorted [''Arctic'', ''Temperate'', ''Tropical'']"
  by simp

lemma zones_distinct: "distinct [''Arctic'', ''Temperate'', ''Tropical'']"
  by simp

lemma indicator_sum:
  assumes "distinct L"
  shows "(\<Sum>l\<leftarrow>L. if c = l then 1 else 0) = (if c \<in> set L then 1 else (0::nat))"
  using assms by (induction L) auto

lemma sort_cells_strs:
  assumes "list_all is_Str cs"
  shows "sort_cells cs = map Str (sort (map un_Str cs))"
  using assms by (simp add: sort_cells_def)

lemma Str_un_Str: "is_Str c \<Longrightarrow> Str (un_Str c) = c"
  by (cases c) simp_all

lemma levels_zones:
  assumes "set col \<subseteq> {Str ''Tropical'', Str ''Temperate'', Str ''Arctic''}"
  shows "levels col =
           map Str (filter (\<lambda>v. Str v \<in> set col) [''Arctic'', ''Temperate'', ''Tropical''])"
proof -
  have strs: "\<forall>c \<in> set col. is_Str c" using assms by auto
  have nonan: "filter (\<lambda>c. c \<noteq> NaN) col = col"
    using assms by (intro filter_True) auto
  have all: "list_all is_Str (remdups col)"
    using strs by (simp add: list_all_iff)
  define zs where "zs = sort (map un_Str (remdups col))"
  define fs where "fs = filter (\<lambda>v. Str v \<in> set col) [''Arctic'', ''Temperate'', ''Tropical'']"
  have lv: "levels col = map Str zs"
    by (simp only: levels_def nonan sort_cells_strs [OF all] zs_def)
  have inj: "inj_on un_Str (set col)"
    using strs by (intro inj_onI) (metis Str_un_Str)
  have "sorted zs" by (simp add: zs_def)
  moreover have "distinct zs" using inj by (simp add: zs_def distinct_map)
  moreover have "sorted fs" unfolding fs_def using sorted_filter [of "\<lambda>x. x" "[''Arctic'', ''Temperate'', ''Tropical'']"] zones_sorted by (simp only: list.map_ident)
  moreover have "distinct fs" unfolding fs_def by (rule distinct_filter) (rule zones_distinct)
  moreover have "set zs = set fs"
  proof -
    have "set zs = un_Str ` set col" by (simp add: zs_def)
    also have "\<dots> = {v. Str v \<in> set col}"
    proof (intro set_eqI iffI)
      fix v assume "v \<in> un_Str ` set col"
      then obtain c where "c \<in> set col" "v = un_Str c" by blast
      then show "v \<in> {v. Str v \<in> set col}" using strs Str_un_Str by auto
    next
      fix v assume "v \<in> {v. Str v \<in> set col}"
      then have "Str v \<in> set col" by simp
      then show "v \<in> un_Str ` set col" by force
    qed
    also have "\<dots> = set fs"
      using assms unfolding fs_def by auto
    finally show ?thesis .
  qed
  ultimately have "zs = fs" by (rule sorted_distinct_set_unique)
  then show ?thesis using lv by (simp only: fs_def)
qed

lemma count_one:
  assumes "distinct L" and "c \<in> set L"
  shows "length (filter (\<lambda>l. c = l) L) = 1"
  using assms by (induction L) (auto simp: filter_empty_conv)

lemma dummies_row:
  assumes d: "distinct L" and i: "i < length col" and m: "col ! i \<in> set L"
  shows "(\<Sum>(name, c)\<leftarrow>map (\<lambda>level. (f level, map (\<lambda>c. Flag (c = level)) col)) L.
            indicator (c ! i)) = 1"
    and "length (filter (\<lambda>(name, c). c ! i = Flag True)
           (map (\<lambda>level. (f level, map (\<lambda>c. Flag (c = level)) col)) L)) = 1"
    and "list_all (\<lambda>(name, c). c ! i = Flag True \<or> c ! i = Flag False)
           (map (\<lambda>level. (f level, map (\<lambda>c. Flag (c = level)) col)) L)"
proof -
  have "(\<Sum>(name, c)\<leftarrow>map (\<lambda>level. (f level, map (\<lambda>c. Flag (c = level)) col)) L.
            indicator (c ! i)) = (\<Sum>l\<leftarrow>L. if col ! i = l then 1 else 0)"
    using i by (simp add: o_def)
  then show "(\<Sum>(name, c)\<leftarrow>map (\<lambda>level. (f level, map (\<lambda>c. Flag (c = level)) col)) L.
            indicator (c ! i)) = 1"
    using indicator_sum [OF d, of "col ! i"] m by simp
  have "length (filter (\<lambda>(name, c). c ! i = Flag True)
           (map (\<lambda>level. (f level, map (\<lambda>c. Flag (c = level)) col)) L)) =
        length (filter (\<lambda>l. col ! i = l) L)"
    using i by (simp add: filter_map o_def)
  then show "length (filter (\<lambda>(name, c). c ! i = Flag True)
           (map (\<lambda>level. (f level, map (\<lambda>c. Flag (c = level)) col)) L)) = 1"
    using count_one [OF d m] by simp
  show "list_all (\<lambda>(name, c). c ! i = Flag True \<or> c ! i = Flag False)
           (map (\<lambda>level. (f level, map (\<lambda>c. Flag (c = level)) col)) L)"
    using i by (simp add: list_all_iff)
qed

lemma get_dummies_one:
  assumes "filter (\<lambda>(name, c). name = n) df = [(n, col)]"
  shows "get_dummies P df [n] = Inr (filter (\<lambda>(name, c). name \<noteq> n) df @ dummies_1d P (n, col))"
proof -
  have "(n, col) \<in> set (filter (\<lambda>(name, c). name = n) df)" using assms by simp
  then have "n \<in> set (map fst df)" by force
  then show ?thesis using assms by (simp add: get_dummies_def getitem_list_def)
qed

lemma levels_distinct_set:
  assumes "set col \<subseteq> {Str ''Tropical'', Str ''Temperate'', Str ''Arctic''}"
  shows "distinct (levels col)" and "set (levels col) = set col"
proof -
  have d: "distinct (filter (\<lambda>v. Str v \<in> set col) [''Arctic'', ''Temperate'', ''Tropical''])"
    by (rule distinct_filter) (rule zones_distinct)
  show "distinct (levels col)"
    unfolding levels_zones [OF assms] using d by (simp only: distinct_map) (simp add: inj_on_def)
  have "set col \<subseteq> Str ` {v. Str v \<in> set col}"
    using assms by (intro subsetI) (auto simp: image_iff)
  moreover have "Str ` {v. Str v \<in> set col} \<subseteq> set col" by blast
  ultimately have e: "Str ` {v. Str v \<in> set col} = set col" by (rule equalityI [rotated])
  have "{v \<in> set [''Arctic'', ''Temperate'', ''Tropical'']. Str v \<in> set col} =
          {v. Str v \<in> set col}"
    using assms by auto
  then show "set (levels col) = set col"
    unfolding levels_zones [OF assms] set_map set_filter using e by (simp only:)
qed

lemma small_get_dummies:
  "get_dummies sample_pandas
     [(''Soil pH'', [Num 5, Num 6, Num 7]),
      (''Climate Zone'', [Str ''Tropical'', Str ''Arctic'', Str ''Temperate''])]
     [''Climate Zone''] =
   Inr [(''Soil pH'', [Num 5, Num 6, Num 7]),
        (''Climate Zone_Arctic'', [Flag False, Flag True, Flag False]),
        (''Climate Zone_Temperate'', [Flag False, Flag False, Flag True]),
        (''Climate Zone_Tropical'', [Flag True, Flag False, Flag False])]"
proof -
  have l: "levels [Str ''Tropical'', Str ''Arctic'', Str ''Temperate''] =
             [Str ''Arctic'', Str ''Temperate'', Str ''Tropical'']"
    by (simp add: levels_zones)
  show ?thesis
    by (simp add: get_dummies_def getitem_list_def dummies_1d_def l)
qed

text \<open>
  Claim C2, as amended. For every table with one column named Climate Zone that holds
  only the values Tropical, Temperate and Arctic, the expansion replaces that column by one
  indicator column for each value that occurs in it, named \<open>Climate Zone_\<close> and the value,
  in sorted order: the three columns Climate Zone_Arctic, Climate Zone_Temperate and
  Climate Zone_Tropical when all three values occur. In every row the indicators are
  booleans, they sum to 1 and exactly one is set.
\<close>

theorem get_dummies_climate_zone:
  assumes col: "filter (\<lambda>(name, c). name = ''Climate Zone'') df = [(''Climate Zone'', col)]"
    and vals: "set col \<subseteq> {Str ''Tropical'', Str ''Temperate'', Str ''Arctic''}"
  shows "\<exists>ds. get_dummies P df [''Climate Zone''] =
                Inr (filter (\<lambda>(name, c). name \<noteq> ''Climate Zone'') df @ ds) \<and>
              map fst ds = map (\<lambda>v. ''Climate Zone_'' @ v)
                (filter (\<lambda>v. Str v \<in> set col) [''Arctic'', ''Temperate'', ''Tropical'']) \<and>
              (set col = {Str ''Tropical'', Str ''Temperate'', Str ''Arctic''} \<longrightarrow>
                 map fst ds = [''Climate Zone_Arctic'', ''Climate Zone_Temperate'',
                               ''Climate Zone_Tropical'']) \<and>
              (\<forall>i < length col.
                 (\<Sum>(name, c)\<leftarrow>ds. indicator (c ! i)) = 1 \<and>
                 length (filter (\<lambda>(name, c). c ! i = Flag True) ds) = 1 \<and>
                 list_all (\<lambda>(name, c). c ! i = Flag True \<or> c ! i = Flag False) ds)"
proof -
  define ds where "ds = dummies_1d P (''Climate Zone'', col)"
  have ds: "ds = map (\<lambda>level. (''Climate Zone'' @ ''_'' @ cell_text P level,
                        map (\<lambda>c. Flag (c = level)) col)) (levels col)"
    by (simp only: ds_def dummies_1d_def prod.case)
  have run: "get_dummies P df [''Climate Zone''] =
               Inr (filter (\<lambda>(name, c). name \<noteq> ''Climate Zone'') df @ ds)"
    unfolding ds_def by (rule get_dummies_one [OF col])
  have names: "map fst ds = map (\<lambda>v. ''Climate Zone_'' @ v)
                (filter (\<lambda>v. Str v \<in> set col) [''Arctic'', ''Temperate'', ''Tropical''])"
    unfolding ds levels_zones [OF vals] by (simp add: o_def)
  have three: "set col = {Str ''Tropical'', Str ''Temperate'', Str ''Arctic''} \<longrightarrow>
                 map fst ds = [''Climate Zone_Arctic'', ''Climate Zone_Temperate'',
                               ''Climate Zone_Tropical'']"
  proof (rule impI)
    assume e: "set col = {Str ''Tropical'', Str ''Temperate'', Str ''Arctic''}"
    have "filter (\<lambda>v. Str v \<in> set col) [''Arctic'', ''Temperate'', ''Tropical''] =
            [''Arctic'', ''Temperate'', ''Tropical'']"
      unfolding e by simp
    then show "map fst ds = [''Climate Zone_Arctic'', ''Climate Zone_Temperate'',
                               ''Climate Zone_Tropical'']"
      unfolding names by simp
  qed
  have rows: "\<forall>i < length col.
                 (\<Sum>(name, c)\<leftarrow>ds. indicator (c ! i)) = 1 \<and>
                 length (filter (\<lambda>(name, c). c ! i = Flag True) ds) = 1 \<and>
                 list_all (\<lambda>(name, c). c ! i = Flag True \<or> c ! i = Flag False) ds"
  proof (intro allI impI)
    fix i assume i: "i < length col"
    have m: "col ! i \<in> set (levels col)"
      using i levels_distinct_set(2) [OF vals] by simp
    show "(\<Sum>(name, c)\<leftarrow>ds. indicator (c ! i)) = 1 \<and>
          length (filter (\<lambda>(name, c). c ! i = Flag True) ds) = 1 \<and>
          list_all (\<lambda>(name, c). c ! i = Flag True \<or> c ! i = Flag False) ds"
      unfolding ds
      by (intro conjI dummies_row [OF levels_distinct_set(1) [OF vals] i m])
  qed
  show ?thesis by (intro exI [of _ ds] conjI run names three rows)
qed

theorem get_dummies_climate_zone_witness:
  "filter (\<lambda>(name, c). name = ''Climate Zone'')
     [(''Soil pH'', [Num 5, Num 6, Num 7]),
      (''Climate Zone'', [Str ''Tropical'', Str ''Arctic'', Str ''Temperate''])] =
     [(''Climate Zone'', [Str ''Tropical'', Str ''Arctic'', Str ''Temperate''])] \<and>
   set [Str ''Tropical'', Str ''Arctic'', Str ''Temperate''] \<subseteq>
     {Str ''Tropical'', Str ''Temperate'', Str ''Arctic''} \<and>
   get_dummies sample_pandas
     [(''Soil pH'', [Num 5, Num 6, Num 7]),
      (''Climate Zone'', [Str ''Tropical'', Str ''Arctic'', Str ''Temperate''])]
     [''Climate Zone''] =
   Inr [(''Soil pH'', [Num 5, Num 6, Num 7]),
        (''Climate Zone_Arctic'', [Flag False, Flag True, Flag False]),
        (''Climate Zone_Temperate'', [Flag False, Flag False, Flag True]),
        (''Climate Zone_Tropical'', [Flag True, Flag False, Flag False])] \<and>
   (\<exists>ds. get_dummies sample_pandas
            [(''Soil pH'', [Num 5, Num 6, Num 7]),
      (''Climate Zone'', [Str ''Tropical'', Str ''Arctic'', Str ''Temperate''])]
            [''Climate Zone''] =
          Inr (filter (\<lambda>(name, c). name \<noteq> ''Climate Zone'')
                 [(''Soil pH'', [Num 5, Num 6, Num 7]),
      (''Climate Zone'', [Str ''Tropical'', Str ''Arctic'', Str ''Temperate''])] @ ds) \<and>
        map fst ds = map (\<lambda>v. ''Climate Zone_'' @ v)
          (filter (\<lambda>v. Str v \<in> set [Str ''Tropical'', Str ''Arctic'', Str ''Temperate''])
             [''Arctic'', ''Temperate'', ''Tropical'']) \<and>
        (set [Str ''Tropical'', Str ''Arctic'', Str ''Temperate''] =
           {Str ''Tropical'', Str ''Temperate'', Str ''Arctic''} \<longrightarrow>
         map fst ds = [''Climate Zone_Arctic'', ''Climate Zone_Temperate'',
                       ''Climate Zone_Tropical'']) \<and>
        (\<forall>i < length [Str ''Tropical'', Str ''Arctic'', Str ''Temperate''].
           (\<Sum>(name, c)\<leftarrow>ds. indicator (c ! i)) = 1 \<and>
           length (filter (\<lambda>(name, c). c ! i = Flag True) ds) = 1 \<and>
           list_all (\<lambda>(name, c). c ! i = Flag True \<or> c ! i = Flag False) ds))"
proof -
  have col: "filter (\<lambda>(name, c). name = ''Climate Zone'')
     [(''Soil pH'', [Num 5, Num 6, Num 7]),
      (''Climate Zone'', [Str ''Tropical'', Str ''Arctic'', Str ''Temperate''])] =
     [(''Climate Zone'', [Str ''Tropical'', Str ''Arctic'', Str ''Temperate''])]"
    by simp
  have vals: "set [Str ''Tropical'', Str ''Arctic'', Str ''Temperate''] \<subseteq>
     {Str ''Tropical'', Str ''Temperate'', Str ''Arctic''}"
    by simp
  show ?thesis
    by (intro conjI col vals small_get_dummies get_dummies_climate_zone [OF col vals])
qed

text \<open>
  Claim C2 as stated, three indicator columns for every table whose column holds values
  among the three, fails for a table that holds only Tropical: the expansion has one
  indicator column, for the one value that occurs.
\<close>

theorem get_dummies_one_zone:
  "get_dummies sample_pandas [(''Climate Zone'', [Str ''Tropical''])] [''Climate Zone''] =
     Inr [(''Climate Zone_Tropical'', [Flag True])]"
proof -
  have l: "levels [Str ''Tropical''] = [Str ''Tropical'']"
    by (simp add: levels_zones)
  show ?thesis
    by (simp add: get_dummies_def getitem_list_def dummies_1d_def l)
qed

subsection \<open>The train/test split\<close>

lemma take_rows_Inr:
  assumes "take_rows X idx = Inr X'"
  shows "X' = map (\<lambda>(name, col). (name, map (\<lambda>i. col ! i) idx)) X"
  using assms by (simp add: take_rows_def split: if_splits)

lemma take_cells_Inr:
  assumes "take_cells y idx = Inr y'"
  shows "y' = map (\<lambda>i. y ! i) idx"
  using assms by (simp add: take_cells_def split: if_splits)

lemma permutation_facts:
  assumes "sklearn_contract S"
  shows "length (sk_permutation S r n) = n"
    and "distinct (sk_permutation S r n)"
    and "set (sk_permutation S r n) = {..<n}"
proof -
  have m: "mset (sk_permutation S r n) = mset [0..<n]"
    using assms by (simp add: sklearn_contract_def)
  show "length (sk_permutation S r n) = n"
    using mset_eq_length [OF m] by simp
  show "distinct (sk_permutation S r n)"
    using mset_eq_imp_distinct_iff [OF m] by simp
  show "set (sk_permutation S r n) = {..<n}"
    using mset_eq_setD [OF m] by (simp add: atLeast0LessThan)
qed

lemma n_test_le:
  assumes "test_size < 1" and "0 < test_size"
  shows "nat \<lceil>test_size * real n\<rceil> \<le> n"
proof -
  have "test_size * real n \<le> real n"
    using assms by (simp add: mult_left_le_one_le)
  then show ?thesis by simp
qed

lemma train_test_split_cases:
  assumes "train_test_split S X y test_size random_state = Inr (X_train, X_test, y_train, y_test)"
  obtains n_test where
    "n_test = nat \<lceil>test_size * real (nrows X)\<rceil>"
    "length y = nrows X" "0 < test_size" "test_size < 1" "nrows X - n_test \<noteq> 0"
    "take_rows X (take (nrows X - n_test) (drop n_test (sk_permutation S random_state (nrows X)))) = Inr X_train"
    "take_rows X (take n_test (sk_permutation S random_state (nrows X))) = Inr X_test"
    "take_cells y (take (nrows X - n_test) (drop n_test (sk_permutation S random_state (nrows X)))) = Inr y_train"
    "take_cells y (take n_test (sk_permutation S random_state (nrows X))) = Inr y_test"
  using assms unfolding train_test_split_def Let_def raising_def
  by (simp split: if_splits sum.splits)

lemma take_rows_ok:
  assumes "wf_frame X" and "set idx \<subseteq> {..<nrows X}"
  shows "take_rows X idx = Inr (map (\<lambda>(name, col). (name, map (\<lambda>i. col ! i) idx)) X)"
proof -
  have "list_all (\<lambda>(name, col). list_all (\<lambda>i. i < length col) idx) X"
    using assms unfolding wf_frame_def list_all_iff by fastforce
  then show ?thesis by (simp add: take_rows_def)
qed

lemma take_cells_ok:
  assumes "set idx \<subseteq> {..<length y}"
  shows "take_cells y idx = Inr (map (\<lambda>i. y ! i) idx)"
  using assms unfolding take_cells_def list_all_iff by auto

lemma nrows_take:
  assumes "X \<noteq> []"
  shows "nrows (map (\<lambda>(name, col). (name, map (\<lambda>i. col ! i) idx)) X) = length idx"
  using assms by (cases X) (auto split: prod.splits)

lemma train_test_split_run:
  assumes "length y = nrows X" and "0 < test_size" and "test_size < 1"
    and "n_test = nat \<lceil>test_size * real (nrows X)\<rceil>" and "n_test < nrows X"
    and "p = sk_permutation S random_state (nrows X)"
    and "take_rows X (take (nrows X - n_test) (drop n_test p)) = Inr X_train"
    and "take_rows X (take n_test p) = Inr X_test"
    and "take_cells y (take (nrows X - n_test) (drop n_test p)) = Inr y_train"
    and "take_cells y (take n_test p) = Inr y_test"
  shows "train_test_split S X y test_size random_state = Inr (X_train, X_test, y_train, y_test)"
  unfolding train_test_split_def Let_def using assms by (simp add: raising_def)

lemma first_label_sklearn_contract: "sklearn_contract first_label_sklearn"
  by (simp add: sklearn_contract_def first_label_sklearn_def)

lemma upt5: "[0..<5] = [0, 1, 2, 3, 4]"
  by (simp add: upt_rec)

lemma train_test_split_five_rows:
  "train_test_split first_label_sklearn
     [(''Soil pH'', [Num 5, Num 6, Num 7, Num 4, Num 8])]
     [Str ''Wheat'', Str ''Corn'', Str ''Rice'', Str ''Corn'', Str ''Wheat''] 0.2 42 =
   Inr ([(''Soil pH'', [Num 4, Num 7, Num 6, Num 5])], [(''Soil pH'', [Num 8])],
        [Str ''Corn'', Str ''Rice'', Str ''Corn'', Str ''Wheat''], [Str ''Wheat''])"
  by (simp add: train_test_split_def first_label_sklearn_def upt5 take_rows_def take_cells_def)

lemma ceiling_fifth: "\<lceil>1 / 5 :: real\<rceil> = 1"
  by (rule ceiling_unique) simp_all

text \<open>
  Claim C8. Whenever the split returns, the train rows and the test rows are taken at two
  lists of row positions that have no position in common or twice and together hold every
  position below the number of rows: no row is dropped, duplicated or shared. The labels
  are taken at the same positions as the feature rows, so each feature row keeps its
  label. That the split does return for two rows or more is proved with claim C3.
\<close>

theorem train_test_split_partition:
  assumes S: "sklearn_contract S"
    and run: "train_test_split S X y test_size random_state = Inr (X_train, X_test, y_train, y_test)"
  shows "\<exists>ind_train ind_test.
           distinct (ind_train @ ind_test) \<and>
           set ind_train \<union> set ind_test = {..<nrows X} \<and>
           length y = nrows X \<and>
           X_train = map (\<lambda>(name, col). (name, map (\<lambda>i. col ! i) ind_train)) X \<and>
           y_train = map (\<lambda>i. y ! i) ind_train \<and>
           X_test = map (\<lambda>(name, col). (name, map (\<lambda>i. col ! i) ind_test)) X \<and>
           y_test = map (\<lambda>i. y ! i) ind_test"
proof -
  define p where "p = sk_permutation S random_state (nrows X)"
  from run obtain n_test where
    len: "length y = nrows X" and
    xtr: "take_rows X (take (nrows X - n_test) (drop n_test p)) = Inr X_train" and
    xte: "take_rows X (take n_test p) = Inr X_test" and
    ytr: "take_cells y (take (nrows X - n_test) (drop n_test p)) = Inr y_train" and
    yte: "take_cells y (take n_test p) = Inr y_test"
    unfolding p_def by (rule train_test_split_cases)
  have lp: "length p = nrows X" and dp: "distinct p" and sp: "set p = {..<nrows X}"
    unfolding p_def by (rule permutation_facts [OF S])+
  have tr: "take (nrows X - n_test) (drop n_test p) = drop n_test p"
    by (simp add: lp)
  have "distinct (take n_test p @ drop n_test p)" using dp by simp
  then have d: "distinct (drop n_test p @ take n_test p)"
    by (simp only: distinct_append Int_commute conj_commute)
  have "set (take n_test p @ drop n_test p) = {..<nrows X}" using sp by simp
  then have u: "set (drop n_test p) \<union> set (take n_test p) = {..<nrows X}"
    by (simp only: set_append Un_commute)
  show ?thesis
    using d u len take_rows_Inr [OF xtr] take_cells_Inr [OF ytr]
      take_rows_Inr [OF xte] take_cells_Inr [OF yte]
    unfolding tr by blast
qed

theorem train_test_split_partition_witness:
  "sklearn_contract first_label_sklearn \<and>
   train_test_split first_label_sklearn [(''Soil pH'', [Num 5, Num 6, Num 7, Num 4, Num 8])]
     [Str ''Wheat'', Str ''Corn'', Str ''Rice'', Str ''Corn'', Str ''Wheat''] 0.2 42 =
     Inr ([(''Soil pH'', [Num 4, Num 7, Num 6, Num 5])], [(''Soil pH'', [Num 8])],
          [Str ''Corn'', Str ''Rice'', Str ''Corn'', Str ''Wheat''], [Str ''Wheat'']) \<and>
   (\<exists>ind_train ind_test.
      distinct (ind_train @ ind_test) \<and>
      set ind_train \<union> set ind_test = {..<nrows [(''Soil pH'', [Num 5, Num 6, Num 7, Num 4, Num 8])]} \<and>
      length [Str ''Wheat'', Str ''Corn'', Str ''Rice'', Str ''Corn'', Str ''Wheat''] = nrows [(''Soil pH'', [Num 5, Num 6, Num 7, Num 4, Num 8])] \<and>
      [(''Soil pH'', [Num 4, Num 7, Num 6, Num 5])] =
        map (\<lambda>(name, col). (name, map (\<lambda>i. col ! i) ind_train)) [(''Soil pH'', [Num 5, Num 6, Num 7, Num 4, Num 8])] \<and>
      [Str ''Corn'', Str ''Rice'', Str ''Corn'', Str ''Wheat''] =
        map (\<lambda>i. [Str ''Wheat'', Str ''Corn'', Str ''Rice'', Str ''Corn'', Str ''Wheat''] ! i) ind_train \<and>
      [(''Soil pH'', [Num 8])] =
        map (\<lambda>(name, col). (name, map (\<lambda>i. col ! i) ind_test)) [(''Soil pH'', [Num 5, Num 6, Num 7, Num 4, Num 8])] \<and>
      [Str ''Wheat''] = map (\<lambda>i. [Str ''Wheat'', Str ''Corn'', Str ''Rice'', Str ''Corn'', Str ''Wheat''] ! i) ind_test)"
  by (intro conjI first_label_sklearn_contract train_test_split_five_rows
      train_test_split_partition [OF first_label_sklearn_contract train_test_split_five_rows])

text \<open>The sizes of the two partitions, for two rows or more.\<close>

lemma train_test_split_two_rows:
  assumes S: "sklearn_contract S" and wf: "wf_frame X" and len: "length y = nrows X"
    and n: "2 \<le> nrows X"
  shows "\<exists>X_train X_test y_train y_test.
           train_test_split S X y 0.2 42 = Inr (X_train, X_test, y_train, y_test) \<and>
           nrows X_test = nat \<lceil>0.2 * real (nrows X)\<rceil> \<and>
           length y_test = nrows X_test \<and>
           nrows X_train = nrows X - nrows X_test \<and>
           length y_train = nrows X_train \<and>
           \<bar>real (nrows X_test) - 0.2 * real (nrows X)\<bar> < 1"
proof -
  define m where "m = nrows X"
  define n_test where "n_test = nat \<lceil>0.2 * real m\<rceil>"
  define p where "p = sk_permutation S 42 m"
  have lp: "length p = m" and sp: "set p = {..<m}"
    unfolding p_def by (rule permutation_facts [OF S])+
  have m2: "2 \<le> m" using n by (simp add: m_def)
  have "0.2 * real m \<le> real m - 1" using m2 by simp
  then have "0.2 * real m \<le> of_int (int m - 1)" using m2 by simp
  then have "\<lceil>0.2 * real m\<rceil> \<le> int m - 1" by (rule ceiling_le)
  then have lt: "n_test < m" using m2 by (simp add: n_test_def)
  have c0: "0 \<le> \<lceil>0.2 * real m\<rceil>" by (simp add: ceiling_le_iff le_ceiling_iff)
  have rn: "real n_test = of_int \<lceil>0.2 * real m\<rceil>"
    using c0 by (simp add: n_test_def)
  have approx: "\<bar>real n_test - 0.2 * real m\<bar> < 1"
    unfolding rn by linarith
  have X0: "X \<noteq> []" using n by (cases X) simp_all
  let ?te = "take n_test p" and ?tr = "take (m - n_test) (drop n_test p)"
  have ste: "set ?te \<subseteq> {..<m}" using sp set_take_subset [of n_test p] by blast
  have str: "set ?tr \<subseteq> {..<m}"
    using sp set_take_subset [of "m - n_test" "drop n_test p"] set_drop_subset [of n_test p]
    by blast
  have lte: "length ?te = n_test" using lt lp by simp
  have ltr: "length ?tr = m - n_test" using lp by simp
  have run: "train_test_split S X y 0.2 42 =
      Inr (map (\<lambda>(name, col). (name, map (\<lambda>i. col ! i) ?tr)) X,
           map (\<lambda>(name, col). (name, map (\<lambda>i. col ! i) ?te)) X,
           map (\<lambda>i. y ! i) ?tr, map (\<lambda>i. y ! i) ?te)"
  proof (rule train_test_split_run [where n_test = n_test and p = p])
    show "length y = nrows X" by (rule len)
    show "(0::real) < 0.2" "(0.2::real) < 1" by simp_all
    show "n_test = nat \<lceil>0.2 * real (nrows X)\<rceil>" by (simp only: n_test_def m_def)
    show "n_test < nrows X" using lt by (simp only: m_def)
    show "p = sk_permutation S 42 (nrows X)" by (simp only: p_def m_def)
    show "take_rows X (take (nrows X - n_test) (drop n_test p)) =
            Inr (map (\<lambda>(name, col). (name, map (\<lambda>i. col ! i) ?tr)) X)"
      using take_rows_ok [OF wf str [unfolded m_def]] by (simp only: m_def)
    show "take_rows X (take n_test p) = Inr (map (\<lambda>(name, col). (name, map (\<lambda>i. col ! i) ?te)) X)"
      by (rule take_rows_ok [OF wf ste [unfolded m_def]])
    show "take_cells y (take (nrows X - n_test) (drop n_test p)) = Inr (map (\<lambda>i. y ! i) ?tr)"
      using take_cells_ok [of ?tr y] str len by (simp only: m_def)
    show "take_cells y (take n_test p) = Inr (map (\<lambda>i. y ! i) ?te)"
      using take_cells_ok [of ?te y] ste len by (simp only: m_def)
  qed
  let ?Xtr = "map (\<lambda>(name, col). (name, map (\<lambda>i. col ! i) ?tr)) X"
  let ?Xte = "map (\<lambda>(name, col). (name, map (\<lambda>i. col ! i) ?te)) X"
  have a: "nrows ?Xte = nat \<lceil>0.2 * real (nrows X)\<rceil>"
    unfolding nrows_take [OF X0] lte by (simp only: n_test_def m_def)
  have b: "length (map (\<lambda>i. y ! i) ?te) = nrows ?Xte"
    by (simp only: nrows_take [OF X0] length_map)
  have c: "nrows ?Xtr = nrows X - nrows ?Xte"
    unfolding nrows_take [OF X0] lte ltr by (simp only: m_def)
  have d: "length (map (\<lambda>i. y ! i) ?tr) = nrows ?Xtr"
    by (simp only: nrows_take [OF X0] length_map)
  have e: "\<bar>real (nrows ?Xte) - 0.2 * real (nrows X)\<bar> < 1"
    using approx unfolding nrows_take [OF X0] lte by (simp only: m_def)
  show ?thesis using run a b c d e by blast
qed

subsection \<open>Column names after the expansion\<close>

lemma is_Str_image: "list_all is_Str cs \<Longrightarrow> Str ` un_Str ` set cs = set cs"
  by (force simp: list_all_iff Str_un_Str image_iff)

lemma is_Num_image: "list_all is_Num cs \<Longrightarrow> Num ` un_Num ` set cs = set cs"
proof -
  have "\<And>c. is_Num c \<Longrightarrow> Num (un_Num c) = c" by (case_tac c) simp_all
  then show "list_all is_Num cs \<Longrightarrow> Num ` un_Num ` set cs = set cs"
    by (force simp: list_all_iff image_iff)
qed

lemma is_Flag_image: "list_all is_Flag cs \<Longrightarrow> Flag ` un_Flag ` set cs = set cs"
proof -
  have "\<And>c. is_Flag c \<Longrightarrow> Flag (un_Flag c) = c" by (case_tac c) simp_all
  then show "list_all is_Flag cs \<Longrightarrow> Flag ` un_Flag ` set cs = set cs"
    by (force simp: list_all_iff image_iff)
qed

lemma set_sort_mixed: "set (sort_mixed cs) = set cs"
proof -
  have strs: "Str ` un_Str ` set (filter is_Str cs) = set (filter is_Str cs)"
    by (rule is_Str_image) (simp add: list_all_iff)
  have "set (sort_mixed cs) =
          set (filter (\<lambda>c. is_Num c \<or> is_Flag c) cs) \<union> set (filter is_Str cs) \<union>
          set (filter (\<lambda>c. c = NaN) cs)"
    unfolding sort_mixed_def set_append set_map set_sort strs by blast
  also have "\<dots> = set cs"
  proof (intro set_eqI iffI)
    fix c assume c: "c \<in> set cs"
    have "is_Num c \<or> is_Flag c \<or> is_Str c \<or> c = NaN" by (cases c) simp_all
    with c show "c \<in> set (filter (\<lambda>c. is_Num c \<or> is_Flag c) cs) \<union> set (filter is_Str cs) \<union>
                   set (filter (\<lambda>c. c = NaN) cs)"
      by auto
  qed auto
  finally show ?thesis .
qed

lemma set_sort_cells: "set (sort_cells cs) = set cs"
  by (simp add: sort_cells_def is_Str_image is_Num_image is_Flag_image set_sort_mixed)

lemma set_levels: "set (levels col) \<subseteq> set col"
  by (auto simp: levels_def set_sort_cells)

lemma dummies_names:
  "set (map fst (dummies_1d P (name, col))) =
     (\<lambda>level. name @ ''_'' @ cell_text P level) ` set (levels col)"
  by (simp add: dummies_1d_def o_def)

lemma get_dummies_names:
  assumes "get_dummies P df [n] = Inr d" and "x \<in> set (map fst d)"
  shows "x \<in> set (map fst df) \<or>
         (\<exists>col level. (n, col) \<in> set df \<and> level \<in> set col \<and> x = n @ ''_'' @ cell_text P level)"
proof -
  have d: "d = filter (\<lambda>(name, col). name \<notin> set [n]) df @
               concat (map (dummies_1d P) (filter (\<lambda>(name, col). name = n) df))"
    using assms(1) by (simp add: get_dummies_def getitem_list_def split: if_splits)
  from assms(2) consider
    "x \<in> set (map fst (filter (\<lambda>(name, col). name \<notin> set [n]) df))" |
    "x \<in> set (map fst (concat (map (dummies_1d P) (filter (\<lambda>(name, col). name = n) df))))"
    unfolding d by auto
  then show ?thesis
  proof cases
    case 1
    then show ?thesis by auto
  next
    case 2
    then obtain nc where nc: "nc \<in> set (filter (\<lambda>(name, col). name = n) df)"
      and x: "x \<in> set (map fst (dummies_1d P nc))"
      by auto
    obtain name col where e: "nc = (name, col)" by (cases nc)
    have n: "name = n" "(n, col) \<in> set df" using nc e by auto
    from x obtain level where "level \<in> set (levels col)" "x = n @ ''_'' @ cell_text P level"
      unfolding e n(1) dummies_names by auto
    then show ?thesis using n(2) set_levels by blast
  qed
qed

lemma get_dummies_Inr:
  assumes "n \<in> set (map fst df)"
  shows "\<exists>d. get_dummies P df [n] = Inr d"
  using assms by (simp add: get_dummies_def getitem_list_def)

lemma getitem_list_KeyError:
  assumes "x \<in> set names" and "x \<notin> set (map fst d)"
  shows "getitem_list d names = Inl KeyError"
  using assms by (auto simp: getitem_list_def list_all_iff)

subsection \<open>A run of the script on the table of five rows\<close>

lemma read_five: "read_csv sample_pandas (sample_world ''five rows'') ''dummy_agricultural_data.csv'' = Inr sample_frame"
  by (simp add: read_csv_def sample_world_def sample_pandas_def)

lemma levels_five:
  "levels [Str ''Tropical'', Str ''Temperate'', Str ''Arctic'', Str ''Tropical'', Str ''Temperate''] =
     [Str ''Arctic'', Str ''Temperate'', Str ''Tropical'']"
  by (simp add: levels_zones)

lemma dummies_five:
  "get_dummies sample_pandas sample_frame [''Climate Zone''] =
   Inr [(''Temperature (Celsius)'', [Num 20, Num 25, Num 30, Num 18, Num 33]),
        (''Precipitation (mm)'', [Num 10, Num 50, Num 90, Num 30, Num 70]),
        (''Soil pH'', [Num 5, Num 6, Num 7, Num 4.5, Num 8]),
        (''Input Expenses (Currency)'', [Num 1500, Num 2500, Num 3500, Num 4500, Num 2000]),
        (''Output Prices (Currency)'', [Num 6000, Num 7000, Num 8000, Num 9000, Num 5500]),
        (''Recommended Product'', [Str ''Wheat'', Str ''Corn'', Str ''Wheat'', Str ''Corn'',
                                   Str ''Rice'']),
        (''Climate Zone_Arctic'', [Flag False, Flag False, Flag True, Flag False, Flag False]),
        (''Climate Zone_Temperate'', [Flag False, Flag True, Flag False, Flag False, Flag True]),
        (''Climate Zone_Tropical'', [Flag True, Flag False, Flag False, Flag True, Flag False])]"
  by (simp add: get_dummies_def getitem_list_def dummies_1d_def levels_five sample_frame_def)

lemma select_five:
  "getitem_list
     [(''Temperature (Celsius)'', [Num 20, Num 25, Num 30, Num 18, Num 33]),
        (''Precipitation (mm)'', [Num 10, Num 50, Num 90, Num 30, Num 70]),
        (''Soil pH'', [Num 5, Num 6, Num 7, Num 4.5, Num 8]),
        (''Input Expenses (Currency)'', [Num 1500, Num 2500, Num 3500, Num 4500, Num 2000]),
        (''Output Prices (Currency)'', [Num 6000, Num 7000, Num 8000, Num 9000, Num 5500]),
        (''Recommended Product'', [Str ''Wheat'', Str ''Corn'', Str ''Wheat'', Str ''Corn'', Str ''Rice'']),
        (''Climate Zone_Arctic'', [Flag False, Flag False, Flag True, Flag False, Flag False]),
        (''Climate Zone_Temperate'', [Flag False, Flag True, Flag False, Flag False, Flag True]),
        (''Climate Zone_Tropical'', [Flag True, Flag False, Flag False, Flag True, Flag False])]
     [''Temperature (Celsius)'', ''Precipitation (mm)'', ''Soil pH'',
      ''Input Expenses (Currency)'', ''Output Prices (Currency)'',
      ''Climate Zone_Arctic'', ''Climate Zone_Temperate'', ''Climate Zone_Tropical''] =
   Inr [(''Temperature (Celsius)'', [Num 20, Num 25, Num 30, Num 18, Num 33]),
        (''Precipitation (mm)'', [Num 10, Num 50, Num 90, Num 30, Num 70]),
        (''Soil pH'', [Num 5, Num 6, Num 7, Num 4.5, Num 8]),
        (''Input Expenses (Currency)'', [Num 1500, Num 2500, Num 3500, Num 4500, Num 2000]),
        (''Output Prices (Currency)'', [Num 6000, Num 7000, Num 8000, Num 9000, Num 5500]),
        (''Climate Zone_Arctic'', [Flag False, Flag False, Flag True, Flag False, Flag False]),
        (''Climate Zone_Temperate'', [Flag False, Flag True, Flag False, Flag False, Flag True]),
        (''Climate Zone_Tropical'', [Flag True, Flag False, Flag False, Flag True, Flag False])]"
  by (simp add: getitem_list_def)

lemma target_five:
  "getitem
     [(''Temperature (Celsius)'', [Num 20, Num 25, Num 30, Num 18, Num 33]),
        (''Precipitation (mm)'', [Num 10, Num 50, Num 90, Num 30, Num 70]),
        (''Soil pH'', [Num 5, Num 6, Num 7, Num 4.5, Num 8]),
        (''Input Expenses (Currency)'', [Num 1500, Num 2500, Num 3500, Num 4500, Num 2000]),
        (''Output Prices (Currency)'', [Num 6000, Num 7000, Num 8000, Num 9000, Num 5500]),
        (''Recommended Product'', [Str ''Wheat'', Str ''Corn'', Str ''Wheat'', Str ''Corn'', Str ''Rice'']),
        (''Climate Zone_Arctic'', [Flag False, Flag False, Flag True, Flag False, Flag False]),
        (''Climate Zone_Temperate'', [Flag False, Flag True, Flag False, Flag False, Flag True]),
        (''Climate Zone_Tropical'', [Flag True, Flag False, Flag False, Flag True, Flag False])]
     ''Recommended Product'' =
   Inr [Str ''Wheat'', Str ''Corn'', Str ''Wheat'', Str ''Corn'', Str ''Rice'']"
  by (simp add: getitem_def)

lemma split_five:
  "train_test_split first_label_sklearn
     [(''Temperature (Celsius)'', [Num 20, Num 25, Num 30, Num 18, Num 33]),
        (''Precipitation (mm)'', [Num 10, Num 50, Num 90, Num 30, Num 70]),
        (''Soil pH'', [Num 5, Num 6, Num 7, Num 4.5, Num 8]),
        (''Input Expenses (Currency)'', [Num 1500, Num 2500, Num 3500, Num 4500, Num 2000]),
        (''Output Prices (Currency)'', [Num 6000, Num 7000, Num 8000, Num 9000, Num 5500]),
        (''Climate Zone_Arctic'', [Flag False, Flag False, Flag True, Flag False, Flag False]),
        (''Climate Zone_Temperate'', [Flag False, Flag True, Flag False, Flag False, Flag True]),
        (''Climate Zone_Tropical'', [Flag True, Flag False, Flag False, Flag True, Flag False])]
     [Str ''Wheat'', Str ''Corn'', Str ''Wheat'', Str ''Corn'', Str ''Rice''] 0.2 42 =
   Inr ([(''Temperature (Celsius)'', [Num 18, Num 30, Num 25, Num 20]),
        (''Precipitation (mm)'', [Num 30, Num 90, Num 50, Num 10]),
        (''Soil pH'', [Num 4.5, Num 7, Num 6, Num 5]),
        (''Input Expenses (Currency)'', [Num 4500, Num 3500, Num 2500, Num 1500]),
        (''Output Prices (Currency)'', [Num 9000, Num 8000, Num 7000, Num 6000]),
        (''Climate Zone_Arctic'', [Flag False, Flag True, Flag False, Flag False]),
        (''Climate Zone_Temperate'', [Flag False, Flag False, Flag True, Flag False]),
        (''Climate Zone_Tropical'', [Flag True, Flag False, Flag False, Flag True])],
        [(''Temperature (Celsius)'', [Num 33]),
        (''Precipitation (mm)'', [Num 70]),
        (''Soil pH'', [Num 8]),
        (''Input Expenses (Currency)'', [Num 2000]),
        (''Output Prices (Currency)'', [Num 5500]),
        (''Climate Zone_Arctic'', [Flag False]),
        (''Climate Zone_Temperate'', [Flag True]),
        (''Climate Zone_Tropical'', [Flag False])],
        [Str ''Corn'', Str ''Wheat'', Str ''Corn'', Str ''Wheat''], [Str ''Rice''])"
  by (simp add: train_test_split_def first_label_sklearn_def upt5 take_rows_def take_cells_def)

lemma fit_five:
  "sk_fit first_label_sklearn 100 42
     [(''Temperature (Celsius)'', [Num 18, Num 30, Num 25, Num 20]),
        (''Precipitation (mm)'', [Num 30, Num 90, Num 50, Num 10]),
        (''Soil pH'', [Num 4.5, Num 7, Num 6, Num 5]),
        (''Input Expenses (Currency)'', [Num 4500, Num 3500, Num 2500, Num 1500]),
        (''Output Prices (Currency)'', [Num 9000, Num 8000, Num 7000, Num 6000]),
        (''Climate Zone_Arctic'', [Flag False, Flag True, Flag False, Flag False]),
        (''Climate Zone_Temperate'', [Flag False, Flag False, Flag True, Flag False]),
        (''Climate Zone_Tropical'', [Flag True, Flag False, Flag False, Flag True])]
     [Str ''Corn'', Str ''Wheat'', Str ''Corn'', Str ''Wheat''] = Inr (Str ''Corn'')"
  by (simp add: first_label_sklearn_def)

lemma predict_five:
  "sk_predict first_label_sklearn (Str ''Corn'')
     [(''Temperature (Celsius)'', [Num 33]),
        (''Precipitation (mm)'', [Num 70]),
        (''Soil pH'', [Num 8]),
        (''Input Expenses (Currency)'', [Num 2000]),
        (''Output Prices (Currency)'', [Num 5500]),
        (''Climate Zone_Arctic'', [Flag False]),
        (''Climate Zone_Temperate'', [Flag True]),
        (''Climate Zone_Tropical'', [Flag False])] = Inr [Str ''Corn'']"
  by (simp add: first_label_sklearn_def)

lemma accuracy_five: "accuracy_score [Str ''Rice''] [Str ''Corn''] = Inr (Num 0)"
  by (simp add: accuracy_score_def)

lemma labels_five: "unique_labels [Str ''Rice''] [Str ''Corn''] = Inr [Str ''Corn'', Str ''Rice'']"
  by (simp add: unique_labels_def sort_cells_def)

lemma report_five:
  "classification_report [Str ''Rice''] [Str ''Corn''] =
     Inr \<lparr>report_rows =
          [\<lparr>row_label = Str ''Corn'', row_precision = 0, row_recall = 0, row_f1 = 0,
              row_support = 0\<rparr>,
           \<lparr>row_label = Str ''Rice'', row_precision = 0, row_recall = 0, row_f1 = 0,
              row_support = 1\<rparr>],
        report_accuracy = Num 0,
        report_macro_avg = (Num 0, Num 0, Num 0),
        report_weighted_avg = (Num 0, Num 0, Num 0),
        report_support = 1\<rparr>"
  by (simp add: classification_report_def labels_five accuracy_five report_row_def safe_div_def
      average_def)

lemma dump_five:
  "joblib_dump first_label_sklearn (Str ''Corn'') path w =
     (if writable w path then Inr (w\<lparr>files := (files w)(path \<mapsto> ''model'')\<rparr>) else Inl OSError)"
  by (simp add: joblib_dump_def write_file_def first_label_sklearn_def)

lemma run_five:
  "model_training sample_pandas first_label_sklearn (sample_world ''five rows'') =
     (None,
      (sample_world ''five rows'')
        \<lparr>stdout := [[OutText ''Accuracy:'', OutCell (Num 0)],
                    [OutText (CHR 0x0A # ''Classification Report:'')],
                    [OutReport \<lparr>report_rows =
          [\<lparr>row_label = Str ''Corn'', row_precision = 0, row_recall = 0, row_f1 = 0,
              row_support = 0\<rparr>,
           \<lparr>row_label = Str ''Rice'', row_precision = 0, row_recall = 0, row_f1 = 0,
              row_support = 1\<rparr>],
        report_accuracy = Num 0,
        report_macro_avg = (Num 0, Num 0, Num 0),
        report_weighted_avg = (Num 0, Num 0, Num 0),
        report_support = 1\<rparr>]],
         files := [''dummy_agricultural_data.csv'' \<mapsto> ''five rows'',
                   ''agricultural_product_recommendation_model.joblib'' \<mapsto> ''model'']\<rparr>)"
  unfolding model_training_def read_five or_exit_Inr dummies_five Let_def select_five target_five
    split_five prod.case fit_five predict_five accuracy_five report_five dump_five
  by (simp add: py_print_def sample_world_def)

subsection \<open>Accuracy and classification report\<close>

lemma accuracy_range:
  assumes "accuracy_score y_true y_pred = Inr accuracy" and "y_true \<noteq> []"
  shows "\<exists>a. accuracy = Num a \<and> 0 \<le> a \<and> a \<le> 1"
proof -
  let ?k = "length (filter (\<lambda>(t, p). t = p) (zip y_true y_pred))"
  have len: "length y_true = length y_pred"
    using assms(1) by (simp add: accuracy_score_def split: if_splits)
  have acc: "accuracy = Num (real ?k / real (length y_true))"
    using assms by (simp add: accuracy_score_def split: if_splits)
  have "?k \<le> length (zip y_true y_pred)" by (rule length_filter_le)
  then have "?k \<le> length y_true" using len by simp
  then have "real ?k / real (length y_true) \<le> 1"
    using assms(2) by (simp add: divide_le_eq_1)
  moreover have "0 \<le> real ?k / real (length y_true)" by simp
  ultimately show ?thesis using acc by blast
qed

lemma test_partition_nonempty:
  assumes S: "sklearn_contract S"
    and run: "train_test_split S X y test_size random_state = Inr (X_train, X_test, y_train, y_test)"
  shows "y_test \<noteq> []"
proof -
  from run obtain n_test where
    nt: "n_test = nat \<lceil>test_size * real (nrows X)\<rceil>" and
    pos: "0 < test_size" and lt: "test_size < 1" and ne: "nrows X - n_test \<noteq> 0" and
    yte: "take_cells y (take n_test (sk_permutation S random_state (nrows X))) = Inr y_test"
    by (rule train_test_split_cases)
  have n: "0 < nrows X" using ne by simp
  then have "0 < test_size * real (nrows X)" using pos by simp
  then have "0 < \<lceil>test_size * real (nrows X)\<rceil>" by (simp add: less_ceiling_iff)
  then have "0 < n_test" by (simp add: nt)
  moreover have "length (sk_permutation S random_state (nrows X)) = nrows X"
    by (rule permutation_facts [OF S])
  ultimately have "length (take n_test (sk_permutation S random_state (nrows X))) \<noteq> 0"
    using n by simp
  then show ?thesis using take_cells_Inr [OF yte] by auto
qed

lemma distinct_sort_cells:
  assumes "distinct cs"
  shows "distinct (sort_cells cs)"
proof -
  have s: "list_all is_Str cs \<Longrightarrow> inj_on un_Str (set cs)"
    by (intro inj_onI) (metis Str_un_Str list_all_iff)
  have n: "list_all is_Num cs \<Longrightarrow> inj_on un_Num (set cs)"
  proof (intro inj_onI)
    fix a b assume "list_all is_Num cs" "a \<in> set cs" "b \<in> set cs" "un_Num a = un_Num b"
    then show "a = b" by (cases a; cases b) (auto simp: list_all_iff)
  qed
  have f: "list_all is_Flag cs \<Longrightarrow> inj_on un_Flag (set cs)"
  proof (intro inj_onI)
    fix a b assume "list_all is_Flag cs" "a \<in> set cs" "b \<in> set cs" "un_Flag a = un_Flag b"
    then show "a = b" by (cases a; cases b) (auto simp: list_all_iff)
  qed
  have m: "distinct (sort_mixed cs)"
  proof -
    let ?A = "filter (\<lambda>c. is_Num c \<or> is_Flag c) cs"
    let ?B = "filter is_Str cs"
    let ?C = "filter (\<lambda>c. c = NaN) cs"
    have all: "list_all is_Str ?B" by (simp add: list_all_iff)
    have inj: "inj_on un_Str (set ?B)"
    proof (intro inj_onI)
      fix a b
      assume a: "a \<in> set ?B" and b: "b \<in> set ?B" and eq: "un_Str a = un_Str b"
      have "is_Str a" "is_Str b" using a b by simp_all
      then show "a = b" using eq by (metis Str_un_Str)
    qed
    have dA: "distinct ?A" and dB: "distinct ?B" and d3: "distinct ?C"
      using assms by (rule distinct_filter)+
    have d1: "distinct (sort_key cell_value ?A)"
      using dA by (simp only: distinct_sort)
    have "distinct (map un_Str ?B)"
      using dB inj by (simp only: distinct_map simp_thms)
    then have "distinct (sort (map un_Str ?B))"
      by (simp only: distinct_sort)
    moreover have "inj_on Str (set (sort (map un_Str ?B)))"
      by (rule inj_onI) simp
    ultimately have d2: "distinct (map Str (sort (map un_Str ?B)))"
      by (simp only: distinct_map simp_thms)
    have s1: "set (sort_key cell_value ?A) = set ?A"
      by (rule set_sort)
    have s2: "set (map Str (sort (map un_Str ?B))) = set ?B"
      unfolding set_map set_sort by (rule is_Str_image [OF all])
    have ex: "\<not> is_Num c \<and> \<not> is_Flag c \<and> c \<noteq> NaN" if "is_Str c" for c
      using that by (cases c) simp_all
    have x12: "set ?A \<inter> set ?B = {}"
    proof (rule equals0I)
      fix c assume "c \<in> set ?A \<inter> set ?B"
      then have a: "c \<in> set ?A" and b: "c \<in> set ?B" by blast+
      have "is_Num c \<or> is_Flag c" using a by simp
      moreover have "is_Str c" using b by simp
      ultimately show False using ex by blast
    qed
    have x13: "set ?A \<inter> set ?C = {}"
    proof (rule equals0I)
      fix c assume "c \<in> set ?A \<inter> set ?C"
      then have a: "c \<in> set ?A" and b: "c \<in> set ?C" by blast+
      have "is_Num c \<or> is_Flag c" using a by simp
      moreover have "c = NaN" using b by simp
      ultimately show False by simp
    qed
    have x23: "set ?B \<inter> set ?C = {}"
    proof (rule equals0I)
      fix c assume "c \<in> set ?B \<inter> set ?C"
      then have a: "c \<in> set ?B" and b: "c \<in> set ?C" by blast+
      have "is_Str c" using a by simp
      moreover have "c = NaN" using b by simp
      ultimately show False by simp
    qed
    have "distinct (map Str (sort (map un_Str ?B)) @ ?C)"
      using d2 d3 x23 by (simp only: distinct_append s2 simp_thms)
    moreover have "set (sort_key cell_value ?A) \<inter> set (map Str (sort (map un_Str ?B)) @ ?C) = {}"
      unfolding s1 set_append s2 using x12 x13 by blast
    ultimately show ?thesis
      unfolding sort_mixed_def using d1 by (simp only: distinct_append simp_thms)
  qed
  show ?thesis
  proof (cases "list_all is_Str cs \<or> list_all is_Num cs \<or> list_all is_Flag cs")
    case True
    then show ?thesis
      using assms s n f by (auto simp: sort_cells_def distinct_map inj_on_def)
  next
    case False
    then show ?thesis using m by (simp add: sort_cells_def)
  qed
qed

lemma report_rows_labels:
  assumes "classification_report y_true y_pred = Inr rep"
  shows "report_rows rep = map (report_row y_true y_pred) (sort_cells (remdups (y_true @ y_pred)))"
  using assms
  by (auto simp: classification_report_def unique_labels_def Let_def
      split: if_splits sum.splits)

lemma report_labels:
  assumes "classification_report y_true y_pred = Inr rep"
  shows "distinct (map row_label (report_rows rep))"
    and "set (map row_label (report_rows rep)) = set y_true \<union> set y_pred"
    and "\<forall>r \<in> set (report_rows rep).
           row_support r = length (filter (\<lambda>t. t = row_label r) y_true)"
proof -
  have l: "map row_label (report_rows rep) = sort_cells (remdups (y_true @ y_pred))"
    unfolding report_rows_labels [OF assms] by (simp add: o_def report_row_def Let_def)
  show "distinct (map row_label (report_rows rep))"
    unfolding l by (rule distinct_sort_cells) simp
  show "set (map row_label (report_rows rep)) = set y_true \<union> set y_pred"
    unfolding l by (simp add: set_sort_cells)
  show "\<forall>r \<in> set (report_rows rep).
           row_support r = length (filter (\<lambda>t. t = row_label r) y_true)"
    unfolding report_rows_labels [OF assms] by (auto simp: report_row_def Let_def)
qed

text \<open>
  Claim C6, as amended. In every run of the trainer that reaches the metrics, the printed
  accuracy is a number in \<open>[0, 1]\<close>, and the printed classification report has exactly
  one entry for each distinct label that occurs in the test partition or among the
  predictions for it; the support of an entry counts the label in the test partition, so
  the entry of a label that was only predicted has support 0.
\<close>

theorem model_training_report:
  assumes S: "sklearn_contract S"
    and read: "read_csv P w ''dummy_agricultural_data.csv'' = Inr dummy_data0"
    and dummies: "get_dummies P dummy_data0 [''Climate Zone''] = Inr dummy_data"
    and select: "getitem_list dummy_data
       [''Temperature (Celsius)'', ''Precipitation (mm)'', ''Soil pH'',
        ''Input Expenses (Currency)'', ''Output Prices (Currency)'',
        ''Climate Zone_Arctic'', ''Climate Zone_Temperate'', ''Climate Zone_Tropical''] = Inr X"
    and target: "getitem dummy_data ''Recommended Product'' = Inr y"
    and split: "train_test_split S X y 0.2 42 = Inr (X_train, X_test, y_train, y_test)"
    and fit: "sk_fit S 100 42 X_train y_train = Inr clf"
    and predict: "sk_predict S clf X_test = Inr y_pred"
    and acc: "accuracy_score y_test y_pred = Inr accuracy"
    and rep: "classification_report y_test y_pred = Inr rep"
  shows "stdout (snd (model_training P S w)) =
           stdout w @ [[OutText ''Accuracy:'', OutCell accuracy],
                       [OutText (CHR 0x0A # ''Classification Report:'')],
                       [OutReport rep]] \<and>
         (\<exists>a. accuracy = Num a \<and> 0 \<le> a \<and> a \<le> 1) \<and>
         distinct (map row_label (report_rows rep)) \<and>
         set (map row_label (report_rows rep)) = set y_test \<union> set y_pred \<and>
         (\<forall>r \<in> set (report_rows rep).
            row_support r = length (filter (\<lambda>t. t = row_label r) y_test))"
proof -
  have out: "stdout (snd (model_training P S w)) =
           stdout w @ [[OutText ''Accuracy:'', OutCell accuracy],
                       [OutText (CHR 0x0A # ''Classification Report:'')],
                       [OutReport rep]]"
    unfolding model_training_def read or_exit_Inr dummies Let_def select target split prod.case
      fit predict acc rep
    by (simp add: or_exit_def joblib_dump_def write_file_def py_print_def)
  have range: "\<exists>a. accuracy = Num a \<and> 0 \<le> a \<and> a \<le> 1"
    by (rule accuracy_range [OF acc test_partition_nonempty [OF S split]])
  show ?thesis
    by (intro conjI out range report_labels [OF rep])
qed

theorem model_training_report_witness:
  "sklearn_contract first_label_sklearn \<and>
   train_test_split first_label_sklearn
     [(''Temperature (Celsius)'', [Num 20, Num 25, Num 30, Num 18, Num 33]),
        (''Precipitation (mm)'', [Num 10, Num 50, Num 90, Num 30, Num 70]),
        (''Soil pH'', [Num 5, Num 6, Num 7, Num 4.5, Num 8]),
        (''Input Expenses (Currency)'', [Num 1500, Num 2500, Num 3500, Num 4500, Num 2000]),
        (''Output Prices (Currency)'', [Num 6000, Num 7000, Num 8000, Num 9000, Num 5500]),
        (''Climate Zone_Arctic'', [Flag False, Flag False, Flag True, Flag False, Flag False]),
        (''Climate Zone_Temperate'', [Flag False, Flag True, Flag False, Flag False, Flag True]),
        (''Climate Zone_Tropical'', [Flag True, Flag False, Flag False, Flag True, Flag False])]
     [Str ''Wheat'', Str ''Corn'', Str ''Wheat'', Str ''Corn'', Str ''Rice''] 0.2 42 =
   Inr ([(''Temperature (Celsius)'', [Num 18, Num 30, Num 25, Num 20]),
        (''Precipitation (mm)'', [Num 30, Num 90, Num 50, Num 10]),
        (''Soil pH'', [Num 4.5, Num 7, Num 6, Num 5]),
        (''Input Expenses (Currency)'', [Num 4500, Num 3500, Num 2500, Num 1500]),
        (''Output Prices (Currency)'', [Num 9000, Num 8000, Num 7000, Num 6000]),
        (''Climate Zone_Arctic'', [Flag False, Flag True, Flag False, Flag False]),
        (''Climate Zone_Temperate'', [Flag False, Flag False, Flag True, Flag False]),
        (''Climate Zone_Tropical'', [Flag True, Flag False, Flag False, Flag True])],
        [(''Temperature (Celsius)'', [Num 33]),
        (''Precipitation (mm)'', [Num 70]),
        (''Soil pH'', [Num 8]),
        (''Input Expenses (Currency)'', [Num 2000]),
        (''Output Prices (Currency)'', [Num 5500]),
        (''Climate Zone_Arctic'', [Flag False]),
        (''Climate Zone_Temperate'', [Flag True]),
        (''Climate Zone_Tropical'', [Flag False])],
        [Str ''Corn'', Str ''Wheat'', Str ''Corn'', Str ''Wheat''], [Str ''Rice'']) \<and>
   stdout (snd (model_training sample_pandas first_label_sklearn (sample_world ''five rows''))) =
     stdout (sample_world ''five rows'') @
       [[OutText ''Accuracy:'', OutCell (Num 0)],
        [OutText (CHR 0x0A # ''Classification Report:'')],
        [OutReport \<lparr>report_rows =
          [\<lparr>row_label = Str ''Corn'', row_precision = 0, row_recall = 0, row_f1 = 0,
              row_support = 0\<rparr>,
           \<lparr>row_label = Str ''Rice'', row_precision = 0, row_recall = 0, row_f1 = 0,
              row_support = 1\<rparr>],
        report_accuracy = Num 0,
        report_macro_avg = (Num 0, Num 0, Num 0),
        report_weighted_avg = (Num 0, Num 0, Num 0),
        report_support = 1\<rparr>]] \<and>
   (\<exists>a. Num 0 = Num a \<and> 0 \<le> a \<and> a \<le> 1) \<and>
   distinct (map row_label (report_rows \<lparr>report_rows =
          [\<lparr>row_label = Str ''Corn'', row_precision = 0, row_recall = 0, row_f1 = 0,
              row_support = 0\<rparr>,
           \<lparr>row_label = Str ''Rice'', row_precision = 0, row_recall = 0, row_f1 = 0,
              row_support = 1\<rparr>],
        report_accuracy = Num 0,
        report_macro_avg = (Num 0, Num 0, Num 0),
        report_weighted_avg = (Num 0, Num 0, Num 0),
        report_support = 1\<rparr>)) \<and>
   set (map row_label (report_rows \<lparr>report_rows =
          [\<lparr>row_label = Str ''Corn'', row_precision = 0, row_recall = 0, row_f1 = 0,
              row_support = 0\<rparr>,
           \<lparr>row_label = Str ''Rice'', row_precision = 0, row_recall = 0, row_f1 = 0,
              row_support = 1\<rparr>],
        report_accuracy = Num 0,
        report_macro_avg = (Num 0, Num 0, Num 0),
        report_weighted_avg = (Num 0, Num 0, Num 0),
        report_support = 1\<rparr>)) = set [Str ''Rice''] \<union> set [Str ''Corn'']"
proof -
  note t = model_training_report [OF first_label_sklearn_contract read_five dummies_five
      select_five target_five split_five fit_five predict_five accuracy_five report_five]
  show ?thesis
    by (intro conjI first_label_sklearn_contract split_five
        conjunct1 [OF t] conjunct1 [OF conjunct2 [OF t]]
        conjunct1 [OF conjunct2 [OF conjunct2 [OF t]]]
        conjunct1 [OF conjunct2 [OF conjunct2 [OF conjunct2 [OF t]]]])
qed

text \<open>
  Claim C6 as stated, no entry for a label absent from the test partition, fails on the
  table of five rows: the test partition holds the one row labelled Rice, no training row
  is labelled Rice, the prediction is Corn, and the report has an entry for Corn.
\<close>

theorem model_training_report_absent_label:
  "train_test_split first_label_sklearn
     [(''Temperature (Celsius)'', [Num 20, Num 25, Num 30, Num 18, Num 33]),
        (''Precipitation (mm)'', [Num 10, Num 50, Num 90, Num 30, Num 70]),
        (''Soil pH'', [Num 5, Num 6, Num 7, Num 4.5, Num 8]),
        (''Input Expenses (Currency)'', [Num 1500, Num 2500, Num 3500, Num 4500, Num 2000]),
        (''Output Prices (Currency)'', [Num 6000, Num 7000, Num 8000, Num 9000, Num 5500]),
        (''Climate Zone_Arctic'', [Flag False, Flag False, Flag True, Flag False, Flag False]),
        (''Climate Zone_Temperate'', [Flag False, Flag True, Flag False, Flag False, Flag True]),
        (''Climate Zone_Tropical'', [Flag True, Flag False, Flag False, Flag True, Flag False])]
     [Str ''Wheat'', Str ''Corn'', Str ''Wheat'', Str ''Corn'', Str ''Rice''] 0.2 42 =
   Inr ([(''Temperature (Celsius)'', [Num 18, Num 30, Num 25, Num 20]),
        (''Precipitation (mm)'', [Num 30, Num 90, Num 50, Num 10]),
        (''Soil pH'', [Num 4.5, Num 7, Num 6, Num 5]),
        (''Input Expenses (Currency)'', [Num 4500, Num 3500, Num 2500, Num 1500]),
        (''Output Prices (Currency)'', [Num 9000, Num 8000, Num 7000, Num 6000]),
        (''Climate Zone_Arctic'', [Flag False, Flag True, Flag False, Flag False]),
        (''Climate Zone_Temperate'', [Flag False, Flag False, Flag True, Flag False]),
        (''Climate Zone_Tropical'', [Flag True, Flag False, Flag False, Flag True])],
        [(''Temperature (Celsius)'', [Num 33]),
        (''Precipitation (mm)'', [Num 70]),
        (''Soil pH'', [Num 8]),
        (''Input Expenses (Currency)'', [Num 2000]),
        (''Output Prices (Currency)'', [Num 5500]),
        (''Climate Zone_Arctic'', [Flag False]),
        (''Climate Zone_Temperate'', [Flag True]),
        (''Climate Zone_Tropical'', [Flag False])],
        [Str ''Corn'', Str ''Wheat'', Str ''Corn'', Str ''Wheat''], [Str ''Rice'']) \<and>
   stdout (snd (model_training sample_pandas first_label_sklearn (sample_world ''five rows''))) =
     [[OutText ''Accuracy:'', OutCell (Num 0)],
      [OutText (CHR 0x0A # ''Classification Report:'')],
      [OutReport \<lparr>report_rows =
          [\<lparr>row_label = Str ''Corn'', row_precision = 0, row_recall = 0, row_f1 = 0,
              row_support = 0\<rparr>,
           \<lparr>row_label = Str ''Rice'', row_precision = 0, row_recall = 0, row_f1 = 0,
              row_support = 1\<rparr>],
        report_accuracy = Num 0,
        report_macro_avg = (Num 0, Num 0, Num 0),
        report_weighted_avg = (Num 0, Num 0, Num 0),
        report_support = 1\<rparr>]]"
  by (intro conjI split_five) (simp add: run_five)

subsection \<open>A missing climate value\<close>

text \<open>
  Claim C9, as amended. The trainer names the three indicator columns itself. For every
  input file that has a Climate Zone column in which one of Tropical, Temperate, Arctic
  does not occur, and no column that is itself named after that value's indicator,
  selecting the feature columns raises KeyError and the trainer ends with it, in the world
  it started in.
\<close>

theorem missing_zone_KeyError:
  assumes read: "read_csv P w ''dummy_agricultural_data.csv'' = Inr df"
    and has: "''Climate Zone'' \<in> set (map fst df)"
    and zone: "v \<in> {''Tropical'', ''Temperate'', ''Arctic''}"
    and missing: "\<forall>(name, col) \<in> set df. name = ''Climate Zone'' \<longrightarrow> v \<notin> cell_text P ` set col"
    and fresh: "''Climate Zone_'' @ v \<notin> set (map fst df)"
  shows "\<exists>d. get_dummies P df [''Climate Zone''] = Inr d \<and>
             getitem_list d
               [''Temperature (Celsius)'', ''Precipitation (mm)'', ''Soil pH'',
                ''Input Expenses (Currency)'', ''Output Prices (Currency)'',
                ''Climate Zone_Arctic'', ''Climate Zone_Temperate'', ''Climate Zone_Tropical''] =
               Inl KeyError \<and>
             model_training P S w = (Some KeyError, w)"
proof -
  from get_dummies_Inr [OF has] obtain d where
    gd: "get_dummies P df [''Climate Zone''] = Inr d" by blast
  have absent: "''Climate Zone_'' @ v \<notin> set (map fst d)"
  proof
    assume "''Climate Zone_'' @ v \<in> set (map fst d)"
    from get_dummies_names [OF gd this] fresh obtain col level where
      c: "(''Climate Zone'', col) \<in> set df" and l: "level \<in> set col" and
      e: "''Climate Zone_'' @ v = ''Climate Zone'' @ ''_'' @ cell_text P level"
      by blast
    have "''Climate Zone_'' @ v = ''Climate Zone'' @ ''_'' @ v" by simp
    then have "v = cell_text P level" using e by (simp only: same_append_eq)
    then have "v \<in> cell_text P ` set col" using l by blast
    then show False using missing c by blast
  qed
  have feature: "''Climate Zone_'' @ v \<in> set
     [''Temperature (Celsius)'', ''Precipitation (mm)'', ''Soil pH'',
      ''Input Expenses (Currency)'', ''Output Prices (Currency)'',
      ''Climate Zone_Arctic'', ''Climate Zone_Temperate'', ''Climate Zone_Tropical'']"
    using zone by auto
  have sel: "getitem_list d
     [''Temperature (Celsius)'', ''Precipitation (mm)'', ''Soil pH'',
      ''Input Expenses (Currency)'', ''Output Prices (Currency)'',
      ''Climate Zone_Arctic'', ''Climate Zone_Temperate'', ''Climate Zone_Tropical''] =
     Inl KeyError"
    by (rule getitem_list_KeyError [OF feature absent])
  have "model_training P S w = (Some KeyError, w)"
    unfolding model_training_def read gd or_exit_Inr Let_def sel or_exit_Inl ..
  then show ?thesis using gd sel by blast
qed

lemma read_two:
  "read_csv sample_pandas (sample_world ''two zones'') ''dummy_agricultural_data.csv'' =
     Inr two_zone_frame"
  by (simp add: read_csv_def sample_world_def sample_pandas_def)

lemma read_arctic:
  "read_csv sample_pandas (sample_world ''arctic column'') ''dummy_agricultural_data.csv'' =
     Inr (two_zone_frame @ [(''Climate Zone_Arctic'', [Num 0, Num 0, Num 0, Num 0, Num 0])])"
  by (simp add: read_csv_def sample_world_def sample_pandas_def)

lemma levels_two:
  "levels [Str ''Tropical'', Str ''Temperate'', Str ''Tropical'', Str ''Tropical'', Str ''Temperate''] =
     [Str ''Temperate'', Str ''Tropical'']"
  by (simp add: levels_zones)

lemma dummies_arctic:
  "get_dummies sample_pandas
     (two_zone_frame @ [(''Climate Zone_Arctic'', [Num 0, Num 0, Num 0, Num 0, Num 0])])
     [''Climate Zone''] =
   Inr [(''Temperature (Celsius)'', [Num 20, Num 25, Num 30, Num 18, Num 33]),
        (''Precipitation (mm)'', [Num 10, Num 50, Num 90, Num 30, Num 70]),
        (''Soil pH'', [Num 5, Num 6, Num 7, Num 4.5, Num 8]),
        (''Input Expenses (Currency)'', [Num 1500, Num 2500, Num 3500, Num 4500, Num 2000]),
        (''Output Prices (Currency)'', [Num 6000, Num 7000, Num 8000, Num 9000, Num 5500]),
        (''Recommended Product'', [Str ''Wheat'', Str ''Corn'', Str ''Wheat'', Str ''Corn'', Str ''Rice'']),
        (''Climate Zone_Arctic'', [Num 0, Num 0, Num 0, Num 0, Num 0]),
        (''Climate Zone_Temperate'', [Flag False, Flag True, Flag False, Flag False, Flag True]),
        (''Climate Zone_Tropical'', [Flag True, Flag False, Flag True, Flag True, Flag False])]"
  by (simp add: get_dummies_def getitem_list_def dummies_1d_def levels_two two_zone_frame_def)

lemma select_arctic:
  "getitem_list
     [(''Temperature (Celsius)'', [Num 20, Num 25, Num 30, Num 18, Num 33]),
        (''Precipitation (mm)'', [Num 10, Num 50, Num 90, Num 30, Num 70]),
        (''Soil pH'', [Num 5, Num 6, Num 7, Num 4.5, Num 8]),
        (''Input Expenses (Currency)'', [Num 1500, Num 2500, Num 3500, Num 4500, Num 2000]),
        (''Output Prices (Currency)'', [Num 6000, Num 7000, Num 8000, Num 9000, Num 5500]),
        (''Recommended Product'', [Str ''Wheat'', Str ''Corn'', Str ''Wheat'', Str ''Corn'', Str ''Rice'']),
        (''Climate Zone_Arctic'', [Num 0, Num 0, Num 0, Num 0, Num 0]),
        (''Climate Zone_Temperate'', [Flag False, Flag True, Flag False, Flag False, Flag True]),
        (''Climate Zone_Tropical'', [Flag True, Flag False, Flag True, Flag True, Flag False])]
     [''Temperature (Celsius)'', ''Precipitation (mm)'', ''Soil pH'',
      ''Input Expenses (Currency)'', ''Output Prices (Currency)'',
      ''Climate Zone_Arctic'', ''Climate Zone_Temperate'', ''Climate Zone_Tropical''] =
   Inr [(''Temperature (Celsius)'', [Num 20, Num 25, Num 30, Num 18, Num 33]),
        (''Precipitation (mm)'', [Num 10, Num 50, Num 90, Num 30, Num 70]),
        (''Soil pH'', [Num 5, Num 6, Num 7, Num 4.5, Num 8]),
        (''Input Expenses (Currency)'', [Num 1500, Num 2500, Num 3500, Num 4500, Num 2000]),
        (''Output Prices (Currency)'', [Num 6000, Num 7000, Num 8000, Num 9000, Num 5500]),
        (''Climate Zone_Arctic'', [Num 0, Num 0, Num 0, Num 0, Num 0]),
        (''Climate Zone_Temperate'', [Flag False, Flag True, Flag False, Flag False, Flag True]),
        (''Climate Zone_Tropical'', [Flag True, Flag False, Flag True, Flag True, Flag False])]"
  by (simp add: getitem_list_def)

lemma target_arctic:
  "getitem
     [(''Temperature (Celsius)'', [Num 20, Num 25, Num 30, Num 18, Num 33]),
        (''Precipitation (mm)'', [Num 10, Num 50, Num 90, Num 30, Num 70]),
        (''Soil pH'', [Num 5, Num 6, Num 7, Num 4.5, Num 8]),
        (''Input Expenses (Currency)'', [Num 1500, Num 2500, Num 3500, Num 4500, Num 2000]),
        (''Output Prices (Currency)'', [Num 6000, Num 7000, Num 8000, Num 9000, Num 5500]),
        (''Recommended Product'', [Str ''Wheat'', Str ''Corn'', Str ''Wheat'', Str ''Corn'', Str ''Rice'']),
        (''Climate Zone_Arctic'', [Num 0, Num 0, Num 0, Num 0, Num 0]),
        (''Climate Zone_Temperate'', [Flag False, Flag True, Flag False, Flag False, Flag True]),
        (''Climate Zone_Tropical'', [Flag True, Flag False, Flag True, Flag True, Flag False])]
     ''Recommended Product'' =
   Inr [Str ''Wheat'', Str ''Corn'', Str ''Wheat'', Str ''Corn'', Str ''Rice'']"
  by (simp add: getitem_def)

lemma split_arctic:
  "train_test_split first_label_sklearn
     [(''Temperature (Celsius)'', [Num 20, Num 25, Num 30, Num 18, Num 33]),
        (''Precipitation (mm)'', [Num 10, Num 50, Num 90, Num 30, Num 70]),
        (''Soil pH'', [Num 5, Num 6, Num 7, Num 4.5, Num 8]),
        (''Input Expenses (Currency)'', [Num 1500, Num 2500, Num 3500, Num 4500, Num 2000]),
        (''Output Prices (Currency)'', [Num 6000, Num 7000, Num 8000, Num 9000, Num 5500]),
        (''Climate Zone_Arctic'', [Num 0, Num 0, Num 0, Num 0, Num 0]),
        (''Climate Zone_Temperate'', [Flag False, Flag True, Flag False, Flag False, Flag True]),
        (''Climate Zone_Tropical'', [Flag True, Flag False, Flag True, Flag True, Flag False])]
     [Str ''Wheat'', Str ''Corn'', Str ''Wheat'', Str ''Corn'', Str ''Rice''] 0.2 42 =
   Inr ([(''Temperature (Celsius)'', [Num 18, Num 30, Num 25, Num 20]),
        (''Precipitation (mm)'', [Num 30, Num 90, Num 50, Num 10]),
        (''Soil pH'', [Num 4.5, Num 7, Num 6, Num 5]),
        (''Input Expenses (Currency)'', [Num 4500, Num 3500, Num 2500, Num 1500]),
        (''Output Prices (Currency)'', [Num 9000, Num 8000, Num 7000, Num 6000]),
        (''Climate Zone_Arctic'', [Num 0, Num 0, Num 0, Num 0]),
        (''Climate Zone_Temperate'', [Flag False, Flag False, Flag True, Flag False]),
        (''Climate Zone_Tropical'', [Flag True, Flag True, Flag False, Flag True])],
        [(''Temperature (Celsius)'', [Num 33]),
        (''Precipitation (mm)'', [Num 70]),
        (''Soil pH'', [Num 8]),
        (''Input Expenses (Currency)'', [Num 2000]),
        (''Output Prices (Currency)'', [Num 5500]),
        (''Climate Zone_Arctic'', [Num 0]),
        (''Climate Zone_Temperate'', [Flag True]),
        (''Climate Zone_Tropical'', [Flag False])],
        [Str ''Corn'', Str ''Wheat'', Str ''Corn'', Str ''Wheat''], [Str ''Rice''])"
  by (simp add: train_test_split_def first_label_sklearn_def upt5 take_rows_def take_cells_def)

lemma fit_arctic:
  "sk_fit first_label_sklearn 100 42
     [(''Temperature (Celsius)'', [Num 18, Num 30, Num 25, Num 20]),
        (''Precipitation (mm)'', [Num 30, Num 90, Num 50, Num 10]),
        (''Soil pH'', [Num 4.5, Num 7, Num 6, Num 5]),
        (''Input Expenses (Currency)'', [Num 4500, Num 3500, Num 2500, Num 1500]),
        (''Output Prices (Currency)'', [Num 9000, Num 8000, Num 7000, Num 6000]),
        (''Climate Zone_Arctic'', [Num 0, Num 0, Num 0, Num 0]),
        (''Climate Zone_Temperate'', [Flag False, Flag False, Flag True, Flag False]),
        (''Climate Zone_Tropical'', [Flag True, Flag True, Flag False, Flag True])]
     [Str ''Corn'', Str ''Wheat'', Str ''Corn'', Str ''Wheat''] = Inr (Str ''Corn'')"
  by (simp add: first_label_sklearn_def)

lemma predict_arctic:
  "sk_predict first_label_sklearn (Str ''Corn'')
     [(''Temperature (Celsius)'', [Num 33]),
        (''Precipitation (mm)'', [Num 70]),
        (''Soil pH'', [Num 8]),
        (''Input Expenses (Currency)'', [Num 2000]),
        (''Output Prices (Currency)'', [Num 5500]),
        (''Climate Zone_Arctic'', [Num 0]),
        (''Climate Zone_Temperate'', [Flag True]),
        (''Climate Zone_Tropical'', [Flag False])] = Inr [Str ''Corn'']"
  by (simp add: first_label_sklearn_def)

theorem missing_zone_KeyError_witness:
  "read_csv sample_pandas (sample_world ''two zones'') ''dummy_agricultural_data.csv'' =
     Inr two_zone_frame \<and>
   ''Climate Zone'' \<in> set (map fst two_zone_frame) \<and>
   ''Arctic'' \<in> {''Tropical'', ''Temperate'', ''Arctic''} \<and>
   ''Climate Zone_'' @ ''Arctic'' \<notin> set (map fst two_zone_frame) \<and>
   (\<exists>d. get_dummies sample_pandas two_zone_frame [''Climate Zone''] = Inr d \<and>
      getitem_list d
        [''Temperature (Celsius)'', ''Precipitation (mm)'', ''Soil pH'',
      ''Input Expenses (Currency)'', ''Output Prices (Currency)'',
      ''Climate Zone_Arctic'', ''Climate Zone_Temperate'', ''Climate Zone_Tropical''] =
        Inl KeyError \<and>
      model_training sample_pandas first_label_sklearn (sample_world ''two zones'') =
        (Some KeyError, sample_world ''two zones''))"
proof -
  have has: "''Climate Zone'' \<in> set (map fst two_zone_frame)"
    by (simp add: two_zone_frame_def)
  have zone: "''Arctic'' \<in> {''Tropical'', ''Temperate'', ''Arctic''}"
    by simp
  have missing: "\<forall>(name, col) \<in> set two_zone_frame.
      name = ''Climate Zone'' \<longrightarrow> ''Arctic'' \<notin> cell_text sample_pandas ` set col"
    by (simp add: two_zone_frame_def)
  have fresh: "''Climate Zone_'' @ ''Arctic'' \<notin> set (map fst two_zone_frame)"
    by (simp add: two_zone_frame_def)
  show ?thesis
    by (intro conjI read_two has zone fresh
        missing_zone_KeyError [OF read_two has zone missing fresh])
qed

text \<open>
  Claim C9 as stated, for every input file whose Climate Zone column lacks a value, fails
  for a file that has a column of its own named \<open>Climate Zone_Arctic\<close>: no Arctic row
  occurs, the selection finds that column, and the trainer runs to its end.
\<close>

theorem pre_existing_indicator_column:
  "read_csv sample_pandas (sample_world ''arctic column'') ''dummy_agricultural_data.csv'' =
     Inr (two_zone_frame @ [(''Climate Zone_Arctic'', [Num 0, Num 0, Num 0, Num 0, Num 0])]) \<and>
   map_of (two_zone_frame @ [(''Climate Zone_Arctic'', [Num 0, Num 0, Num 0, Num 0, Num 0])])
     ''Climate Zone'' =
     Some [Str ''Tropical'', Str ''Temperate'', Str ''Tropical'', Str ''Tropical'', Str ''Temperate''] \<and>
   getitem_list
     [(''Temperature (Celsius)'', [Num 20, Num 25, Num 30, Num 18, Num 33]),
        (''Precipitation (mm)'', [Num 10, Num 50, Num 90, Num 30, Num 70]),
        (''Soil pH'', [Num 5, Num 6, Num 7, Num 4.5, Num 8]),
        (''Input Expenses (Currency)'', [Num 1500, Num 2500, Num 3500, Num 4500, Num 2000]),
        (''Output Prices (Currency)'', [Num 6000, Num 7000, Num 8000, Num 9000, Num 5500]),
        (''Recommended Product'', [Str ''Wheat'', Str ''Corn'', Str ''Wheat'', Str ''Corn'', Str ''Rice'']),
        (''Climate Zone_Arctic'', [Num 0, Num 0, Num 0, Num 0, Num 0]),
        (''Climate Zone_Temperate'', [Flag False, Flag True, Flag False, Flag False, Flag True]),
        (''Climate Zone_Tropical'', [Flag True, Flag False, Flag True, Flag True, Flag False])]
     [''Temperature (Celsius)'', ''Precipitation (mm)'', ''Soil pH'',
      ''Input Expenses (Currency)'', ''Output Prices (Currency)'',
      ''Climate Zone_Arctic'', ''Climate Zone_Temperate'', ''Climate Zone_Tropical''] =
   Inr [(''Temperature (Celsius)'', [Num 20, Num 25, Num 30, Num 18, Num 33]),
        (''Precipitation (mm)'', [Num 10, Num 50, Num 90, Num 30, Num 70]),
        (''Soil pH'', [Num 5, Num 6, Num 7, Num 4.5, Num 8]),
        (''Input Expenses (Currency)'', [Num 1500, Num 2500, Num 3500, Num 4500, Num 2000]),
        (''Output Prices (Currency)'', [Num 6000, Num 7000, Num 8000, Num 9000, Num 5500]),
        (''Climate Zone_Arctic'', [Num 0, Num 0, Num 0, Num 0, Num 0]),
        (''Climate Zone_Temperate'', [Flag False, Flag True, Flag False, Flag False, Flag True]),
        (''Climate Zone_Tropical'', [Flag True, Flag False, Flag True, Flag True, Flag False])] \<and>
   fst (model_training sample_pandas first_label_sklearn (sample_world ''arctic column'')) = None"
proof -
  have run: "fst (model_training sample_pandas first_label_sklearn (sample_world ''arctic column'')) = None"
    unfolding model_training_def read_arctic or_exit_Inr dummies_arctic Let_def select_arctic
      target_arctic split_arctic prod.case fit_arctic predict_arctic accuracy_five report_five
      dump_five
    by (simp add: py_print_def sample_world_def)
  have col: "map_of (two_zone_frame @ [(''Climate Zone_Arctic'', [Num 0, Num 0, Num 0, Num 0, Num 0])])
     ''Climate Zone'' =
     Some [Str ''Tropical'', Str ''Temperate'', Str ''Tropical'', Str ''Tropical'', Str ''Temperate'']"
    by (simp add: two_zone_frame_def)
  show ?thesis by (intro conjI read_arctic col select_arctic run)
qed

subsection \<open>Failures\<close>

lemma model_training_files:
  assumes "model_training P S w = (Some e, w')"
  shows "files w' = files w"
  using assms unfolding model_training_def or_exit_def Let_def
  by (auto simp: py_print_def joblib_dump_def write_file_def
      split: sum.splits prod.splits if_splits)

lemma data_py_files:
  assumes "data_py N P g w = (Some e, w')"
  shows "files w' = files w"
  using assms unfolding data_py_def or_exit_def Let_def
  by (auto simp: py_print_def to_csv_def write_file_def
      split: sum.splits prod.splits if_splits)

lemma train_test_split_no_rows:
  assumes "nrows X = 0"
  shows "train_test_split S X y test_size random_state = Inl ValueError"
  using assms by (simp add: train_test_split_def Let_def)

lemma levels_Nil: "levels [] = []"
  by (simp add: levels_def sort_cells_def)

lemma get_dummies_no_rows:
  assumes "get_dummies P df names = Inr d" and "list_all (\<lambda>(name, col). col = []) df"
  shows "list_all (\<lambda>(name, col). col = []) d"
proof -
  have d: "d = filter (\<lambda>(name, col). name \<notin> set names) df @
         concat (map (dummies_1d P)
           (concat (map (\<lambda>n. filter (\<lambda>(name, col). name = n) df) names)))"
    using assms(1) by (simp add: get_dummies_def getitem_list_def split: if_splits)
  have "\<And>nc. nc \<in> set df \<Longrightarrow> dummies_1d P nc = []"
    using assms(2) by (auto simp: list_all_iff dummies_1d_def levels_Nil)
  then have "concat (map (dummies_1d P)
           (concat (map (\<lambda>n. filter (\<lambda>(name, col). name = n) df) names))) = []"
    by auto
  then show ?thesis using assms(2) unfolding d by (auto simp: list_all_iff)
qed

lemma getitem_list_no_rows:
  assumes "getitem_list d names = Inr X" and "list_all (\<lambda>(name, col). col = []) d"
  shows "nrows X = 0"
proof -
  have X: "X = concat (map (\<lambda>n. filter (\<lambda>(name, col). name = n) d) names)"
    using assms(1) by (simp add: getitem_list_def split: if_splits)
  have "list_all (\<lambda>(name, col). col = []) X"
    using assms(2) unfolding X by (auto simp: list_all_iff)
  then show ?thesis by (cases X) auto
qed

lemma model_training_no_rows:
  assumes read: "read_csv P w ''dummy_agricultural_data.csv'' = Inr df"
    and empty: "list_all (\<lambda>(name, col). col = []) df"
  shows "\<exists>e. model_training P S w = (Some e, w)"
proof (cases "get_dummies P df [''Climate Zone'']")
  case (Inl e)
  then show ?thesis unfolding model_training_def read or_exit_Inr by simp
next
  case d: (Inr d)
  note no_rows = get_dummies_no_rows [OF d empty]
  show ?thesis
  proof (cases "getitem_list d
       [''Temperature (Celsius)'', ''Precipitation (mm)'', ''Soil pH'',
        ''Input Expenses (Currency)'', ''Output Prices (Currency)'',
        ''Climate Zone_Arctic'', ''Climate Zone_Temperate'', ''Climate Zone_Tropical'']")
    case (Inl e)
    then show ?thesis unfolding model_training_def read or_exit_Inr d Let_def by simp
  next
    case X: (Inr X)
    have n: "nrows X = 0" by (rule getitem_list_no_rows [OF X no_rows])
    show ?thesis
    proof (cases "getitem d ''Recommended Product''")
      case (Inl e)
      then show ?thesis unfolding model_training_def read or_exit_Inr d Let_def X by simp
    next
      case y: (Inr y)
      show ?thesis
        unfolding model_training_def read or_exit_Inr d Let_def X y
          train_test_split_no_rows [OF n]
        by simp
    qed
  qed
qed

lemma read_five_read_only:
  "read_csv sample_pandas (read_only_world ''five rows'') ''dummy_agricultural_data.csv'' =
     Inr sample_frame"
  by (simp add: read_csv_def read_only_world_def sample_world_def sample_pandas_def)

subsection \<open>Partition sizes, and datasets of one row\<close>

lemma train_test_split_le_one:
  assumes "nrows X \<le> 1"
  shows "train_test_split S X y 0.2 42 = Inl ValueError"
proof (cases "nrows X = 0")
  case True
  then show ?thesis by (rule train_test_split_no_rows)
next
  case False
  then have "nrows X = 1" using assms by simp
  then show ?thesis by (simp add: train_test_split_def ceiling_fifth)
qed

lemma get_dummies_short:
  assumes "get_dummies P df names = Inr d" and "list_all (\<lambda>(name, col). length col \<le> 1) df"
  shows "list_all (\<lambda>(name, col). length col \<le> 1) d"
proof -
  have d: "d = filter (\<lambda>(name, col). name \<notin> set names) df @
         concat (map (dummies_1d P)
           (concat (map (\<lambda>n. filter (\<lambda>(name, col). name = n) df) names)))"
    using assms(1) by (simp add: get_dummies_def getitem_list_def split: if_splits)
  have "\<And>nc. nc \<in> set df \<Longrightarrow> list_all (\<lambda>(name, col). length col \<le> 1) (dummies_1d P nc)"
    using assms(2) by (auto simp: list_all_iff dummies_1d_def)
  then have "list_all (\<lambda>(name, col). length col \<le> 1) (concat (map (dummies_1d P)
           (concat (map (\<lambda>n. filter (\<lambda>(name, col). name = n) df) names))))"
    unfolding list_all_iff by fastforce
  moreover have "list_all (\<lambda>(name, col). length col \<le> 1)
      (filter (\<lambda>(name, col). name \<notin> set names) df)"
    using assms(2) unfolding list_all_iff by simp
  ultimately show ?thesis unfolding d by (simp only: list_all_append)
qed

lemma getitem_list_short:
  assumes "getitem_list d names = Inr X" and "list_all (\<lambda>(name, col). length col \<le> 1) d"
  shows "nrows X \<le> 1"
proof -
  have X: "X = concat (map (\<lambda>n. filter (\<lambda>(name, col). name = n) d) names)"
    using assms(1) by (simp add: getitem_list_def split: if_splits)
  have "list_all (\<lambda>(name, col). length col \<le> 1) X"
    using assms(2) unfolding X by (auto simp: list_all_iff)
  then show ?thesis by (cases X) auto
qed

lemma model_training_short:
  assumes read: "read_csv P w ''dummy_agricultural_data.csv'' = Inr df"
    and short: "list_all (\<lambda>(name, col). length col \<le> 1) df"
  shows "\<exists>e. model_training P S w = (Some e, w)"
proof (cases "get_dummies P df [''Climate Zone'']")
  case (Inl e)
  then show ?thesis unfolding model_training_def read or_exit_Inr by simp
next
  case d: (Inr d)
  note s = get_dummies_short [OF d short]
  show ?thesis
  proof (cases "getitem_list d
       [''Temperature (Celsius)'', ''Precipitation (mm)'', ''Soil pH'',
        ''Input Expenses (Currency)'', ''Output Prices (Currency)'',
        ''Climate Zone_Arctic'', ''Climate Zone_Temperate'', ''Climate Zone_Tropical'']")
    case (Inl e)
    then show ?thesis unfolding model_training_def read or_exit_Inr d Let_def by simp
  next
    case X: (Inr X)
    have n: "nrows X \<le> 1" by (rule getitem_list_short [OF X s])
    show ?thesis
    proof (cases "getitem d ''Recommended Product''")
      case (Inl e)
      then show ?thesis unfolding model_training_def read or_exit_Inr d Let_def X by simp
    next
      case y: (Inr y)
      show ?thesis
        unfolding model_training_def read or_exit_Inr d Let_def X y
          train_test_split_le_one [OF n]
        by simp
    qed
  qed
qed

lemma read_one:
  "read_csv sample_pandas (sample_world ''one row'') ''dummy_agricultural_data.csv'' =
     Inr one_row_frame"
  by (simp add: read_csv_def sample_world_def sample_pandas_def)

lemma read_one_indicators:
  "read_csv sample_pandas (sample_world ''one row with indicators'')
     ''dummy_agricultural_data.csv'' =
     Inr (one_row_frame @
          [(''Climate Zone_Arctic'', [Num 0]), (''Climate Zone_Temperate'', [Num 0])])"
  by (simp add: read_csv_def sample_world_def sample_pandas_def)

lemma levels_one: "levels [Str ''Tropical''] = [Str ''Tropical'']"
  by (simp add: levels_zones)

lemma dummies_one:
  "get_dummies sample_pandas one_row_frame [''Climate Zone''] =
   Inr [(''Temperature (Celsius)'', [Num 20]),
        (''Precipitation (mm)'', [Num 10]),
        (''Soil pH'', [Num 5]),
        (''Input Expenses (Currency)'', [Num 1500]),
        (''Output Prices (Currency)'', [Num 6000]),
        (''Recommended Product'', [Str ''Wheat'']),
        (''Climate Zone_Tropical'', [Flag True])]"
  by (simp add: get_dummies_def getitem_list_def dummies_1d_def levels_one one_row_frame_def)

lemma select_one:
  "getitem_list
     [(''Temperature (Celsius)'', [Num 20]),
        (''Precipitation (mm)'', [Num 10]),
        (''Soil pH'', [Num 5]),
        (''Input Expenses (Currency)'', [Num 1500]),
        (''Output Prices (Currency)'', [Num 6000]),
        (''Recommended Product'', [Str ''Wheat'']),
        (''Climate Zone_Tropical'', [Flag True])]
     [''Temperature (Celsius)'', ''Precipitation (mm)'', ''Soil pH'',
      ''Input Expenses (Currency)'', ''Output Prices (Currency)'',
      ''Climate Zone_Arctic'', ''Climate Zone_Temperate'', ''Climate Zone_Tropical''] =
   Inl KeyError"
  by (simp add: getitem_list_def)

lemma run_one:
  "model_training sample_pandas first_label_sklearn (sample_world ''one row'') =
     (Some KeyError, sample_world ''one row'')"
  unfolding model_training_def read_one or_exit_Inr dummies_one Let_def select_one or_exit_Inl ..

lemma dummies_one_indicators:
  "get_dummies sample_pandas
     (one_row_frame @
      [(''Climate Zone_Arctic'', [Num 0]), (''Climate Zone_Temperate'', [Num 0])])
     [''Climate Zone''] =
   Inr [(''Temperature (Celsius)'', [Num 20]),
        (''Precipitation (mm)'', [Num 10]),
        (''Soil pH'', [Num 5]),
        (''Input Expenses (Currency)'', [Num 1500]),
        (''Output Prices (Currency)'', [Num 6000]),
        (''Recommended Product'', [Str ''Wheat'']),
        (''Climate Zone_Arctic'', [Num 0]),
        (''Climate Zone_Temperate'', [Num 0]),
        (''Climate Zone_Tropical'', [Flag True])]"
  by (simp add: get_dummies_def getitem_list_def dummies_1d_def levels_one one_row_frame_def)

lemma select_one_indicators:
  "getitem_list
     [(''Temperature (Celsius)'', [Num 20]),
        (''Precipitation (mm)'', [Num 10]),
        (''Soil pH'', [Num 5]),
        (''Input Expenses (Currency)'', [Num 1500]),
        (''Output Prices (Currency)'', [Num 6000]),
        (''Recommended Product'', [Str ''Wheat'']),
        (''Climate Zone_Arctic'', [Num 0]),
        (''Climate Zone_Temperate'', [Num 0]),
        (''Climate Zone_Tropical'', [Flag True])]
     [''Temperature (Celsius)'', ''Precipitation (mm)'', ''Soil pH'',
      ''Input Expenses (Currency)'', ''Output Prices (Currency)'',
      ''Climate Zone_Arctic'', ''Climate Zone_Temperate'', ''Climate Zone_Tropical''] =
   Inr [(''Temperature (Celsius)'', [Num 20]),
        (''Precipitation (mm)'', [Num 10]),
        (''Soil pH'', [Num 5]),
        (''Input Expenses (Currency)'', [Num 1500]),
        (''Output Prices (Currency)'', [Num 6000]),
        (''Climate Zone_Arctic'', [Num 0]),
        (''Climate Zone_Temperate'', [Num 0]),
        (''Climate Zone_Tropical'', [Flag True])]"
  by (simp add: getitem_list_def)

lemma target_one_indicators:
  "getitem
     [(''Temperature (Celsius)'', [Num 20]),
        (''Precipitation (mm)'', [Num 10]),
        (''Soil pH'', [Num 5]),
        (''Input Expenses (Currency)'', [Num 1500]),
        (''Output Prices (Currency)'', [Num 6000]),
        (''Recommended Product'', [Str ''Wheat'']),
        (''Climate Zone_Arctic'', [Num 0]),
        (''Climate Zone_Temperate'', [Num 0]),
        (''Climate Zone_Tropical'', [Flag True])]
     ''Recommended Product'' = Inr [Str ''Wheat'']"
  by (simp add: getitem_def)

lemma split_one_indicators:
  "train_test_split first_label_sklearn
     [(''Temperature (Celsius)'', [Num 20]),
        (''Precipitation (mm)'', [Num 10]),
        (''Soil pH'', [Num 5]),
        (''Input Expenses (Currency)'', [Num 1500]),
        (''Output Prices (Currency)'', [Num 6000]),
        (''Climate Zone_Arctic'', [Num 0]),
        (''Climate Zone_Temperate'', [Num 0]),
        (''Climate Zone_Tropical'', [Flag True])]
     [Str ''Wheat''] 0.2 42 = Inl ValueError"
  by (rule train_test_split_le_one) simp

lemma run_one_indicators:
  "model_training sample_pandas first_label_sklearn (sample_world ''one row with indicators'') =
     (Some ValueError, sample_world ''one row with indicators'')"
  unfolding model_training_def read_one_indicators or_exit_Inr dummies_one_indicators Let_def
    select_one_indicators target_one_indicators split_one_indicators or_exit_Inl ..

text \<open>
  Claim C3, as amended. For every dataset of two rows or more, the split with
  \<open>test_size=0.2\<close> returns a test partition of \<open>ceil(0.2 * n)\<close> rows, which is less than
  one row away from \<open>0.2 * n\<close>, and a train partition of the other rows. A dataset of at
  most one row yields no partition: the split raises ValueError for it, whatever the
  shuffle, and every run of the trainer on a file of at most one row ends with an
  exception in the world it started in.
\<close>

theorem train_test_split_sizes:
  "(sklearn_contract S \<and> wf_frame X \<and> length y = nrows X \<and> 2 \<le> nrows X \<longrightarrow>
      (\<exists>X_train X_test y_train y_test.
         train_test_split S X y 0.2 42 = Inr (X_train, X_test, y_train, y_test) \<and>
         nrows X_test = nat \<lceil>0.2 * real (nrows X)\<rceil> \<and>
         length y_test = nrows X_test \<and>
         nrows X_train = nrows X - nrows X_test \<and>
         length y_train = nrows X_train \<and>
         \<bar>real (nrows X_test) - 0.2 * real (nrows X)\<bar> < 1)) \<and>
   (nrows X \<le> 1 \<longrightarrow> train_test_split S X y 0.2 42 = Inl ValueError) \<and>
   (read_csv P w ''dummy_agricultural_data.csv'' = Inr df \<and>
    list_all (\<lambda>(name, col). length col \<le> 1) df \<longrightarrow>
      (\<exists>e. model_training P S w = (Some e, w)))"
proof (intro conjI impI)
  assume "sklearn_contract S \<and> wf_frame X \<and> length y = nrows X \<and> 2 \<le> nrows X"
  then have S: "sklearn_contract S" and wf: "wf_frame X" and len: "length y = nrows X"
    and n: "2 \<le> nrows X" by simp_all
  show "\<exists>X_train X_test y_train y_test.
         train_test_split S X y 0.2 42 = Inr (X_train, X_test, y_train, y_test) \<and>
         nrows X_test = nat \<lceil>0.2 * real (nrows X)\<rceil> \<and>
         length y_test = nrows X_test \<and>
         nrows X_train = nrows X - nrows X_test \<and>
         length y_train = nrows X_train \<and>
         \<bar>real (nrows X_test) - 0.2 * real (nrows X)\<bar> < 1"
    by (rule train_test_split_two_rows [OF S wf len n])
next
  assume "nrows X \<le> 1"
  then show "train_test_split S X y 0.2 42 = Inl ValueError"
    by (rule train_test_split_le_one)
next
  assume "read_csv P w ''dummy_agricultural_data.csv'' = Inr df \<and>
    list_all (\<lambda>(name, col). length col \<le> 1) df"
  then show "\<exists>e. model_training P S w = (Some e, w)"
    using model_training_short by blast
qed

theorem train_test_split_sizes_witness:
  "sklearn_contract first_label_sklearn \<and>
   wf_frame
     [(''Temperature (Celsius)'', [Num 20, Num 25, Num 30, Num 18, Num 33]),
        (''Precipitation (mm)'', [Num 10, Num 50, Num 90, Num 30, Num 70]),
        (''Soil pH'', [Num 5, Num 6, Num 7, Num 4.5, Num 8]),
        (''Input Expenses (Currency)'', [Num 1500, Num 2500, Num 3500, Num 4500, Num 2000]),
        (''Output Prices (Currency)'', [Num 6000, Num 7000, Num 8000, Num 9000, Num 5500]),
        (''Climate Zone_Arctic'', [Flag False, Flag False, Flag True, Flag False, Flag False]),
        (''Climate Zone_Temperate'', [Flag False, Flag True, Flag False, Flag False, Flag True]),
        (''Climate Zone_Tropical'', [Flag True, Flag False, Flag False, Flag True, Flag False])] \<and>
   length [Str ''Wheat'', Str ''Corn'', Str ''Wheat'', Str ''Corn'', Str ''Rice''] =
     nrows
       [(''Temperature (Celsius)'', [Num 20, Num 25, Num 30, Num 18, Num 33]),
        (''Precipitation (mm)'', [Num 10, Num 50, Num 90, Num 30, Num 70]),
        (''Soil pH'', [Num 5, Num 6, Num 7, Num 4.5, Num 8]),
        (''Input Expenses (Currency)'', [Num 1500, Num 2500, Num 3500, Num 4500, Num 2000]),
        (''Output Prices (Currency)'', [Num 6000, Num 7000, Num 8000, Num 9000, Num 5500]),
        (''Climate Zone_Arctic'', [Flag False, Flag False, Flag True, Flag False, Flag False]),
        (''Climate Zone_Temperate'', [Flag False, Flag True, Flag False, Flag False, Flag True]),
        (''Climate Zone_Tropical'', [Flag True, Flag False, Flag False, Flag True, Flag False])] \<and>
   2 \<le> nrows
       [(''Temperature (Celsius)'', [Num 20, Num 25, Num 30, Num 18, Num 33]),
        (''Precipitation (mm)'', [Num 10, Num 50, Num 90, Num 30, Num 70]),
        (''Soil pH'', [Num 5, Num 6, Num 7, Num 4.5, Num 8]),
        (''Input Expenses (Currency)'', [Num 1500, Num 2500, Num 3500, Num 4500, Num 2000]),
        (''Output Prices (Currency)'', [Num 6000, Num 7000, Num 8000, Num 9000, Num 5500]),
        (''Climate Zone_Arctic'', [Flag False, Flag False, Flag True, Flag False, Flag False]),
        (''Climate Zone_Temperate'', [Flag False, Flag True, Flag False, Flag False, Flag True]),
        (''Climate Zone_Tropical'', [Flag True, Flag False, Flag False, Flag True, Flag False])] \<and>
   train_test_split first_label_sklearn
     [(''Temperature (Celsius)'', [Num 20, Num 25, Num 30, Num 18, Num 33]),
        (''Precipitation (mm)'', [Num 10, Num 50, Num 90, Num 30, Num 70]),
        (''Soil pH'', [Num 5, Num 6, Num 7, Num 4.5, Num 8]),
        (''Input Expenses (Currency)'', [Num 1500, Num 2500, Num 3500, Num 4500, Num 2000]),
        (''Output Prices (Currency)'', [Num 6000, Num 7000, Num 8000, Num 9000, Num 5500]),
        (''Climate Zone_Arctic'', [Flag False, Flag False, Flag True, Flag False, Flag False]),
        (''Climate Zone_Temperate'', [Flag False, Flag True, Flag False, Flag False, Flag True]),
        (''Climate Zone_Tropical'', [Flag True, Flag False, Flag False, Flag True, Flag False])]
     [Str ''Wheat'', Str ''Corn'', Str ''Wheat'', Str ''Corn'', Str ''Rice''] 0.2 42 =
   Inr ([(''Temperature (Celsius)'', [Num 18, Num 30, Num 25, Num 20]),
        (''Precipitation (mm)'', [Num 30, Num 90, Num 50, Num 10]),
        (''Soil pH'', [Num 4.5, Num 7, Num 6, Num 5]),
        (''Input Expenses (Currency)'', [Num 4500, Num 3500, Num 2500, Num 1500]),
        (''Output Prices (Currency)'', [Num 9000, Num 8000, Num 7000, Num 6000]),
        (''Climate Zone_Arctic'', [Flag False, Flag True, Flag False, Flag False]),
        (''Climate Zone_Temperate'', [Flag False, Flag False, Flag True, Flag False]),
        (''Climate Zone_Tropical'', [Flag True, Flag False, Flag False, Flag True])],
        [(''Temperature (Celsius)'', [Num 33]),
        (''Precipitation (mm)'', [Num 70]),
        (''Soil pH'', [Num 8]),
        (''Input Expenses (Currency)'', [Num 2000]),
        (''Output Prices (Currency)'', [Num 5500]),
        (''Climate Zone_Arctic'', [Flag False]),
        (''Climate Zone_Temperate'', [Flag True]),
        (''Climate Zone_Tropical'', [Flag False])],
        [Str ''Corn'', Str ''Wheat'', Str ''Corn'', Str ''Wheat''], [Str ''Rice'']) \<and>
   (\<exists>X_train X_test y_train y_test.
      train_test_split first_label_sklearn
        [(''Temperature (Celsius)'', [Num 20, Num 25, Num 30, Num 18, Num 33]),
        (''Precipitation (mm)'', [Num 10, Num 50, Num 90, Num 30, Num 70]),
        (''Soil pH'', [Num 5, Num 6, Num 7, Num 4.5, Num 8]),
        (''Input Expenses (Currency)'', [Num 1500, Num 2500, Num 3500, Num 4500, Num 2000]),
        (''Output Prices (Currency)'', [Num 6000, Num 7000, Num 8000, Num 9000, Num 5500]),
        (''Climate Zone_Arctic'', [Flag False, Flag False, Flag True, Flag False, Flag False]),
        (''Climate Zone_Temperate'', [Flag False, Flag True, Flag False, Flag False, Flag True]),
        (''Climate Zone_Tropical'', [Flag True, Flag False, Flag False, Flag True, Flag False])]
        [Str ''Wheat'', Str ''Corn'', Str ''Wheat'', Str ''Corn'', Str ''Rice''] 0.2 42 = Inr (X_train, X_test, y_train, y_test) \<and>
      nrows X_test = nat \<lceil>0.2 * real (nrows
        [(''Temperature (Celsius)'', [Num 20, Num 25, Num 30, Num 18, Num 33]),
        (''Precipitation (mm)'', [Num 10, Num 50, Num 90, Num 30, Num 70]),
        (''Soil pH'', [Num 5, Num 6, Num 7, Num 4.5, Num 8]),
        (''Input Expenses (Currency)'', [Num 1500, Num 2500, Num 3500, Num 4500, Num 2000]),
        (''Output Prices (Currency)'', [Num 6000, Num 7000, Num 8000, Num 9000, Num 5500]),
        (''Climate Zone_Arctic'', [Flag False, Flag False, Flag True, Flag False, Flag False]),
        (''Climate Zone_Temperate'', [Flag False, Flag True, Flag False, Flag False, Flag True]),
        (''Climate Zone_Tropical'', [Flag True, Flag False, Flag False, Flag True, Flag False])])\<rceil> \<and>
      length y_test = nrows X_test \<and>
      nrows X_train = nrows
        [(''Temperature (Celsius)'', [Num 20, Num 25, Num 30, Num 18, Num 33]),
        (''Precipitation (mm)'', [Num 10, Num 50, Num 90, Num 30, Num 70]),
        (''Soil pH'', [Num 5, Num 6, Num 7, Num 4.5, Num 8]),
        (''Input Expenses (Currency)'', [Num 1500, Num 2500, Num 3500, Num 4500, Num 2000]),
        (''Output Prices (Currency)'', [Num 6000, Num 7000, Num 8000, Num 9000, Num 5500]),
        (''Climate Zone_Arctic'', [Flag False, Flag False, Flag True, Flag False, Flag False]),
        (''Climate Zone_Temperate'', [Flag False, Flag True, Flag False, Flag False, Flag True]),
        (''Climate Zone_Tropical'', [Flag True, Flag False, Flag False, Flag True, Flag False])] - nrows X_test \<and>
      length y_train = nrows X_train \<and>
      \<bar>real (nrows X_test) - 0.2 * real (nrows
        [(''Temperature (Celsius)'', [Num 20, Num 25, Num 30, Num 18, Num 33]),
        (''Precipitation (mm)'', [Num 10, Num 50, Num 90, Num 30, Num 70]),
        (''Soil pH'', [Num 5, Num 6, Num 7, Num 4.5, Num 8]),
        (''Input Expenses (Currency)'', [Num 1500, Num 2500, Num 3500, Num 4500, Num 2000]),
        (''Output Prices (Currency)'', [Num 6000, Num 7000, Num 8000, Num 9000, Num 5500]),
        (''Climate Zone_Arctic'', [Flag False, Flag False, Flag True, Flag False, Flag False]),
        (''Climate Zone_Temperate'', [Flag False, Flag True, Flag False, Flag False, Flag True]),
        (''Climate Zone_Tropical'', [Flag True, Flag False, Flag False, Flag True, Flag False])])\<bar> < 1) \<and>
   nrows
     [(''Temperature (Celsius)'', [Num 20]),
        (''Precipitation (mm)'', [Num 10]),
        (''Soil pH'', [Num 5]),
        (''Input Expenses (Currency)'', [Num 1500]),
        (''Output Prices (Currency)'', [Num 6000]),
        (''Climate Zone_Arctic'', [Num 0]),
        (''Climate Zone_Temperate'', [Num 0]),
        (''Climate Zone_Tropical'', [Flag True])] \<le> 1 \<and>
   train_test_split first_label_sklearn
     [(''Temperature (Celsius)'', [Num 20]),
        (''Precipitation (mm)'', [Num 10]),
        (''Soil pH'', [Num 5]),
        (''Input Expenses (Currency)'', [Num 1500]),
        (''Output Prices (Currency)'', [Num 6000]),
        (''Climate Zone_Arctic'', [Num 0]),
        (''Climate Zone_Temperate'', [Num 0]),
        (''Climate Zone_Tropical'', [Flag True])]
     [Str ''Wheat''] 0.2 42 = Inl ValueError \<and>
   read_csv sample_pandas (sample_world ''one row'') ''dummy_agricultural_data.csv'' =
     Inr one_row_frame \<and>
   list_all (\<lambda>(name, col). length col \<le> 1) one_row_frame \<and>
   (\<exists>e. model_training sample_pandas first_label_sklearn (sample_world ''one row'') =
      (Some e, sample_world ''one row''))"
proof -
  have wf: "wf_frame
     [(''Temperature (Celsius)'', [Num 20, Num 25, Num 30, Num 18, Num 33]),
        (''Precipitation (mm)'', [Num 10, Num 50, Num 90, Num 30, Num 70]),
        (''Soil pH'', [Num 5, Num 6, Num 7, Num 4.5, Num 8]),
        (''Input Expenses (Currency)'', [Num 1500, Num 2500, Num 3500, Num 4500, Num 2000]),
        (''Output Prices (Currency)'', [Num 6000, Num 7000, Num 8000, Num 9000, Num 5500]),
        (''Climate Zone_Arctic'', [Flag False, Flag False, Flag True, Flag False, Flag False]),
        (''Climate Zone_Temperate'', [Flag False, Flag True, Flag False, Flag False, Flag True]),
        (''Climate Zone_Tropical'', [Flag True, Flag False, Flag False, Flag True, Flag False])]"
    by (simp add: wf_frame_def)
  have len: "length [Str ''Wheat'', Str ''Corn'', Str ''Wheat'', Str ''Corn'', Str ''Rice''] =
     nrows
       [(''Temperature (Celsius)'', [Num 20, Num 25, Num 30, Num 18, Num 33]),
        (''Precipitation (mm)'', [Num 10, Num 50, Num 90, Num 30, Num 70]),
        (''Soil pH'', [Num 5, Num 6, Num 7, Num 4.5, Num 8]),
        (''Input Expenses (Currency)'', [Num 1500, Num 2500, Num 3500, Num 4500, Num 2000]),
        (''Output Prices (Currency)'', [Num 6000, Num 7000, Num 8000, Num 9000, Num 5500]),
        (''Climate Zone_Arctic'', [Flag False, Flag False, Flag True, Flag False, Flag False]),
        (''Climate Zone_Temperate'', [Flag False, Flag True, Flag False, Flag False, Flag True]),
        (''Climate Zone_Tropical'', [Flag True, Flag False, Flag False, Flag True, Flag False])]"
    by simp
  have n: "2 \<le> nrows
       [(''Temperature (Celsius)'', [Num 20, Num 25, Num 30, Num 18, Num 33]),
        (''Precipitation (mm)'', [Num 10, Num 50, Num 90, Num 30, Num 70]),
        (''Soil pH'', [Num 5, Num 6, Num 7, Num 4.5, Num 8]),
        (''Input Expenses (Currency)'', [Num 1500, Num 2500, Num 3500, Num 4500, Num 2000]),
        (''Output Prices (Currency)'', [Num 6000, Num 7000, Num 8000, Num 9000, Num 5500]),
        (''Climate Zone_Arctic'', [Flag False, Flag False, Flag True, Flag False, Flag False]),
        (''Climate Zone_Temperate'', [Flag False, Flag True, Flag False, Flag False, Flag True]),
        (''Climate Zone_Tropical'', [Flag True, Flag False, Flag False, Flag True, Flag False])]"
    by simp
  have one: "nrows
     [(''Temperature (Celsius)'', [Num 20]),
        (''Precipitation (mm)'', [Num 10]),
        (''Soil pH'', [Num 5]),
        (''Input Expenses (Currency)'', [Num 1500]),
        (''Output Prices (Currency)'', [Num 6000]),
        (''Climate Zone_Arctic'', [Num 0]),
        (''Climate Zone_Temperate'', [Num 0]),
        (''Climate Zone_Tropical'', [Flag True])] \<le> 1"
    by simp
  have short: "list_all (\<lambda>(name, col). length col \<le> 1) one_row_frame"
    by (simp add: one_row_frame_def)
  note t = train_test_split_sizes
  show ?thesis
    by (intro conjI first_label_sklearn_contract wf len n split_five one read_one short
        mp [OF conjunct1 [OF t] conjI [OF first_label_sklearn_contract conjI [OF wf conjI [OF len n]]]]
        mp [OF conjunct1 [OF conjunct2 [OF t]] one]
        mp [OF conjunct2 [OF conjunct2 [OF t]] conjI [OF read_one short]])
qed

text \<open>
  Claim C3 as stated, for every \<open>n \<ge> 1\<close>, fails at one row. On the file of one row the
  trainer ends with KeyError at the feature selection, before the split. On the file of
  one row that carries the two other indicator columns itself the selection returns the
  eight feature columns, and the split raises ValueError: the test partition would take
  the only row and leave the train partition empty.
\<close>

theorem one_row_no_partition:
  "read_csv sample_pandas (sample_world ''one row'') ''dummy_agricultural_data.csv'' =
     Inr one_row_frame \<and>
   nrows one_row_frame = 1 \<and>
   model_training sample_pandas first_label_sklearn (sample_world ''one row'') =
     (Some KeyError, sample_world ''one row'') \<and>
   getitem_list
     [(''Temperature (Celsius)'', [Num 20]),
        (''Precipitation (mm)'', [Num 10]),
        (''Soil pH'', [Num 5]),
        (''Input Expenses (Currency)'', [Num 1500]),
        (''Output Prices (Currency)'', [Num 6000]),
        (''Recommended Product'', [Str ''Wheat'']),
        (''Climate Zone_Arctic'', [Num 0]),
        (''Climate Zone_Temperate'', [Num 0]),
        (''Climate Zone_Tropical'', [Flag True])]
     [''Temperature (Celsius)'', ''Precipitation (mm)'', ''Soil pH'',
      ''Input Expenses (Currency)'', ''Output Prices (Currency)'',
      ''Climate Zone_Arctic'', ''Climate Zone_Temperate'', ''Climate Zone_Tropical''] =
   Inr [(''Temperature (Celsius)'', [Num 20]),
        (''Precipitation (mm)'', [Num 10]),
        (''Soil pH'', [Num 5]),
        (''Input Expenses (Currency)'', [Num 1500]),
        (''Output Prices (Currency)'', [Num 6000]),
        (''Climate Zone_Arctic'', [Num 0]),
        (''Climate Zone_Temperate'', [Num 0]),
        (''Climate Zone_Tropical'', [Flag True])] \<and>
   train_test_split first_label_sklearn
     [(''Temperature (Celsius)'', [Num 20]),
        (''Precipitation (mm)'', [Num 10]),
        (''Soil pH'', [Num 5]),
        (''Input Expenses (Currency)'', [Num 1500]),
        (''Output Prices (Currency)'', [Num 6000]),
        (''Climate Zone_Arctic'', [Num 0]),
        (''Climate Zone_Temperate'', [Num 0]),
        (''Climate Zone_Tropical'', [Flag True])]
     [Str ''Wheat''] 0.2 42 = Inl ValueError \<and>
   model_training sample_pandas first_label_sklearn (sample_world ''one row with indicators'') =
     (Some ValueError, sample_world ''one row with indicators'')"
proof -
  have n: "nrows one_row_frame = 1" by (simp add: one_row_frame_def)
  show ?thesis
    by (intro conjI read_one n run_one select_one_indicators split_one_indicators
        run_one_indicators)
qed

subsection \<open>Every exception ends the run\<close>

lemma model_training_stages:
  "(read_csv P w ''dummy_agricultural_data.csv'' = Inl e \<longrightarrow>
      model_training P S w = (Some e, w)) \<and>
   (read_csv P w ''dummy_agricultural_data.csv'' = Inr dummy_data0 \<longrightarrow>
    (get_dummies P dummy_data0 [''Climate Zone''] = Inl e \<longrightarrow>
       model_training P S w = (Some e, w)) \<and>
    (get_dummies P dummy_data0 [''Climate Zone''] = Inr dummy_data \<longrightarrow>
     (getitem_list dummy_data
        [''Temperature (Celsius)'', ''Precipitation (mm)'', ''Soil pH'',
         ''Input Expenses (Currency)'', ''Output Prices (Currency)'',
         ''Climate Zone_Arctic'', ''Climate Zone_Temperate'', ''Climate Zone_Tropical''] = Inl e \<longrightarrow>
        model_training P S w = (Some e, w)) \<and>
     (getitem_list dummy_data
        [''Temperature (Celsius)'', ''Precipitation (mm)'', ''Soil pH'',
         ''Input Expenses (Currency)'', ''Output Prices (Currency)'',
         ''Climate Zone_Arctic'', ''Climate Zone_Temperate'', ''Climate Zone_Tropical''] = Inr X \<longrightarrow>
      (getitem dummy_data ''Recommended Product'' = Inl e \<longrightarrow>
         model_training P S w = (Some e, w)) \<and>
      (getitem dummy_data ''Recommended Product'' = Inr y \<longrightarrow>
       (train_test_split S X y 0.2 42 = Inl e \<longrightarrow>
          model_training P S w = (Some e, w)) \<and>
       (train_test_split S X y 0.2 42 = Inr (X_train, X_test, y_train, y_test) \<longrightarrow>
        (sk_fit S 100 42 X_train y_train = Inl e \<longrightarrow>
           model_training P S w = (Some e, w)) \<and>
        (sk_fit S 100 42 X_train y_train = Inr clf \<longrightarrow>
         (sk_predict S clf X_test = Inl e \<longrightarrow>
            model_training P S w = (Some e, w)) \<and>
         (sk_predict S clf X_test = Inr y_pred \<longrightarrow>
          (accuracy_score y_test y_pred = Inl e \<longrightarrow>
             model_training P S w = (Some e, w)) \<and>
          (accuracy_score y_test y_pred = Inr accuracy \<longrightarrow>
           (classification_report y_test y_pred = Inl e \<longrightarrow>
              model_training P S w =
                (Some e,
                 py_print (py_print w [OutText ''Accuracy:'', OutCell accuracy])
                   [OutText (CHR 0x0A # ''Classification Report:'')])) \<and>
           (classification_report y_test y_pred = Inr rep \<longrightarrow>
            (joblib_dump S clf ''agricultural_product_recommendation_model.joblib''
               (py_print (py_print (py_print w [OutText ''Accuracy:'', OutCell accuracy])
                  [OutText (CHR 0x0A # ''Classification Report:'')]) [OutReport rep]) = Inl e \<longrightarrow>
               model_training P S w =
                 (Some e,
                  py_print (py_print (py_print w [OutText ''Accuracy:'', OutCell accuracy])
                    [OutText (CHR 0x0A # ''Classification Report:'')]) [OutReport rep])) \<and>
            (joblib_dump S clf ''agricultural_product_recommendation_model.joblib''
               (py_print (py_print (py_print w [OutText ''Accuracy:'', OutCell accuracy])
                  [OutText (CHR 0x0A # ''Classification Report:'')]) [OutReport rep]) = Inr w4 \<longrightarrow>
               model_training P S w = (None, w4)))))))))))"
  by (simp add: model_training_def Let_def)

lemma data_py_stages:
  "(generate_dummy_data_call N g None = Inl e \<longrightarrow> data_py N P g w = (Some e, w)) \<and>
   (generate_dummy_data_call N g None = Inr (data, g') \<longrightarrow>
    (to_csv P data ''dummy_agricultural_data.csv'' (py_print w [OutFrame (head data)]) = Inl e \<longrightarrow>
       data_py N P g w = (Some e, py_print w [OutFrame (head data)])) \<and>
    (to_csv P data ''dummy_agricultural_data.csv'' (py_print w [OutFrame (head data)]) = Inr w2 \<longrightarrow>
       data_py N P g w = (None, w2)))"
  by (simp add: data_py_def Let_def)

lemma split_failing:
  "train_test_split (failing_sklearn stage) X y test_size random_state =
     train_test_split first_label_sklearn X y test_size random_state"
proof -
  have "sk_permutation (failing_sklearn stage) = sk_permutation first_label_sklearn"
    by (simp add: failing_sklearn_def first_label_sklearn_def)
  then show ?thesis by (simp only: train_test_split_def)
qed

lemma split_five_failing:
  "train_test_split (failing_sklearn stage)
     [(''Temperature (Celsius)'', [Num 20, Num 25, Num 30, Num 18, Num 33]),
        (''Precipitation (mm)'', [Num 10, Num 50, Num 90, Num 30, Num 70]),
        (''Soil pH'', [Num 5, Num 6, Num 7, Num 4.5, Num 8]),
        (''Input Expenses (Currency)'', [Num 1500, Num 2500, Num 3500, Num 4500, Num 2000]),
        (''Output Prices (Currency)'', [Num 6000, Num 7000, Num 8000, Num 9000, Num 5500]),
        (''Climate Zone_Arctic'', [Flag False, Flag False, Flag True, Flag False, Flag False]),
        (''Climate Zone_Temperate'', [Flag False, Flag True, Flag False, Flag False, Flag True]),
        (''Climate Zone_Tropical'', [Flag True, Flag False, Flag False, Flag True, Flag False])]
     [Str ''Wheat'', Str ''Corn'', Str ''Wheat'', Str ''Corn'', Str ''Rice''] 0.2 42 =
   Inr ([(''Temperature (Celsius)'', [Num 18, Num 30, Num 25, Num 20]),
        (''Precipitation (mm)'', [Num 30, Num 90, Num 50, Num 10]),
        (''Soil pH'', [Num 4.5, Num 7, Num 6, Num 5]),
        (''Input Expenses (Currency)'', [Num 4500, Num 3500, Num 2500, Num 1500]),
        (''Output Prices (Currency)'', [Num 9000, Num 8000, Num 7000, Num 6000]),
        (''Climate Zone_Arctic'', [Flag False, Flag True, Flag False, Flag False]),
        (''Climate Zone_Temperate'', [Flag False, Flag False, Flag True, Flag False]),
        (''Climate Zone_Tropical'', [Flag True, Flag False, Flag False, Flag True])],
        [(''Temperature (Celsius)'', [Num 33]),
        (''Precipitation (mm)'', [Num 70]),
        (''Soil pH'', [Num 8]),
        (''Input Expenses (Currency)'', [Num 2000]),
        (''Output Prices (Currency)'', [Num 5500]),
        (''Climate Zone_Arctic'', [Flag False]),
        (''Climate Zone_Temperate'', [Flag True]),
        (''Climate Zone_Tropical'', [Flag False])],
        [Str ''Corn'', Str ''Wheat'', Str ''Corn'', Str ''Wheat''], [Str ''Rice''])"
  unfolding split_failing by (rule split_five)

lemma read_no_zone:
  "read_csv sample_pandas (sample_world ''no zone column'') ''dummy_agricultural_data.csv'' =
     Inr (filter (\<lambda>(name, col). name \<noteq> ''Climate Zone'') sample_frame)"
  by (simp add: read_csv_def sample_world_def sample_pandas_def)

lemma dummies_no_zone:
  "get_dummies sample_pandas (filter (\<lambda>(name, col). name \<noteq> ''Climate Zone'') sample_frame)
     [''Climate Zone''] = Inl KeyError"
  by (simp add: get_dummies_def getitem_list_def sample_frame_def)

lemma dummies_two:
  "get_dummies sample_pandas two_zone_frame [''Climate Zone''] =
   Inr [(''Temperature (Celsius)'', [Num 20, Num 25, Num 30, Num 18, Num 33]),
        (''Precipitation (mm)'', [Num 10, Num 50, Num 90, Num 30, Num 70]),
        (''Soil pH'', [Num 5, Num 6, Num 7, Num 4.5, Num 8]),
        (''Input Expenses (Currency)'', [Num 1500, Num 2500, Num 3500, Num 4500, Num 2000]),
        (''Output Prices (Currency)'', [Num 6000, Num 7000, Num 8000, Num 9000, Num 5500]),
        (''Recommended Product'', [Str ''Wheat'', Str ''Corn'', Str ''Wheat'', Str ''Corn'', Str ''Rice'']),
        (''Climate Zone_Temperate'', [Flag False, Flag True, Flag False, Flag False, Flag True]),
        (''Climate Zone_Tropical'', [Flag True, Flag False, Flag True, Flag True, Flag False])]"
  by (simp add: get_dummies_def getitem_list_def dummies_1d_def levels_two two_zone_frame_def)

lemma select_two:
  "getitem_list
     [(''Temperature (Celsius)'', [Num 20, Num 25, Num 30, Num 18, Num 33]),
        (''Precipitation (mm)'', [Num 10, Num 50, Num 90, Num 30, Num 70]),
        (''Soil pH'', [Num 5, Num 6, Num 7, Num 4.5, Num 8]),
        (''Input Expenses (Currency)'', [Num 1500, Num 2500, Num 3500, Num 4500, Num 2000]),
        (''Output Prices (Currency)'', [Num 6000, Num 7000, Num 8000, Num 9000, Num 5500]),
        (''Recommended Product'', [Str ''Wheat'', Str ''Corn'', Str ''Wheat'', Str ''Corn'', Str ''Rice'']),
        (''Climate Zone_Temperate'', [Flag False, Flag True, Flag False, Flag False, Flag True]),
        (''Climate Zone_Tropical'', [Flag True, Flag False, Flag True, Flag True, Flag False])]
     [''Temperature (Celsius)'', ''Precipitation (mm)'', ''Soil pH'',
      ''Input Expenses (Currency)'', ''Output Prices (Currency)'',
      ''Climate Zone_Arctic'', ''Climate Zone_Temperate'', ''Climate Zone_Tropical''] = Inl KeyError"
  by (simp add: getitem_list_def)

lemma read_no_target:
  "read_csv sample_pandas (sample_world ''no target column'') ''dummy_agricultural_data.csv'' =
     Inr (filter (\<lambda>(name, col). name \<noteq> ''Recommended Product'') sample_frame)"
  by (simp add: read_csv_def sample_world_def sample_pandas_def)

lemma dummies_no_target:
  "get_dummies sample_pandas
     (filter (\<lambda>(name, col). name \<noteq> ''Recommended Product'') sample_frame)
     [''Climate Zone''] =
   Inr [(''Temperature (Celsius)'', [Num 20, Num 25, Num 30, Num 18, Num 33]),
        (''Precipitation (mm)'', [Num 10, Num 50, Num 90, Num 30, Num 70]),
        (''Soil pH'', [Num 5, Num 6, Num 7, Num 4.5, Num 8]),
        (''Input Expenses (Currency)'', [Num 1500, Num 2500, Num 3500, Num 4500, Num 2000]),
        (''Output Prices (Currency)'', [Num 6000, Num 7000, Num 8000, Num 9000, Num 5500]),
        (''Climate Zone_Arctic'', [Flag False, Flag False, Flag True, Flag False, Flag False]),
        (''Climate Zone_Temperate'', [Flag False, Flag True, Flag False, Flag False, Flag True]),
        (''Climate Zone_Tropical'', [Flag True, Flag False, Flag False, Flag True, Flag False])]"
  by (simp add: get_dummies_def getitem_list_def dummies_1d_def levels_five sample_frame_def)

lemma select_no_target:
  "getitem_list
     [(''Temperature (Celsius)'', [Num 20, Num 25, Num 30, Num 18, Num 33]),
        (''Precipitation (mm)'', [Num 10, Num 50, Num 90, Num 30, Num 70]),
        (''Soil pH'', [Num 5, Num 6, Num 7, Num 4.5, Num 8]),
        (''Input Expenses (Currency)'', [Num 1500, Num 2500, Num 3500, Num 4500, Num 2000]),
        (''Output Prices (Currency)'', [Num 6000, Num 7000, Num 8000, Num 9000, Num 5500]),
        (''Climate Zone_Arctic'', [Flag False, Flag False, Flag True, Flag False, Flag False]),
        (''Climate Zone_Temperate'', [Flag False, Flag True, Flag False, Flag False, Flag True]),
        (''Climate Zone_Tropical'', [Flag True, Flag False, Flag False, Flag True, Flag False])]
     [''Temperature (Celsius)'', ''Precipitation (mm)'', ''Soil pH'',
      ''Input Expenses (Currency)'', ''Output Prices (Currency)'',
      ''Climate Zone_Arctic'', ''Climate Zone_Temperate'', ''Climate Zone_Tropical''] =
   Inr [(''Temperature (Celsius)'', [Num 20, Num 25, Num 30, Num 18, Num 33]),
        (''Precipitation (mm)'', [Num 10, Num 50, Num 90, Num 30, Num 70]),
        (''Soil pH'', [Num 5, Num 6, Num 7, Num 4.5, Num 8]),
        (''Input Expenses (Currency)'', [Num 1500, Num 2500, Num 3500, Num 4500, Num 2000]),
        (''Output Prices (Currency)'', [Num 6000, Num 7000, Num 8000, Num 9000, Num 5500]),
        (''Climate Zone_Arctic'', [Flag False, Flag False, Flag True, Flag False, Flag False]),
        (''Climate Zone_Temperate'', [Flag False, Flag True, Flag False, Flag False, Flag True]),
        (''Climate Zone_Tropical'', [Flag True, Flag False, Flag False, Flag True, Flag False])]"
  by (simp add: getitem_list_def)

lemma target_no_target:
  "getitem
     [(''Temperature (Celsius)'', [Num 20, Num 25, Num 30, Num 18, Num 33]),
        (''Precipitation (mm)'', [Num 10, Num 50, Num 90, Num 30, Num 70]),
        (''Soil pH'', [Num 5, Num 6, Num 7, Num 4.5, Num 8]),
        (''Input Expenses (Currency)'', [Num 1500, Num 2500, Num 3500, Num 4500, Num 2000]),
        (''Output Prices (Currency)'', [Num 6000, Num 7000, Num 8000, Num 9000, Num 5500]),
        (''Climate Zone_Arctic'', [Flag False, Flag False, Flag True, Flag False, Flag False]),
        (''Climate Zone_Temperate'', [Flag False, Flag True, Flag False, Flag False, Flag True]),
        (''Climate Zone_Tropical'', [Flag True, Flag False, Flag False, Flag True, Flag False])]
     ''Recommended Product'' = Inl KeyError"
  by (simp add: getitem_def)

lemma fit_stage0:
  "sk_fit (failing_sklearn 0) 100 42
     [(''Temperature (Celsius)'', [Num 18, Num 30, Num 25, Num 20]),
        (''Precipitation (mm)'', [Num 30, Num 90, Num 50, Num 10]),
        (''Soil pH'', [Num 4.5, Num 7, Num 6, Num 5]),
        (''Input Expenses (Currency)'', [Num 4500, Num 3500, Num 2500, Num 1500]),
        (''Output Prices (Currency)'', [Num 9000, Num 8000, Num 7000, Num 6000]),
        (''Climate Zone_Arctic'', [Flag False, Flag True, Flag False, Flag False]),
        (''Climate Zone_Temperate'', [Flag False, Flag False, Flag True, Flag False]),
        (''Climate Zone_Tropical'', [Flag True, Flag False, Flag False, Flag True])]
     [Str ''Corn'', Str ''Wheat'', Str ''Corn'', Str ''Wheat''] = Inl ValueError"
  by (simp add: failing_sklearn_def)

lemma fit_failing:
  "stage \<noteq> 0 \<Longrightarrow> sk_fit (failing_sklearn stage) 100 42
     [(''Temperature (Celsius)'', [Num 18, Num 30, Num 25, Num 20]),
        (''Precipitation (mm)'', [Num 30, Num 90, Num 50, Num 10]),
        (''Soil pH'', [Num 4.5, Num 7, Num 6, Num 5]),
        (''Input Expenses (Currency)'', [Num 4500, Num 3500, Num 2500, Num 1500]),
        (''Output Prices (Currency)'', [Num 9000, Num 8000, Num 7000, Num 6000]),
        (''Climate Zone_Arctic'', [Flag False, Flag True, Flag False, Flag False]),
        (''Climate Zone_Temperate'', [Flag False, Flag False, Flag True, Flag False]),
        (''Climate Zone_Tropical'', [Flag True, Flag False, Flag False, Flag True])]
     [Str ''Corn'', Str ''Wheat'', Str ''Corn'', Str ''Wheat''] = Inr (Str ''Corn'')"
  by (simp add: failing_sklearn_def)

lemma predict_stage1:
  "sk_predict (failing_sklearn 1) (Str ''Corn'')
     [(''Temperature (Celsius)'', [Num 33]),
        (''Precipitation (mm)'', [Num 70]),
        (''Soil pH'', [Num 8]),
        (''Input Expenses (Currency)'', [Num 2000]),
        (''Output Prices (Currency)'', [Num 5500]),
        (''Climate Zone_Arctic'', [Flag False]),
        (''Climate Zone_Temperate'', [Flag True]),
        (''Climate Zone_Tropical'', [Flag False])] = Inl ValueError"
  by (simp add: failing_sklearn_def)

lemma predict_stage2:
  "sk_predict (failing_sklearn 2) (Str ''Corn'')
     [(''Temperature (Celsius)'', [Num 33]),
        (''Precipitation (mm)'', [Num 70]),
        (''Soil pH'', [Num 8]),
        (''Input Expenses (Currency)'', [Num 2000]),
        (''Output Prices (Currency)'', [Num 5500]),
        (''Climate Zone_Arctic'', [Flag False]),
        (''Climate Zone_Temperate'', [Flag True]),
        (''Climate Zone_Tropical'', [Flag False])] = Inr []"
  by (simp add: failing_sklearn_def)

lemma predict_stage3:
  "sk_predict (failing_sklearn 3) (Str ''Corn'')
     [(''Temperature (Celsius)'', [Num 33]),
        (''Precipitation (mm)'', [Num 70]),
        (''Soil pH'', [Num 8]),
        (''Input Expenses (Currency)'', [Num 2000]),
        (''Output Prices (Currency)'', [Num 5500]),
        (''Climate Zone_Arctic'', [Flag False]),
        (''Climate Zone_Temperate'', [Flag True]),
        (''Climate Zone_Tropical'', [Flag False])] = Inr [Num 1]"
  by (simp add: failing_sklearn_def)

lemma accuracy_stage2: "accuracy_score [Str ''Rice''] [] = Inl ValueError"
  by (simp add: accuracy_score_def)

lemma accuracy_stage3: "accuracy_score [Str ''Rice''] [Num 1] = Inr (Num 0)"
  by (simp add: accuracy_score_def)

lemma report_stage3: "classification_report [Str ''Rice''] [Num 1] = Inl ValueError"
  by (simp add: classification_report_def unique_labels_def)

lemma draws_first:
  assumes "0 < n"
  shows "\<exists>xs. fst (draws d n g) = fst (d g) # xs"
  using assms by (cases n) (simp_all add: case_prod_beta)

lemma choice_broken:
  assumes "0 < sz" and "a \<noteq> []"
  shows "choice broken_numpy a sz g = Inl IndexError"
proof -
  have "0 < nat sz" using assms(1) by simp
  from draws_first [OF this, of "np_randint broken_numpy (length a)" g] obtain xs where
    "fst (draws (np_randint broken_numpy (length a)) (nat sz) g) = length a # xs"
    by (auto simp: broken_numpy_def)
  then show ?thesis using assms by (simp add: choice_def case_prod_beta)
qed

lemma generate_broken:
  assumes "0 < num_samples"
  shows "generate_dummy_data broken_numpy g num_samples = Inl IndexError"
proof -
  have n: "0 \<le> num_samples" using assms by simp
  show ?thesis
    unfolding generate_dummy_data_def Let_def
    by (simp add: uniform_Inr [OF n] choice_broken [OF assms] case_prod_beta)
qed

lemma generate_call_broken: "generate_dummy_data_call broken_numpy g None = Inl IndexError"
  by (simp add: generate_dummy_data_call_def generate_broken)

lemma fit_stage1:
  "sk_fit (failing_sklearn 1) 100 42
     [(''Temperature (Celsius)'', [Num 18, Num 30, Num 25, Num 20]),
        (''Precipitation (mm)'', [Num 30, Num 90, Num 50, Num 10]),
        (''Soil pH'', [Num 4.5, Num 7, Num 6, Num 5]),
        (''Input Expenses (Currency)'', [Num 4500, Num 3500, Num 2500, Num 1500]),
        (''Output Prices (Currency)'', [Num 9000, Num 8000, Num 7000, Num 6000]),
        (''Climate Zone_Arctic'', [Flag False, Flag True, Flag False, Flag False]),
        (''Climate Zone_Temperate'', [Flag False, Flag False, Flag True, Flag False]),
        (''Climate Zone_Tropical'', [Flag True, Flag False, Flag False, Flag True])]
     [Str ''Corn'', Str ''Wheat'', Str ''Corn'', Str ''Wheat''] = Inr (Str ''Corn'')"
  by (rule fit_failing) simp

lemma fit_stage2:
  "sk_fit (failing_sklearn 2) 100 42
     [(''Temperature (Celsius)'', [Num 18, Num 30, Num 25, Num 20]),
        (''Precipitation (mm)'', [Num 30, Num 90, Num 50, Num 10]),
        (''Soil pH'', [Num 4.5, Num 7, Num 6, Num 5]),
        (''Input Expenses (Currency)'', [Num 4500, Num 3500, Num 2500, Num 1500]),
        (''Output Prices (Currency)'', [Num 9000, Num 8000, Num 7000, Num 6000]),
        (''Climate Zone_Arctic'', [Flag False, Flag True, Flag False, Flag False]),
        (''Climate Zone_Temperate'', [Flag False, Flag False, Flag True, Flag False]),
        (''Climate Zone_Tropical'', [Flag True, Flag False, Flag False, Flag True])]
     [Str ''Corn'', Str ''Wheat'', Str ''Corn'', Str ''Wheat''] = Inr (Str ''Corn'')"
  by (rule fit_failing) simp

lemma fit_stage3:
  "sk_fit (failing_sklearn 3) 100 42
     [(''Temperature (Celsius)'', [Num 18, Num 30, Num 25, Num 20]),
        (''Precipitation (mm)'', [Num 30, Num 90, Num 50, Num 10]),
        (''Soil pH'', [Num 4.5, Num 7, Num 6, Num 5]),
        (''Input Expenses (Currency)'', [Num 4500, Num 3500, Num 2500, Num 1500]),
        (''Output Prices (Currency)'', [Num 9000, Num 8000, Num 7000, Num 6000]),
        (''Climate Zone_Arctic'', [Flag False, Flag True, Flag False, Flag False]),
        (''Climate Zone_Temperate'', [Flag False, Flag False, Flag True, Flag False]),
        (''Climate Zone_Tropical'', [Flag True, Flag False, Flag False, Flag True])]
     [Str ''Corn'', Str ''Wheat'', Str ''Corn'', Str ''Wheat''] = Inr (Str ''Corn'')"
  by (rule fit_failing) simp

lemma dump_read_only:
  "joblib_dump first_label_sklearn (Str ''Corn'')
     ''agricultural_product_recommendation_model.joblib''
     (py_print (py_print (py_print (read_only_world ''five rows'') [OutText ''Accuracy:'', OutCell (Num 0)])
          [OutText (CHR 0x0A # ''Classification Report:'')])
          [OutReport \<lparr>report_rows =
          [\<lparr>row_label = Str ''Corn'', row_precision = 0, row_recall = 0, row_f1 = 0,
              row_support = 0\<rparr>,
           \<lparr>row_label = Str ''Rice'', row_precision = 0, row_recall = 0, row_f1 = 0,
              row_support = 1\<rparr>],
        report_accuracy = Num 0,
        report_macro_avg = (Num 0, Num 0, Num 0),
        report_weighted_avg = (Num 0, Num 0, Num 0),
        report_support = 1\<rparr>]) = Inl OSError"
  by (simp add: dump_five py_print_def read_only_world_def)

lemma dump_writable:
  "joblib_dump first_label_sklearn (Str ''Corn'')
     ''agricultural_product_recommendation_model.joblib''
     (py_print (py_print (py_print (sample_world ''five rows'') [OutText ''Accuracy:'', OutCell (Num 0)])
          [OutText (CHR 0x0A # ''Classification Report:'')])
          [OutReport \<lparr>report_rows =
          [\<lparr>row_label = Str ''Corn'', row_precision = 0, row_recall = 0, row_f1 = 0,
              row_support = 0\<rparr>,
           \<lparr>row_label = Str ''Rice'', row_precision = 0, row_recall = 0, row_f1 = 0,
              row_support = 1\<rparr>],
        report_accuracy = Num 0,
        report_macro_avg = (Num 0, Num 0, Num 0),
        report_weighted_avg = (Num 0, Num 0, Num 0),
        report_support = 1\<rparr>]) =
   Inr ((py_print (py_print (py_print (sample_world ''five rows'') [OutText ''Accuracy:'', OutCell (Num 0)])
          [OutText (CHR 0x0A # ''Classification Report:'')])
          [OutReport \<lparr>report_rows =
          [\<lparr>row_label = Str ''Corn'', row_precision = 0, row_recall = 0, row_f1 = 0,
              row_support = 0\<rparr>,
           \<lparr>row_label = Str ''Rice'', row_precision = 0, row_recall = 0, row_f1 = 0,
              row_support = 1\<rparr>],
        report_accuracy = Num 0,
        report_macro_avg = (Num 0, Num 0, Num 0),
        report_weighted_avg = (Num 0, Num 0, Num 0),
        report_support = 1\<rparr>])
        \<lparr>files := (files (sample_world ''five rows''))
           (''agricultural_product_recommendation_model.joblib'' \<mapsto> ''model'')\<rparr>)"
  by (simp add: dump_five py_print_def sample_world_def)

text \<open>
  Claim C7. Neither script catches an exception: the first statement that raises ends the
  run with its exception. For the trainer that is each statement in turn: reading the file
  (FileNotFoundError for a missing file, the parser's exception for an input it rejects),
  the expansion, the feature selection, the target selection, the split, the fit, the
  prediction, the accuracy, the report and the dump; the run ends in the world reached so
  far, which differs from the starting world by the lines printed before, and a run ends
  without an exception only when every statement has returned. A table without rows always
  ends the trainer with an exception. For the generator, a negative count raises ValueError
  out of \<open>generate_dummy_data\<close>, and an exception of the generation or of the write ends
  the script. Whatever exception ends either script, the files are as they were before the
  run: no model file and no data file is written on a failure.
\<close>

theorem errors_propagate:
  "(files w ''dummy_agricultural_data.csv'' = None \<longrightarrow>
      model_training P S w = (Some FileNotFoundError, w)) \<and>
   (files w ''dummy_agricultural_data.csv'' = Some contents \<and> pd_parse_csv P contents = Inl e \<longrightarrow>
      model_training P S w = (Some e, w)) \<and>
   (read_csv P w ''dummy_agricultural_data.csv'' = Inr df \<and>
    list_all (\<lambda>(name, col). col = []) df \<longrightarrow>
      (\<exists>e. model_training P S w = (Some e, w))) \<and>
   (model_training P S w = (Some e, w') \<longrightarrow> files w' = files w) \<and>
   (data_py N P g w = (Some e, w') \<longrightarrow> files w' = files w) \<and>
   (num_samples < 0 \<longrightarrow> generate_dummy_data N g num_samples = Inl ValueError) \<and>
   (generate_dummy_data_call N g None = Inl e \<longrightarrow> data_py N P g w = (Some e, w)) \<and>
   (generate_dummy_data_call N g None = Inr (data, g') \<longrightarrow>
    (to_csv P data ''dummy_agricultural_data.csv'' (py_print w [OutFrame (head data)]) = Inl e \<longrightarrow>
       data_py N P g w = (Some e, py_print w [OutFrame (head data)])) \<and>
    (to_csv P data ''dummy_agricultural_data.csv'' (py_print w [OutFrame (head data)]) = Inr w2 \<longrightarrow>
       data_py N P g w = (None, w2))) \<and>
   (read_csv P w ''dummy_agricultural_data.csv'' = Inl e \<longrightarrow>
      model_training P S w = (Some e, w)) \<and>
   (read_csv P w ''dummy_agricultural_data.csv'' = Inr dummy_data0 \<longrightarrow>
    (get_dummies P dummy_data0 [''Climate Zone''] = Inl e \<longrightarrow>
       model_training P S w = (Some e, w)) \<and>
    (get_dummies P dummy_data0 [''Climate Zone''] = Inr dummy_data \<longrightarrow>
     (getitem_list dummy_data
        [''Temperature (Celsius)'', ''Precipitation (mm)'', ''Soil pH'',
         ''Input Expenses (Currency)'', ''Output Prices (Currency)'',
         ''Climate Zone_Arctic'', ''Climate Zone_Temperate'', ''Climate Zone_Tropical''] = Inl e \<longrightarrow>
        model_training P S w = (Some e, w)) \<and>
     (getitem_list dummy_data
        [''Temperature (Celsius)'', ''Precipitation (mm)'', ''Soil pH'',
         ''Input Expenses (Currency)'', ''Output Prices (Currency)'',
         ''Climate Zone_Arctic'', ''Climate Zone_Temperate'', ''Climate Zone_Tropical''] = Inr X \<longrightarrow>
      (getitem dummy_data ''Recommended Product'' = Inl e \<longrightarrow>
         model_training P S w = (Some e, w)) \<and>
      (getitem dummy_data ''Recommended Product'' = Inr y \<longrightarrow>
       (train_test_split S X y 0.2 42 = Inl e \<longrightarrow>
          model_training P S w = (Some e, w)) \<and>
       (train_test_split S X y 0.2 42 = Inr (X_train, X_test, y_train, y_test) \<longrightarrow>
        (sk_fit S 100 42 X_train y_train = Inl e \<longrightarrow>
           model_training P S w = (Some e, w)) \<and>
        (sk_fit S 100 42 X_train y_train = Inr clf \<longrightarrow>
         (sk_predict S clf X_test = Inl e \<longrightarrow>
            model_training P S w = (Some e, w)) \<and>
         (sk_predict S clf X_test = Inr y_pred \<longrightarrow>
          (accuracy_score y_test y_pred = Inl e \<longrightarrow>
             model_training P S w = (Some e, w)) \<and>
          (accuracy_score y_test y_pred = Inr accuracy \<longrightarrow>
           (classification_report y_test y_pred = Inl e \<longrightarrow>
              model_training P S w =
                (Some e,
                 py_print (py_print w [OutText ''Accuracy:'', OutCell accuracy])
                   [OutText (CHR 0x0A # ''Classification Report:'')])) \<and>
           (classification_report y_test y_pred = Inr rep \<longrightarrow>
            (joblib_dump S clf ''agricultural_product_recommendation_model.joblib''
               (py_print (py_print (py_print w [OutText ''Accuracy:'', OutCell accuracy])
                  [OutText (CHR 0x0A # ''Classification Report:'')]) [OutReport rep]) = Inl e \<longrightarrow>
               model_training P S w =
                 (Some e,
                  py_print (py_print (py_print w [OutText ''Accuracy:'', OutCell accuracy])
                    [OutText (CHR 0x0A # ''Classification Report:'')]) [OutReport rep])) \<and>
            (joblib_dump S clf ''agricultural_product_recommendation_model.joblib''
               (py_print (py_print (py_print w [OutText ''Accuracy:'', OutCell accuracy])
                  [OutText (CHR 0x0A # ''Classification Report:'')]) [OutReport rep]) = Inr w4 \<longrightarrow>
               model_training P S w = (None, w4)))))))))))"
proof (intro conjI)
  show "files w ''dummy_agricultural_data.csv'' = None \<longrightarrow>
      model_training P S w = (Some FileNotFoundError, w)"
    by (simp add: model_training_def read_csv_def)
  show "files w ''dummy_agricultural_data.csv'' = Some contents \<and> pd_parse_csv P contents = Inl e \<longrightarrow>
      model_training P S w = (Some e, w)"
    by (simp add: model_training_def read_csv_def)
  show "read_csv P w ''dummy_agricultural_data.csv'' = Inr df \<and>
    list_all (\<lambda>(name, col). col = []) df \<longrightarrow>
      (\<exists>e. model_training P S w = (Some e, w))"
    using model_training_no_rows by blast
  show "model_training P S w = (Some e, w') \<longrightarrow> files w' = files w"
    by (rule impI) (rule model_training_files)
  show "data_py N P g w = (Some e, w') \<longrightarrow> files w' = files w"
    by (rule impI) (rule data_py_files)
  show "num_samples < 0 \<longrightarrow> generate_dummy_data N g num_samples = Inl ValueError"
    by (rule impI) (rule generate_dummy_data_negative)
qed (rule data_py_stages [THEN conjunct1] data_py_stages [THEN conjunct2]
      model_training_stages [THEN conjunct1] model_training_stages [THEN conjunct2])+

theorem errors_propagate_witness:
  "model_training sample_pandas first_label_sklearn
     \<lparr>files = Map.empty, writable = (\<lambda>path. True), stdout = []\<rparr> =
     (Some FileNotFoundError, \<lparr>files = Map.empty, writable = (\<lambda>path. True), stdout = []\<rparr>) \<and>
   model_training sample_pandas first_label_sklearn (sample_world []) =
     (Some EmptyDataError, sample_world []) \<and>
   (\<exists>e. model_training sample_pandas first_label_sklearn (sample_world ''header only'') =
      (Some e, sample_world ''header only'')) \<and>
   model_training sample_pandas first_label_sklearn (sample_world ''no zone column'') =
     (Some KeyError, sample_world ''no zone column'') \<and>
   model_training sample_pandas first_label_sklearn (sample_world ''two zones'') =
     (Some KeyError, sample_world ''two zones'') \<and>
   model_training sample_pandas first_label_sklearn (sample_world ''no target column'') =
     (Some KeyError, sample_world ''no target column'') \<and>
   model_training sample_pandas first_label_sklearn (sample_world ''one row with indicators'') =
     (Some ValueError, sample_world ''one row with indicators'') \<and>
   model_training sample_pandas (failing_sklearn 0) (sample_world ''five rows'') =
     (Some ValueError, sample_world ''five rows'') \<and>
   model_training sample_pandas (failing_sklearn 1) (sample_world ''five rows'') =
     (Some ValueError, sample_world ''five rows'') \<and>
   model_training sample_pandas (failing_sklearn 2) (sample_world ''five rows'') =
     (Some ValueError, sample_world ''five rows'') \<and>
   model_training sample_pandas (failing_sklearn 3) (sample_world ''five rows'') =
     (Some ValueError,
      py_print (py_print (sample_world ''five rows'') [OutText ''Accuracy:'', OutCell (Num 0)])
          [OutText (CHR 0x0A # ''Classification Report:'')]) \<and>
   model_training sample_pandas first_label_sklearn (read_only_world ''five rows'') =
     (Some OSError,
      py_print (py_print (py_print (read_only_world ''five rows'') [OutText ''Accuracy:'', OutCell (Num 0)])
          [OutText (CHR 0x0A # ''Classification Report:'')])
          [OutReport \<lparr>report_rows =
          [\<lparr>row_label = Str ''Corn'', row_precision = 0, row_recall = 0, row_f1 = 0,
              row_support = 0\<rparr>,
           \<lparr>row_label = Str ''Rice'', row_precision = 0, row_recall = 0, row_f1 = 0,
              row_support = 1\<rparr>],
        report_accuracy = Num 0,
        report_macro_avg = (Num 0, Num 0, Num 0),
        report_weighted_avg = (Num 0, Num 0, Num 0),
        report_support = 1\<rparr>]) \<and>
   files (py_print (py_print (py_print (read_only_world ''five rows'') [OutText ''Accuracy:'', OutCell (Num 0)])
          [OutText (CHR 0x0A # ''Classification Report:'')])
          [OutReport \<lparr>report_rows =
          [\<lparr>row_label = Str ''Corn'', row_precision = 0, row_recall = 0, row_f1 = 0,
              row_support = 0\<rparr>,
           \<lparr>row_label = Str ''Rice'', row_precision = 0, row_recall = 0, row_f1 = 0,
              row_support = 1\<rparr>],
        report_accuracy = Num 0,
        report_macro_avg = (Num 0, Num 0, Num 0),
        report_weighted_avg = (Num 0, Num 0, Num 0),
        report_support = 1\<rparr>]) =
     files (read_only_world ''five rows'') \<and>
   model_training sample_pandas first_label_sklearn (sample_world ''five rows'') =
     (None,
      (py_print (py_print (py_print (sample_world ''five rows'') [OutText ''Accuracy:'', OutCell (Num 0)])
          [OutText (CHR 0x0A # ''Classification Report:'')])
          [OutReport \<lparr>report_rows =
          [\<lparr>row_label = Str ''Corn'', row_precision = 0, row_recall = 0, row_f1 = 0,
              row_support = 0\<rparr>,
           \<lparr>row_label = Str ''Rice'', row_precision = 0, row_recall = 0, row_f1 = 0,
              row_support = 1\<rparr>],
        report_accuracy = Num 0,
        report_macro_avg = (Num 0, Num 0, Num 0),
        report_weighted_avg = (Num 0, Num 0, Num 0),
        report_support = 1\<rparr>])
        \<lparr>files := (files (sample_world ''five rows''))
           (''agricultural_product_recommendation_model.joblib'' \<mapsto> ''model'')\<rparr>) \<and>
   generate_dummy_data lcg_numpy 0 (- 1) = Inl ValueError \<and>
   data_py broken_numpy sample_pandas 0 (sample_world ''five rows'') =
     (Some IndexError, sample_world ''five rows'') \<and>
   (\<exists>data g'. generate_dummy_data_call lcg_numpy 0 None = Inr (data, g') \<and>
      data_py lcg_numpy sample_pandas 0 (read_only_world ''five rows'') =
        (Some OSError, py_print (read_only_world ''five rows'') [OutFrame (head data)]) \<and>
      files (py_print (read_only_world ''five rows'') [OutFrame (head data)]) =
        files (read_only_world ''five rows''))"
proof -
  note t = errors_propagate
  note c10 = t [THEN conjunct2, THEN conjunct2, THEN conjunct2, THEN conjunct2, THEN conjunct2,
      THEN conjunct2, THEN conjunct2, THEN conjunct2, THEN conjunct2]
  note c8 = t [THEN conjunct2, THEN conjunct2, THEN conjunct2, THEN conjunct2, THEN conjunct2,
      THEN conjunct2, THEN conjunct2, THEN conjunct1]
  note c7 = t [THEN conjunct2, THEN conjunct2, THEN conjunct2, THEN conjunct2, THEN conjunct2,
      THEN conjunct2, THEN conjunct1]
  note c6 = t [THEN conjunct2, THEN conjunct2, THEN conjunct2, THEN conjunct2, THEN conjunct2,
      THEN conjunct1]
  note c4 = t [THEN conjunct2, THEN conjunct2, THEN conjunct2, THEN conjunct1]
  note c3 = t [THEN conjunct2, THEN conjunct2, THEN conjunct1]
  note c2 = t [THEN conjunct2, THEN conjunct1]
  note c1 = t [THEN conjunct1]
  have h1: "files \<lparr>files = Map.empty, writable = (\<lambda>path. True), stdout = []\<rparr>
      ''dummy_agricultural_data.csv'' = None"
    by simp
  have h2: "files (sample_world []) ''dummy_agricultural_data.csv'' = Some [] \<and>
      pd_parse_csv sample_pandas [] = Inl EmptyDataError"
    by (simp add: sample_world_def sample_pandas_def)
  have h3: "read_csv sample_pandas (sample_world ''header only'') ''dummy_agricultural_data.csv'' =
      Inr header_frame \<and> list_all (\<lambda>(name, col). col = []) header_frame"
    by (simp add: read_csv_def sample_world_def sample_pandas_def header_frame_def)
  note W1 = c1 [THEN mp, OF h1, of sample_pandas first_label_sklearn]
  note W2 = c2 [THEN mp, OF h2, of first_label_sklearn]
  note W3 = c3 [THEN mp, OF h3, of first_label_sklearn]
  note W4 = c10 [THEN mp, OF read_no_zone, THEN conjunct1, THEN mp, OF dummies_no_zone,
      of first_label_sklearn]
  note W5 = c10 [THEN mp, OF read_two, THEN conjunct2, THEN mp, OF dummies_two,
      THEN conjunct1, THEN mp, OF select_two, of first_label_sklearn]
  note W6 = c10 [THEN mp, OF read_no_target, THEN conjunct2, THEN mp, OF dummies_no_target,
      THEN conjunct2, THEN mp, OF select_no_target, THEN conjunct1, THEN mp, OF target_no_target,
      of first_label_sklearn]
  note W7 = c10 [THEN mp, OF read_one_indicators, THEN conjunct2, THEN mp,
      OF dummies_one_indicators, THEN conjunct2, THEN mp, OF select_one_indicators,
      THEN conjunct2, THEN mp, OF target_one_indicators, THEN conjunct1, THEN mp,
      OF split_one_indicators]
  note five = c10 [THEN mp, OF read_five, THEN conjunct2, THEN mp, OF dummies_five,
      THEN conjunct2, THEN mp, OF select_five, THEN conjunct2, THEN mp, OF target_five,
      THEN conjunct2]
  note W8 = five [THEN mp, OF split_five_failing, THEN conjunct1, THEN mp, OF fit_stage0]
  note W9 = five [THEN mp, OF split_five_failing, THEN conjunct2, THEN mp, OF fit_stage1,
      THEN conjunct1, THEN mp, OF predict_stage1]
  note W10 = five [THEN mp, OF split_five_failing, THEN conjunct2, THEN mp, OF fit_stage2,
      THEN conjunct2, THEN mp, OF predict_stage2, THEN conjunct1, THEN mp, OF accuracy_stage2]
  note W11 = five [THEN mp, OF split_five_failing, THEN conjunct2, THEN mp, OF fit_stage3,
      THEN conjunct2, THEN mp, OF predict_stage3, THEN conjunct2, THEN mp, OF accuracy_stage3,
      THEN conjunct1, THEN mp, OF report_stage3]
  note ro = c10 [THEN mp, OF read_five_read_only, THEN conjunct2, THEN mp, OF dummies_five,
      THEN conjunct2, THEN mp, OF select_five, THEN conjunct2, THEN mp, OF target_five,
      THEN conjunct2, THEN mp, OF split_five, THEN conjunct2, THEN mp, OF fit_five,
      THEN conjunct2, THEN mp, OF predict_five, THEN conjunct2, THEN mp, OF accuracy_five,
      THEN conjunct2, THEN mp, OF report_five]
  note W12 = ro [THEN conjunct1, THEN mp, OF dump_read_only]
  note W13 = c4 [THEN mp, OF W12]
  note W14 = five [THEN mp, OF split_five, THEN conjunct2, THEN mp, OF fit_five,
      THEN conjunct2, THEN mp, OF predict_five, THEN conjunct2, THEN mp, OF accuracy_five,
      THEN conjunct2, THEN mp, OF report_five, THEN conjunct2, THEN mp, OF dump_writable]
  have neg: "(- 1 :: int) < 0" by simp
  note W15 = c6 [THEN mp, OF neg, of lcg_numpy 0]
  note W16 = c7 [THEN mp, OF generate_call_broken, of sample_pandas 0 "sample_world ''five rows''"]
  have "(0::int) \<le> 1000" by simp
  from generate_dummy_data_Inr [OF lcg_numpy_contract this, of 0] obtain data g' where
    gen: "generate_dummy_data_call lcg_numpy 0 None = Inr (data, g')"
    by (auto simp: generate_dummy_data_call_def)
  have csv: "to_csv sample_pandas data ''dummy_agricultural_data.csv''
      (py_print (read_only_world ''five rows'') [OutFrame (head data)]) = Inl OSError"
    by (simp add: to_csv_def write_file_def py_print_def read_only_world_def)
  note r = c8 [THEN mp, OF gen, THEN conjunct1, THEN mp, OF csv]
  have W17: "(\<exists>data g'. generate_dummy_data_call lcg_numpy 0 None = Inr (data, g') \<and>
      data_py lcg_numpy sample_pandas 0 (read_only_world ''five rows'') =
        (Some OSError, py_print (read_only_world ''five rows'') [OutFrame (head data)]) \<and>
      files (py_print (read_only_world ''five rows'') [OutFrame (head data)]) =
        files (read_only_world ''five rows''))"
    using gen r
      t [THEN conjunct2, THEN conjunct2, THEN conjunct2, THEN conjunct2, THEN conjunct1, THEN mp,
        OF r]
    by blast
  show ?thesis
    by (intro conjI W1 W2 W3 W4 W5 W6 W7 W8 W9 W10 W11 W12 W13 W14 W15 W16 W17)
qed

subsection \<open>The two trainer files\<close>

text \<open>
  Claim C10. The two trainer files are behaviourally equivalent: for every parser,
  classifier and world, the script under \<^verbatim>\<open>src/ml-predict/models\<close> ends with the same
  exception or none and leaves the same world (the same printed lines and the same model
  file) as the script under \<^verbatim>\<open>ml-predict/models\<close>.
\<close>

theorem model_training_src_equivalent: "model_training_src P S w = model_training P S w"
  by (simp add: model_training_src_def model_training_def)

end
